theory Spec2Isabelle
  imports Main "HOL-Library.Word"
begin

unbundle bit_operations_syntax

chapter \<open>Fossilize: pipeline-state cache and replay supervisor\<close>

text \<open>
  A shallow embedding of \<^verbatim>\<open>vulkan_pipeline_cache.cpp\<close> (hashing, recorder, serializer,
  parser, scratch allocator) and of the master side of
  \<^verbatim>\<open>cli/fossilize_replay_windows.hpp\<close> (message parser, shutdown and respawn of a worker).
  Machine integers are words of the width the source declares; \<^verbatim>\<open>size_t\<close> is 64 bits.
\<close>

type_synonym Hash = "64 word"
type_synonym handle = nat

section \<open>ScratchAllocator\<close>

text \<open>
  \<^verbatim>\<open>ScratchAllocator::Block\<close>: the constructor allocates the blob with \<^verbatim>\<open>new\<close>, which throws
  instead of returning null, so every constructed block has \<open>blob = True\<close>; the offset of
  a new block is 0. A pointer into the arena is a pair of the block's index and the byte
  offset into its blob.
\<close>

record Block =
  blob :: bool
  offset :: "64 word"
  size_blk :: "64 word"

definition add_block :: "Block list \<Rightarrow> 64 word \<Rightarrow> Block list" where
  "add_block blocks minimum_size =
     blocks @ [\<lparr>blob = True, offset = 0,
                size_blk = (if minimum_size < 64 * 1024 then 64 * 1024 else minimum_size)\<rparr>]"

text \<open>
  \<^verbatim>\<open>allocate_raw\<close> calls itself after adding a block. Nothing bounds the number of calls, so
  the function is defined as a partial function: \<open>None\<close> is "does not return", \<open>Some (None, _)\<close>
  is the null pointer.
\<close>

partial_function (option) allocate_raw ::
  "Block list \<Rightarrow> 64 word \<Rightarrow> 64 word \<Rightarrow> ((nat \<times> 64 word) option \<times> Block list) option" where
  "allocate_raw blocks sz alignment =
     (let blocks1 = (if blocks = [] then add_block blocks (sz + alignment) else blocks);
          block = last blocks1
      in if \<not> blob block then Some (None, blocks1)
         else
           let off = (offset block + alignment - 1) AND NOT alignment;
               required_size = off + sz
           in if required_size \<le> sz
              then Some (Some (length blocks1 - 1, off),
                         butlast blocks1 @ [block\<lparr>offset := required_size\<rparr>])
              else allocate_raw (add_block blocks1 (sz + alignment)) sz alignment)"

declare allocate_raw.simps [code]

text \<open>The last block is untouched (or there is no block yet, and the first call adds one).\<close>

definition fresh_last :: "Block list \<Rightarrow> bool" where
  "fresh_last blocks \<longleftrightarrow> blocks = [] \<or> (blob (last blocks) \<and> offset (last blocks) = 0)"

text \<open>The fit test of \<^verbatim>\<open>allocate_raw\<close> on an untouched block fails.\<close>

definition misfit :: "64 word \<Rightarrow> 64 word \<Rightarrow> bool" where
  "misfit sz alignment \<longleftrightarrow> \<not> ((alignment - 1) AND NOT alignment) + sz \<le> sz"

section \<open>Supervisor: messages from a worker\<close>

subsection \<open>The C library's number parsing\<close>

text \<open>
  \<^verbatim>\<open>strtol\<close> and \<^verbatim>\<open>strtoull\<close> as the C standard describes them: white space is skipped, a
  sign is read, base 0 selects base 16 after \<^verbatim>\<open>0x\<close>, base 8 after a leading \<^verbatim>\<open>0\<close> and base 10
  otherwise, the longest run of digits of the base is converted, and a value out of range
  is clamped. On the platform of this file \<^verbatim>\<open>long\<close> has 32 bits.
\<close>

definition isspace_c :: "char \<Rightarrow> bool" where
  "isspace_c c \<longleftrightarrow> (of_char c :: nat) \<in> {9, 10, 11, 12, 13, 32}"

definition digit_value :: "char \<Rightarrow> nat option" where
  "digit_value c =
     (let n = (of_char c :: nat)
      in if 48 \<le> n \<and> n \<le> 57 then Some (n - 48)
         else if 97 \<le> n \<and> n \<le> 122 then Some (n - 87)
         else if 65 \<le> n \<and> n \<le> 90 then Some (n - 55)
         else None)"

fun scan_digits :: "nat \<Rightarrow> string \<Rightarrow> nat list" where
  "scan_digits base [] = []"
| "scan_digits base (c # cs) =
     (case digit_value c of
        None \<Rightarrow> []
      | Some d \<Rightarrow> if d < base then d # scan_digits base cs else [])"

definition digits_value :: "nat \<Rightarrow> nat list \<Rightarrow> nat" where
  "digits_value base ds = foldl (\<lambda>a d. a * base + d) 0 ds"

definition has_hex_prefix :: "string \<Rightarrow> bool" where
  "has_hex_prefix s =
     (case s of
        c0 # cx # ch # _ \<Rightarrow>
          c0 = CHR ''0'' \<and> (cx = CHR ''x'' \<or> cx = CHR ''X'') \<and>
          (case digit_value ch of None \<Rightarrow> False | Some d \<Rightarrow> d < 16)
      | _ \<Rightarrow> False)"

definition strto_scan :: "string \<Rightarrow> nat \<Rightarrow> bool \<times> nat" where
  "strto_scan s base =
     (let s1 = dropWhile isspace_c s;
          neg = (case s1 of c # _ \<Rightarrow> c = CHR ''-'' | [] \<Rightarrow> False);
          s2 = (case s1 of c # r \<Rightarrow> if c = CHR ''-'' \<or> c = CHR ''+'' then r else s1 | [] \<Rightarrow> []);
          base' = (if base = 0
                   then (if has_hex_prefix s2 then 16
                         else if (case s2 of c0 # _ \<Rightarrow> c0 = CHR ''0'' | [] \<Rightarrow> False) then 8
                         else 10)
                   else base);
          s3 = (if base' = 16 \<and> has_hex_prefix s2 then drop 2 s2 else s2)
      in (neg, digits_value base' (scan_digits base' s3)))"

definition strtol :: "string \<Rightarrow> nat \<Rightarrow> int" where
  "strtol s base =
     (case strto_scan s base of
        (neg, v) \<Rightarrow> if neg then max (- int v) (- (2 ^ 31)) else min (int v) (2 ^ 31 - 1))"

definition strtoull :: "string \<Rightarrow> nat \<Rightarrow> 64 word" where
  "strtoull s base =
     (case strto_scan s base of
        (neg, v) \<Rightarrow> if 2 ^ 64 \<le> v then - 1 else if neg then - of_nat v else of_nat v)"

text \<open>The value of a string of decimal digits, as a reader of base 10 takes it.\<close>

definition is_decimal :: "string \<Rightarrow> bool" where
  "is_decimal ds \<longleftrightarrow> ds \<noteq> [] \<and> list_all (\<lambda>c. 48 \<le> (of_char c :: nat) \<and> (of_char c :: nat) \<le> 57) ds"

definition decimal_value :: "string \<Rightarrow> nat" where
  "decimal_value ds = foldl (\<lambda>a c. a * 10 + (of_char c - 48)) 0 ds"

subsection \<open>The supervisor's state\<close>

text \<open>
  Modelled from the spec: \<^verbatim>\<open>SharedControlBlock\<close> and \<^verbatim>\<open>shared_control_block_write\<close> are
  declared in \<^verbatim>\<open>fossilize_external_replayer.hpp\<close>, which is not among the sources. The
  control block holds the counters \<open>banned_modules\<close>, \<open>clean_process_deaths\<close> and
  \<open>dirty_process_deaths\<close> and a ring buffer of fixed-size message slots; a write enqueues
  one message.
\<close>

record SharedControlBlock =
  banned_modules :: "32 word"
  clean_process_deaths :: "32 word"
  dirty_process_deaths :: "32 word"
  ring_buffer :: "string list"

definition shared_control_block_write :: "SharedControlBlock \<Rightarrow> string \<Rightarrow> SharedControlBlock" where
  "shared_control_block_write cb msg = cb\<lparr>ring_buffer := ring_buffer cb @ [msg]\<rparr>"

text \<open>The variables of namespace \<^verbatim>\<open>Global\<close> that the modelled functions read or write.\<close>

record Global =
  faulty_spirv_modules :: "Hash set"
  active_processes :: "32 word"
  control_block :: "SharedControlBlock option"

text \<open>
  \<^verbatim>\<open>struct ProcessProgress\<close>. A null or invalid handle is \<open>None\<close>. The two progress counters
  are C \<^verbatim>\<open>int\<close>s; they only ever hold \<open>-1\<close> or a result of \<open>strtol\<close>.
\<close>

record ProcessProgress =
  start_graphics_index :: "32 word"
  start_compute_index :: "32 word"
  end_graphics_index :: "32 word"
  end_compute_index :: "32 word"
  process :: "handle option"
  crash_file_handle :: "handle option"
  timer_handle :: "handle option"
  pipe_event :: "handle option"
  compute_progress :: int
  graphics_progress :: int
  index :: "32 word"

text \<open>What the operating system answers while one message is parsed.\<close>

record parse_os =
  create_timer :: "handle option"  \<comment> \<open>result of \<^verbatim>\<open>CreateWaitableTimer\<close>\<close>
  mutex_acquired :: bool           \<comment> \<open>\<^verbatim>\<open>WaitForSingleObject(shared_mutex) == WAIT_OBJECT_0\<close>\<close>

definition parse :: "parse_os \<Rightarrow> string \<Rightarrow> ProcessProgress \<times> Global \<Rightarrow> ProcessProgress \<times> Global" where
  "parse os cmd = (\<lambda>(p, g).
     if take 5 cmd = ''CRASH'' then (p\<lparr>timer_handle := create_timer os\<rparr>, g)
     else if take 8 cmd = ''GRAPHICS'' then (p\<lparr>graphics_progress := strtol (drop 8 cmd) 0\<rparr>, g)
     else if take 7 cmd = ''COMPUTE'' then (p\<lparr>compute_progress := strtol (drop 7 cmd) 0\<rparr>, g)
     else if take 6 cmd = ''MODULE'' then
       (let hash = strtoull (drop 6 cmd) 16;
            g1 = g\<lparr>faulty_spirv_modules := insert hash (faulty_spirv_modules g)\<rparr>
        in case control_block g1 of
             None \<Rightarrow> (p, g1)
           | Some cb \<Rightarrow>
               (let cb1 = cb\<lparr>banned_modules := banned_modules cb + 1\<rparr>;
                    cb2 = (if mutex_acquired os then shared_control_block_write cb1 cmd else cb1)
                in (p, g1\<lparr>control_block := Some cb2\<rparr>)))
     else (p, g))"

text \<open>
  One completed overlapped read, as \<^verbatim>\<open>process_once\<close> sees it: the event could not be reset,
  the read failed (the pipe is closed or empty), or a message arrived; \<open>kick_ok\<close> is the
  result of queueing the next read.
\<close>

datatype pipe_read =
    ResetFailed
  | ReadFailed
  | ReadMessage string parse_os bool

definition process_once :: "pipe_read \<Rightarrow> ProcessProgress \<times> Global \<Rightarrow> bool \<times> ProcessProgress \<times> Global" where
  "process_once ev = (\<lambda>(p, g).
     if crash_file_handle p = None then (False, p, g)
     else case ev of
            ResetFailed \<Rightarrow> (False, p, g)
          | ReadFailed \<Rightarrow> (False, p, g)
          | ReadMessage msg os kick_ok \<Rightarrow>
              if length msg < 1024
              then (case parse os (takeWhile (\<lambda>c. c \<noteq> CHR 0x00) msg) (p, g) of
                      (p1, g1) \<Rightarrow> (kick_ok, p1, g1))
              else (False, p, g))"

text \<open>
  \<^verbatim>\<open>while (process_once());\<close> reads until a read fails. The reads that the pipe still
  answers are a list; after the last one the read fails.
\<close>

fun flush_messages :: "pipe_read list \<Rightarrow> ProcessProgress \<times> Global \<Rightarrow> ProcessProgress \<times> Global" where
  "flush_messages [] s = s"
| "flush_messages (ev # evs) s =
     (case process_once ev s of
        (again, s1) \<Rightarrow> if again then flush_messages evs s1 else s1)"

text \<open>What the operating system answers during \<^verbatim>\<open>process_shutdown\<close>.\<close>

record shutdown_os =
  pending_reads :: "pipe_read list"
  wait_ok :: bool                   \<comment> \<open>\<^verbatim>\<open>WaitForSingleObject(process) == WAIT_OBJECT_0\<close>\<close>
  exit_code :: "32 word option"     \<comment> \<open>\<^verbatim>\<open>GetExitCodeProcess\<close>, \<open>None\<close> when it fails\<close>

definition process_shutdown ::
  "shutdown_os \<Rightarrow> ProcessProgress \<times> Global \<Rightarrow> bool \<times> ProcessProgress \<times> Global" where
  "process_shutdown os s =
     (case flush_messages (pending_reads os) s of
        (p0, g0) \<Rightarrow>
          let p1 = p0\<lparr>crash_file_handle := None, timer_handle := None, pipe_event := None\<rparr>
          in if process p1 \<noteq> None \<and> \<not> wait_ok os then (False, p1, g0)
             else
               let code = (if process p1 \<noteq> None
                           then (case exit_code os of None \<Rightarrow> 0 | Some c \<Rightarrow> c) else 0);
                   g1 = (if process p1 \<noteq> None
                         then g0\<lparr>active_processes := active_processes g0 - 1\<rparr> else g0);
                   p2 = p1\<lparr>process := None\<rparr>
               in if code = 0 then (False, p2, g1)
                  else if graphics_progress p2 < 0 \<or> compute_progress p2 < 0
                  then (False, p2,
                        g1\<lparr>control_block :=
                             map_option (\<lambda>cb. cb\<lparr>dirty_process_deaths := dirty_process_deaths cb + 1\<rparr>)
                               (control_block g1)\<rparr>)
                  else
                    let g2 = g1\<lparr>control_block :=
                                  map_option (\<lambda>cb. cb\<lparr>clean_process_deaths := clean_process_deaths cb + 1\<rparr>)
                                    (control_block g1)\<rparr>;
                        p3 = p2\<lparr>start_graphics_index := word_of_int (graphics_progress p2),
                                start_compute_index := word_of_int (compute_progress p2)\<rparr>
                    in if start_graphics_index p3 \<ge> end_graphics_index p3 \<and>
                          start_compute_index p3 \<ge> end_compute_index p3
                       then (False, p3, g2)
                       else (True, p3, g2))"

text \<open>
  A worker process as \<^verbatim>\<open>start_child_process\<close> creates it: the two ranges of the command
  line, the worker's slot and the module hashes written to its standard input by
  \<^verbatim>\<open>send_faulty_modules_and_close\<close>.
\<close>

record child =
  graphics_range :: "32 word \<times> 32 word"
  compute_range :: "32 word \<times> 32 word"
  slot :: "32 word"
  blacklist :: "Hash set"

text \<open>
  What the operating system answers during \<^verbatim>\<open>start_child_process\<close>: whether every call up
  to and including \<^verbatim>\<open>CreateProcessA\<close> succeeded, the new handles, the result of
  \<^verbatim>\<open>CreateEvent\<close> and of the first \<^verbatim>\<open>kick_overlapped_io\<close>.
\<close>

record spawn_os =
  created :: bool
  new_process :: handle
  new_pipe :: handle
  new_event :: "handle option"
  first_kick_ok :: bool

definition start_child_process ::
  "spawn_os \<Rightarrow> ProcessProgress \<times> Global \<Rightarrow> bool \<times> child option \<times> ProcessProgress \<times> Global" where
  "start_child_process os = (\<lambda>(p, g).
     let p1 = p\<lparr>graphics_progress := - 1, compute_progress := - 1\<rparr>
     in if start_graphics_index p1 \<ge> end_graphics_index p1 \<and>
           start_compute_index p1 \<ge> end_compute_index p1
        then (True, None, p1, g)
        else if \<not> created os then (False, None, p1, g)
        else
          let c = \<lparr>graphics_range = (start_graphics_index p1, end_graphics_index p1),
                   compute_range = (start_compute_index p1, end_compute_index p1),
                   slot = index p1,
                   blacklist = faulty_spirv_modules g\<rparr>;
              p2 = p1\<lparr>process := Some (new_process os), crash_file_handle := Some (new_pipe os)\<rparr>;
              g2 = g\<lparr>active_processes := active_processes g + 1\<rparr>;
              p3 = p2\<lparr>pipe_event := new_event os\<rparr>
          in if new_event os = None then (False, Some c, p3, g2)
             else (first_kick_ok os, Some c, p3, g2))"

text \<open>
  The branch of \<^verbatim>\<open>run_master_process\<close> for a signalled process handle:
  \<^verbatim>\<open>if (process_shutdown() && !start_child_process()) return EXIT_FAILURE;\<close>.
  The first component is \<open>False\<close> when the master gives up.
\<close>

definition process_finished ::
  "shutdown_os \<Rightarrow> spawn_os \<Rightarrow> ProcessProgress \<times> Global \<Rightarrow> bool \<times> child option \<times> ProcessProgress \<times> Global" where
  "process_finished sos cos s =
     (case process_shutdown sos s of
        (again, s1) \<Rightarrow> if again then start_child_process cos s1 else (True, None, s1))"

subsection \<open>A worker that crashes in the middle of its range\<close>

text \<open>
  Worker 0 owns graphics pipelines 0 to 2 and compute pipelines 0 and 1. Its crash handler
  reports one module and the indices it had reached, and the process ends with code 2.
\<close>

definition worker0 :: ProcessProgress where
  "worker0 = \<lparr>start_graphics_index = 0, start_compute_index = 0,
               end_graphics_index = 3, end_compute_index = 2,
               process = Some 1, crash_file_handle = Some 2, timer_handle = None,
               pipe_event = Some 3, compute_progress = - 1, graphics_progress = - 1,
               index = 0\<rparr>"

definition global0 :: Global where
  "global0 = \<lparr>faulty_spirv_modules = {}, active_processes = 1,
               control_block = Some \<lparr>banned_modules = 0, clean_process_deaths = 0,
                                      dirty_process_deaths = 0, ring_buffer = []\<rparr>\<rparr>"

definition os_fine :: parse_os where
  "os_fine = \<lparr>create_timer = Some 4, mutex_acquired = True\<rparr>"

definition crash_report :: shutdown_os where
  "crash_report =
     \<lparr>pending_reads = [ReadMessage ''CRASH\<newline>'' os_fine True,
                        ReadMessage ''MODULE 00000000deadbeef\<newline>'' os_fine True,
                        ReadMessage ''GRAPHICS 1\<newline>'' os_fine True,
                        ReadMessage ''COMPUTE 0\<newline>'' os_fine True],
      wait_ok = True, exit_code = Some 2\<rparr>"

definition spawn_fine :: spawn_os where
  "spawn_fine = \<lparr>created = True, new_process = 5, new_pipe = 6, new_event = Some 7,
                  first_kick_ok = True\<rparr>"

text \<open>A worker that dies with code 2 before any message, and one that ends with code 0.\<close>

definition early_crash :: shutdown_os where
  "early_crash = \<lparr>pending_reads = [], wait_ok = True, exit_code = Some 2\<rparr>"

definition clean_exit :: shutdown_os where
  "clean_exit = \<lparr>pending_reads = [], wait_ok = True, exit_code = Some 0\<rparr>"

text \<open>
  A worker whose crash handler wrote \<^verbatim>\<open>CRASH\<close> and \<^verbatim>\<open>GRAPHICS 1\<close> and could not write its
  \<^verbatim>\<open>COMPUTE\<close> line: the handler ends the process with code 2 when a write fails.
\<close>

definition graphics_only :: shutdown_os where
  "graphics_only =
     \<lparr>pending_reads = [ReadMessage ''CRASH\<newline>'' os_fine True,
                        ReadMessage ''GRAPHICS 1\<newline>'' os_fine True],
      wait_ok = True, exit_code = Some 2\<rparr>"

section \<open>Pipeline state\<close>

text \<open>
  The Vulkan create-info structures, with the fields that the hashing, recording and
  serializing code reads. A 32-bit field (an enum, a flag word, a \<^verbatim>\<open>VkBool32\<close>, a count) is a
  \<open>32 word\<close>; a \<^verbatim>\<open>float\<close> is its 32-bit pattern, which is what the hasher takes; a handle
  is a \<open>64 word\<close>. A pointer to an optional structure is an \<open>option\<close>. An array is a list
  beside its count field; where the source tests the pointer itself the list is under an
  \<open>option\<close>, \<open>None\<close> being the null pointer.
\<close>

type_synonym u32 = "32 word"
type_synonym f32 = "32 word"
type_synonym vk_handle = "64 word"

datatype error =
    UnknownHandle      \<comment> \<open>\<^verbatim>\<open>runtime_error("Handle is not registered.")\<close>\<close>
  | LogicError         \<comment> \<open>\<^verbatim>\<open>logic_error\<close> thrown by the parser for an index out of range\<close>
  | OutOfBounds        \<comment> \<open>an array is read or written past its end\<close>
  | NullPointer        \<comment> \<open>a null or dangling pointer is read\<close>
  | AssertionFailed    \<comment> \<open>a \<^verbatim>\<open>RAPIDJSON_ASSERT\<close> fails: the process aborts\<close>
  | BadAlloc           \<comment> \<open>\<^verbatim>\<open>std::bad_alloc\<close>: \<^verbatim>\<open>new\<close> finds no memory\<close>

text \<open>
  The errors that are C++ exceptions derived from \<^verbatim>\<open>std::exception\<close>, which a
  \<^verbatim>\<open>catch (const exception &)\<close> catches. The others end the process or are undefined
  behaviour.
\<close>

definition is_exception :: "error \<Rightarrow> bool" where
  "is_exception e \<longleftrightarrow> e = UnknownHandle \<or> e = LogicError \<or> e = BadAlloc"

text \<open>Reading the first \<open>n\<close> elements of an array; reading past its end is undefined in C.\<close>

definition read_array :: "nat \<Rightarrow> 'a list \<Rightarrow> error + 'a list" where
  "read_array n xs = (if n \<le> length xs then Inr (take n xs) else Inl OutOfBounds)"

definition read_ptr :: "nat \<Rightarrow> 'a list option \<Rightarrow> error + 'a list" where
  "read_ptr n p =
     (if n = 0 then Inr []
      else case p of None \<Rightarrow> Inl NullPointer | Some xs \<Rightarrow> read_array n xs)"

record VkSpecializationMapEntry =
  constantID :: u32
  me_offset :: u32
  me_size :: "64 word"

record VkSpecializationInfo =
  mapEntryCount :: u32
  pMapEntries :: "VkSpecializationMapEntry list"
  dataSize :: "64 word"
  pData :: "8 word list"

record VkPipelineShaderStageCreateInfo =
  st_flags :: u32
  st_stage :: u32
  st_module :: vk_handle
  pName :: string
  pSpecializationInfo :: "VkSpecializationInfo option"

record VkVertexInputBindingDescription =
  vb_binding :: u32
  stride :: u32
  inputRate :: u32

record VkVertexInputAttributeDescription =
  location :: u32
  va_binding :: u32
  va_format :: u32
  va_offset :: u32

record VkPipelineVertexInputStateCreateInfo =
  vi_flags :: u32
  vertexBindingDescriptionCount :: u32
  pVertexBindingDescriptions :: "VkVertexInputBindingDescription list"
  vertexAttributeDescriptionCount :: u32
  pVertexAttributeDescriptions :: "VkVertexInputAttributeDescription list"

record VkPipelineInputAssemblyStateCreateInfo =
  ia_flags :: u32
  topology :: u32
  primitiveRestartEnable :: u32

record VkPipelineTessellationStateCreateInfo =
  ts_flags :: u32
  patchControlPoints :: u32

record VkViewport =
  vp_x :: f32
  vp_y :: f32
  vp_width :: f32
  vp_height :: f32
  minDepth :: f32
  maxDepth :: f32

record VkRect2D =
  offset_x :: "32 word"
  offset_y :: "32 word"
  extent_width :: u32
  extent_height :: u32

record VkPipelineViewportStateCreateInfo =
  vs_flags :: u32
  viewportCount :: u32
  pViewports :: "VkViewport list option"
  scissorCount :: u32
  pScissors :: "VkRect2D list option"

record VkPipelineRasterizationStateCreateInfo =
  rs_flags :: u32
  depthClampEnable :: u32
  rasterizerDiscardEnable :: u32
  polygonMode :: u32
  cullMode :: u32
  frontFace :: u32
  depthBiasEnable :: u32
  depthBiasConstantFactor :: f32
  depthBiasClamp :: f32
  depthBiasSlopeFactor :: f32
  lineWidth :: f32

record VkPipelineMultisampleStateCreateInfo =
  ms_flags :: u32
  rasterizationSamples :: u32
  sampleShadingEnable :: u32
  minSampleShading :: f32
  pSampleMask :: "u32 list option"
  alphaToCoverageEnable :: u32
  alphaToOneEnable :: u32

record VkStencilOpState =
  failOp :: u32
  passOp :: u32
  depthFailOp :: u32
  compareOp :: u32
  compareMask :: u32
  writeMask :: u32
  reference :: u32

record VkPipelineDepthStencilStateCreateInfo =
  ds_flags :: u32
  depthTestEnable :: u32
  depthWriteEnable :: u32
  depthCompareOp :: u32
  depthBoundsTestEnable :: u32
  stencilTestEnable :: u32
  ds_front :: VkStencilOpState
  ds_back :: VkStencilOpState
  minDepthBounds :: f32
  maxDepthBounds :: f32

record VkPipelineColorBlendAttachmentState =
  blendEnable :: u32
  srcColorBlendFactor :: u32
  dstColorBlendFactor :: u32
  colorBlendOp :: u32
  srcAlphaBlendFactor :: u32
  dstAlphaBlendFactor :: u32
  alphaBlendOp :: u32
  colorWriteMask :: u32

record VkPipelineColorBlendStateCreateInfo =
  cb_flags :: u32
  logicOpEnable :: u32
  logicOp :: u32
  attachmentCount :: u32
  pAttachments :: "VkPipelineColorBlendAttachmentState list"
  blendConstants :: "f32 \<times> f32 \<times> f32 \<times> f32"

record VkPipelineDynamicStateCreateInfo =
  dy_flags :: u32
  dynamicStateCount :: u32
  pDynamicStates :: "u32 list"

record VkGraphicsPipelineCreateInfo =
  gp_flags :: u32
  stageCount :: u32
  pStages :: "VkPipelineShaderStageCreateInfo list"
  pVertexInputState :: "VkPipelineVertexInputStateCreateInfo option"
  pInputAssemblyState :: "VkPipelineInputAssemblyStateCreateInfo option"
  pTessellationState :: "VkPipelineTessellationStateCreateInfo option"
  pViewportState :: "VkPipelineViewportStateCreateInfo option"
  pRasterizationState :: "VkPipelineRasterizationStateCreateInfo option"
  pMultisampleState :: "VkPipelineMultisampleStateCreateInfo option"
  pDepthStencilState :: "VkPipelineDepthStencilStateCreateInfo option"
  pColorBlendState :: "VkPipelineColorBlendStateCreateInfo option"
  pDynamicState :: "VkPipelineDynamicStateCreateInfo option"
  gp_layout :: vk_handle
  renderPass :: vk_handle
  subpass :: u32
  gp_basePipelineHandle :: vk_handle
  gp_basePipelineIndex :: "32 word"

text \<open>The values of the Vulkan enumerations that the code names.\<close>

definition VK_DYNAMIC_STATE_VIEWPORT :: u32 where "VK_DYNAMIC_STATE_VIEWPORT = 0"
definition VK_DYNAMIC_STATE_SCISSOR :: u32 where "VK_DYNAMIC_STATE_SCISSOR = 1"
definition VK_DYNAMIC_STATE_LINE_WIDTH :: u32 where "VK_DYNAMIC_STATE_LINE_WIDTH = 2"
definition VK_DYNAMIC_STATE_DEPTH_BIAS :: u32 where "VK_DYNAMIC_STATE_DEPTH_BIAS = 3"
definition VK_DYNAMIC_STATE_BLEND_CONSTANTS :: u32 where "VK_DYNAMIC_STATE_BLEND_CONSTANTS = 4"
definition VK_DYNAMIC_STATE_DEPTH_BOUNDS :: u32 where "VK_DYNAMIC_STATE_DEPTH_BOUNDS = 5"
definition VK_DYNAMIC_STATE_STENCIL_COMPARE_MASK :: u32 where
  "VK_DYNAMIC_STATE_STENCIL_COMPARE_MASK = 6"
definition VK_DYNAMIC_STATE_STENCIL_WRITE_MASK :: u32 where
  "VK_DYNAMIC_STATE_STENCIL_WRITE_MASK = 7"
definition VK_DYNAMIC_STATE_STENCIL_REFERENCE :: u32 where
  "VK_DYNAMIC_STATE_STENCIL_REFERENCE = 8"

definition VK_BLEND_FACTOR_CONSTANT_COLOR :: u32 where "VK_BLEND_FACTOR_CONSTANT_COLOR = 10"
definition VK_BLEND_FACTOR_ONE_MINUS_CONSTANT_COLOR :: u32 where
  "VK_BLEND_FACTOR_ONE_MINUS_CONSTANT_COLOR = 11"
definition VK_BLEND_FACTOR_CONSTANT_ALPHA :: u32 where "VK_BLEND_FACTOR_CONSTANT_ALPHA = 12"
definition VK_BLEND_FACTOR_ONE_MINUS_CONSTANT_ALPHA :: u32 where
  "VK_BLEND_FACTOR_ONE_MINUS_CONSTANT_ALPHA = 13"

definition VK_DESCRIPTOR_TYPE_SAMPLER :: u32 where "VK_DESCRIPTOR_TYPE_SAMPLER = 0"
definition VK_DESCRIPTOR_TYPE_COMBINED_IMAGE_SAMPLER :: u32 where
  "VK_DESCRIPTOR_TYPE_COMBINED_IMAGE_SAMPLER = 1"

record VkSamplerCreateInfo =
  smp_flags :: u32
  magFilter :: u32
  minFilter :: u32
  mipmapMode :: u32
  addressModeU :: u32
  addressModeV :: u32
  addressModeW :: u32
  mipLodBias :: f32
  anisotropyEnable :: u32
  maxAnisotropy :: f32
  compareEnable :: u32
  smp_compareOp :: u32
  minLod :: f32
  maxLod :: f32
  borderColor :: u32
  unnormalizedCoordinates :: u32

text \<open>
  The immutable samplers of a binding are an array in the caller's memory, which
  \<^verbatim>\<open>copy_descriptor_set_layout\<close> writes to: on the recorder's side the field is an address
  into a store of sampler arrays. The parser builds the array itself: on its side the
  field is the array. The type parameter is what the pointer stands for.
\<close>

type_synonym sampler_arrays = "nat \<Rightarrow> vk_handle list option"

record 'p VkDescriptorSetLayoutBinding =
  binding :: u32
  descriptorType :: u32
  descriptorCount :: u32
  stageFlags :: u32
  pImmutableSamplers :: "'p option"

record 'p VkDescriptorSetLayoutCreateInfo =
  dsl_flags :: u32
  bindingCount :: u32
  pBindings :: "'p VkDescriptorSetLayoutBinding list"

record VkPushConstantRange =
  pc_stageFlags :: u32
  pc_offset :: u32
  pc_size :: u32

record VkPipelineLayoutCreateInfo =
  pl_flags :: u32
  setLayoutCount :: u32
  pSetLayouts :: "vk_handle list"
  pushConstantRangeCount :: u32
  pPushConstantRanges :: "VkPushConstantRange list"

text \<open>The code of a shader module is kept as the bytes that \<^verbatim>\<open>pCode\<close> points to.\<close>

record VkShaderModuleCreateInfo =
  sm_flags :: u32
  codeSize :: "64 word"
  pCode :: "8 word list"

record VkAttachmentDescription =
  at_flags :: u32
  at_format :: u32
  samples :: u32
  loadOp :: u32
  storeOp :: u32
  stencilLoadOp :: u32
  stencilStoreOp :: u32
  initialLayout :: u32
  finalLayout :: u32

record VkSubpassDependency =
  srcSubpass :: u32
  dstSubpass :: u32
  srcStageMask :: u32
  dstStageMask :: u32
  srcAccessMask :: u32
  dstAccessMask :: u32
  dependencyFlags :: u32

record VkAttachmentReference =
  attachment :: u32
  layout :: u32

record VkSubpassDescription =
  sp_flags :: u32
  pipelineBindPoint :: u32
  inputAttachmentCount :: u32
  pInputAttachments :: "VkAttachmentReference list option"
  colorAttachmentCount :: u32
  pColorAttachments :: "VkAttachmentReference list option"
  pResolveAttachments :: "VkAttachmentReference list option"
  pDepthStencilAttachment :: "VkAttachmentReference option"
  preserveAttachmentCount :: u32
  pPreserveAttachments :: "u32 list option"

record VkRenderPassCreateInfo =
  rp_flags :: u32
  attachmentCount_rp :: u32
  pAttachments_rp :: "VkAttachmentDescription list"
  subpassCount :: u32
  pSubpasses :: "VkSubpassDescription list"
  dependencyCount :: u32
  pDependencies :: "VkSubpassDependency list"

record VkComputePipelineCreateInfo =
  cp_flags :: u32
  cp_stage :: VkPipelineShaderStageCreateInfo
  cp_layout :: vk_handle
  cp_basePipelineHandle :: vk_handle
  cp_basePipelineIndex :: "32 word"

section \<open>StateRecorder\<close>

text \<open>
  The seven registries (vectors of a hash and a create info) and the seven maps from a
  handle to an index that \<^verbatim>\<open>set_<kind>_handle\<close> fills.
\<close>

record StateRecorder =
  samplers :: "(Hash \<times> VkSamplerCreateInfo) list"
  descriptor_sets :: "(Hash \<times> nat VkDescriptorSetLayoutCreateInfo) list"
  pipeline_layouts :: "(Hash \<times> VkPipelineLayoutCreateInfo) list"
  shader_modules :: "(Hash \<times> VkShaderModuleCreateInfo) list"
  render_passes :: "(Hash \<times> VkRenderPassCreateInfo) list"
  compute_pipelines :: "(Hash \<times> VkComputePipelineCreateInfo) list"
  graphics_pipelines :: "(Hash \<times> VkGraphicsPipelineCreateInfo) list"
  sampler_to_index :: "vk_handle \<Rightarrow> nat option"
  descriptor_set_layout_to_index :: "vk_handle \<Rightarrow> nat option"
  pipeline_layout_to_index :: "vk_handle \<Rightarrow> nat option"
  shader_module_to_index :: "vk_handle \<Rightarrow> nat option"
  render_pass_to_index :: "vk_handle \<Rightarrow> nat option"
  compute_pipeline_to_index :: "vk_handle \<Rightarrow> nat option"
  graphics_pipeline_to_index :: "vk_handle \<Rightarrow> nat option"

text \<open>
  \<^verbatim>\<open>get_hash_for_<kind>\<close>: a handle that is not in the map throws; the index found is used
  on the registry without a check.
\<close>

definition get_hash :: "(Hash \<times> 'a) list \<Rightarrow> (vk_handle \<Rightarrow> nat option) \<Rightarrow> vk_handle \<Rightarrow> error + Hash" where
  "get_hash registry to_index h =
     (case to_index h of
        None \<Rightarrow> Inl UnknownHandle
      | Some i \<Rightarrow> if i < length registry then Inr (fst (registry ! i)) else Inl OutOfBounds)"

definition get_hash_for_graphics_pipeline_handle :: "StateRecorder \<Rightarrow> vk_handle \<Rightarrow> error + Hash" where
  "get_hash_for_graphics_pipeline_handle r = get_hash (graphics_pipelines r) (graphics_pipeline_to_index r)"

definition get_hash_for_shader_module :: "StateRecorder \<Rightarrow> vk_handle \<Rightarrow> error + Hash" where
  "get_hash_for_shader_module r = get_hash (shader_modules r) (shader_module_to_index r)"

definition get_hash_for_pipeline_layout :: "StateRecorder \<Rightarrow> vk_handle \<Rightarrow> error + Hash" where
  "get_hash_for_pipeline_layout r = get_hash (pipeline_layouts r) (pipeline_layout_to_index r)"

definition get_hash_for_render_pass :: "StateRecorder \<Rightarrow> vk_handle \<Rightarrow> error + Hash" where
  "get_hash_for_render_pass r = get_hash (render_passes r) (render_pass_to_index r)"

section \<open>Hashing a graphics pipeline\<close>

text \<open>
  The class \<^verbatim>\<open>Hasher\<close> is declared in \<^verbatim>\<open>vulkan_pipeline_cache.hpp\<close>, which is not among the
  sources. The hashing functions are modelled by the sequence of typed tokens that they
  feed to it, one token for each call of \<^verbatim>\<open>u32\<close>, \<^verbatim>\<open>u64\<close>, \<^verbatim>\<open>s32\<close>, \<^verbatim>\<open>f32\<close>, \<^verbatim>\<open>string\<close>
  or \<^verbatim>\<open>data\<close>; what \<^verbatim>\<open>get\<close> returns after these calls is a parameter.
\<close>

datatype token =
    U32 u32
  | U64 "64 word"
  | S32 "32 word"
  | F32 f32
  | Str string
  | Data "8 word list" "64 word"

text \<open>Statements in sequence: the first one that fails ends the function.\<close>

fun concatE :: "('e + 'a list) list \<Rightarrow> 'e + 'a list" where
  "concatE [] = Inr []"
| "concatE (Inl e # _) = Inl e"
| "concatE (Inr xs # rest) = (case concatE rest of Inl e \<Rightarrow> Inl e | Inr ys \<Rightarrow> Inr (xs @ ys))"

definition hash_specialization_info :: "VkSpecializationInfo \<Rightarrow> error + token list" where
  "hash_specialization_info spec =
     concatE
       [map_sum id (\<lambda>bytes. [Data bytes (dataSize spec)]) (read_array (unat (dataSize spec)) (pData spec)),
        Inr [U32 (ucast (dataSize spec)), U32 (mapEntryCount spec)],
        map_sum id
          (\<lambda>es. concat (map (\<lambda>e. [U32 (me_offset e), U32 (ucast (me_size e)), U32 (constantID e)]) es))
          (read_array (unat (mapEntryCount spec)) (pMapEntries spec))]"

text \<open>
  The scan of the dynamic-state list sets a flag for each state it finds; the same loop
  hashes the states.
\<close>

definition is_dynamic :: "u32 \<Rightarrow> VkPipelineDynamicStateCreateInfo option \<Rightarrow> bool" where
  "is_dynamic d dyn =
     (case dyn of
        None \<Rightarrow> False
      | Some state \<Rightarrow> d \<in> set (take (unat (dynamicStateCount state)) (pDynamicStates state)))"

definition hash_dynamic_state :: "VkPipelineDynamicStateCreateInfo option \<Rightarrow> error + token list" where
  "hash_dynamic_state dyn =
     (case dyn of
        None \<Rightarrow> Inr [U32 0]
      | Some state \<Rightarrow>
          concatE
            [Inr [U32 (dynamicStateCount state), U32 (dy_flags state)],
             map_sum id (map U32) (read_array (unat (dynamicStateCount state)) (pDynamicStates state))])"

definition hash_depth_stencil ::
  "VkPipelineDynamicStateCreateInfo option \<Rightarrow> VkPipelineDepthStencilStateCreateInfo option \<Rightarrow> token list" where
  "hash_depth_stencil dyn dss =
     (case dss of
        None \<Rightarrow> [U32 0]
      | Some ds \<Rightarrow>
          [U32 (ds_flags ds), U32 (depthBoundsTestEnable ds), U32 (depthCompareOp ds),
           U32 (depthTestEnable ds), U32 (depthWriteEnable ds),
           U32 (compareOp (ds_front ds)), U32 (depthFailOp (ds_front ds)),
           U32 (failOp (ds_front ds)), U32 (passOp (ds_front ds)),
           U32 (compareOp (ds_back ds)), U32 (depthFailOp (ds_back ds)),
           U32 (failOp (ds_back ds)), U32 (passOp (ds_back ds)),
           U32 (stencilTestEnable ds)] @
          (if \<not> is_dynamic VK_DYNAMIC_STATE_DEPTH_BOUNDS dyn \<and> depthBoundsTestEnable ds \<noteq> 0
           then [F32 (minDepthBounds ds), F32 (maxDepthBounds ds)] else []) @
          (if stencilTestEnable ds \<noteq> 0
           then (if \<not> is_dynamic VK_DYNAMIC_STATE_STENCIL_COMPARE_MASK dyn
                 then [U32 (compareMask (ds_front ds)), U32 (compareMask (ds_back ds))] else []) @
                (if \<not> is_dynamic VK_DYNAMIC_STATE_STENCIL_REFERENCE dyn
                 then [U32 (reference (ds_front ds)), U32 (reference (ds_back ds))] else []) @
                (if \<not> is_dynamic VK_DYNAMIC_STATE_STENCIL_WRITE_MASK dyn
                 then [U32 (writeMask (ds_front ds)), U32 (writeMask (ds_back ds))] else [])
           else []))"

definition hash_input_assembly :: "VkPipelineInputAssemblyStateCreateInfo option \<Rightarrow> token list" where
  "hash_input_assembly ias =
     (case ias of
        None \<Rightarrow> [U32 0]
      | Some ia \<Rightarrow> [U32 (ia_flags ia), U32 (primitiveRestartEnable ia), U32 (topology ia)])"

definition hash_rasterization ::
  "VkPipelineDynamicStateCreateInfo option \<Rightarrow> VkPipelineRasterizationStateCreateInfo option \<Rightarrow> token list" where
  "hash_rasterization dyn rss =
     (case rss of
        None \<Rightarrow> [U32 0]
      | Some rs \<Rightarrow>
          [U32 (rs_flags rs), U32 (cullMode rs), U32 (depthClampEnable rs), U32 (frontFace rs),
           U32 (rasterizerDiscardEnable rs), U32 (polygonMode rs), U32 (depthBiasEnable rs)] @
          (if depthBiasEnable rs \<noteq> 0 \<and> \<not> is_dynamic VK_DYNAMIC_STATE_DEPTH_BIAS dyn
           then [F32 (depthBiasClamp rs), F32 (depthBiasSlopeFactor rs),
                 F32 (depthBiasConstantFactor rs)] else []) @
          (if \<not> is_dynamic VK_DYNAMIC_STATE_LINE_WIDTH dyn then [F32 (lineWidth rs)] else []))"

text \<open>The multisample block has no \<^verbatim>\<open>else\<close> branch: an absent block feeds nothing.\<close>

definition hash_multisample :: "VkPipelineMultisampleStateCreateInfo option \<Rightarrow> error + token list" where
  "hash_multisample mss =
     (case mss of
        None \<Rightarrow> Inr []
      | Some ms \<Rightarrow>
          concatE
            [Inr [U32 (ms_flags ms), U32 (alphaToCoverageEnable ms), U32 (alphaToOneEnable ms),
                  F32 (minSampleShading ms), U32 (rasterizationSamples ms),
                  U32 (sampleShadingEnable ms)],
             (case pSampleMask ms of
                None \<Rightarrow> Inr [U32 0]
              | Some sample_mask \<Rightarrow>
                  map_sum id (map U32)
                    (read_array (unat ((rasterizationSamples ms + 31) div 32)) sample_mask))])"

definition scissor_tokens :: "VkRect2D \<Rightarrow> token list" where
  "scissor_tokens sc =
     [S32 (offset_x sc), S32 (offset_y sc), U32 (extent_width sc), U32 (extent_height sc)]"

definition viewport_tokens :: "VkViewport \<Rightarrow> token list" where
  "viewport_tokens v =
     [F32 (vp_x v), F32 (vp_y v), F32 (vp_width v), F32 (vp_height v),
      F32 (minDepth v), F32 (maxDepth v)]"

definition hash_viewport ::
  "VkPipelineDynamicStateCreateInfo option \<Rightarrow> VkPipelineViewportStateCreateInfo option \<Rightarrow> error + token list" where
  "hash_viewport dyn vps =
     (case vps of
        None \<Rightarrow> Inr [U32 0]
      | Some vp \<Rightarrow>
          concatE
            [Inr [U32 (vs_flags vp), U32 (scissorCount vp), U32 (viewportCount vp)],
             (if \<not> is_dynamic VK_DYNAMIC_STATE_SCISSOR dyn
              then map_sum id (\<lambda>scs. concat (map scissor_tokens scs))
                     (read_ptr (unat (scissorCount vp)) (pScissors vp))
              else Inr []),
             (if \<not> is_dynamic VK_DYNAMIC_STATE_VIEWPORT dyn
              then map_sum id (\<lambda>vs. concat (map viewport_tokens vs))
                     (read_ptr (unat (viewportCount vp)) (pViewports vp))
              else Inr [])])"

definition hash_vertex_input :: "VkPipelineVertexInputStateCreateInfo option \<Rightarrow> error + token list" where
  "hash_vertex_input vis =
     (case vis of
        None \<Rightarrow> Inr [U32 0]
      | Some vi \<Rightarrow>
          concatE
            [Inr [U32 (vi_flags vi), U32 (vertexAttributeDescriptionCount vi),
                  U32 (vertexBindingDescriptionCount vi)],
             map_sum id
               (\<lambda>attrs. concat (map (\<lambda>a. [U32 (va_offset a), U32 (va_binding a), U32 (va_format a),
                                          U32 (location a)]) attrs))
               (read_array (unat (vertexAttributeDescriptionCount vi)) (pVertexAttributeDescriptions vi)),
             map_sum id
               (\<lambda>bs. concat (map (\<lambda>b. [U32 (vb_binding b), U32 (inputRate b), U32 (stride b)]) bs))
               (read_array (unat (vertexBindingDescriptionCount vi)) (pVertexBindingDescriptions vi))])"

text \<open>The test that sets \<^verbatim>\<open>need_blend_constants\<close> for one attachment with blending enabled.\<close>

definition uses_constant_factor :: "VkPipelineColorBlendAttachmentState \<Rightarrow> bool" where
  "uses_constant_factor a \<longleftrightarrow>
     dstAlphaBlendFactor a = VK_BLEND_FACTOR_CONSTANT_ALPHA \<or>
     dstAlphaBlendFactor a = VK_BLEND_FACTOR_CONSTANT_COLOR \<or>
     srcAlphaBlendFactor a = VK_BLEND_FACTOR_CONSTANT_ALPHA \<or>
     srcAlphaBlendFactor a = VK_BLEND_FACTOR_CONSTANT_COLOR \<or>
     dstColorBlendFactor a = VK_BLEND_FACTOR_CONSTANT_ALPHA \<or>
     dstColorBlendFactor a = VK_BLEND_FACTOR_CONSTANT_COLOR \<or>
     srcColorBlendFactor a = VK_BLEND_FACTOR_CONSTANT_ALPHA \<or>
     srcColorBlendFactor a = VK_BLEND_FACTOR_CONSTANT_COLOR"

definition hash_blend_attachment :: "VkPipelineColorBlendAttachmentState \<Rightarrow> token list" where
  "hash_blend_attachment a =
     U32 (blendEnable a) #
     (if blendEnable a \<noteq> 0
      then [U32 (colorWriteMask a), U32 (alphaBlendOp a), U32 (colorBlendOp a),
            U32 (dstAlphaBlendFactor a), U32 (srcAlphaBlendFactor a),
            U32 (dstColorBlendFactor a), U32 (srcColorBlendFactor a)]
      else [U32 0])"

definition need_blend_constants :: "VkPipelineColorBlendAttachmentState list \<Rightarrow> bool" where
  "need_blend_constants atts = list_ex (\<lambda>a. blendEnable a \<noteq> 0 \<and> uses_constant_factor a) atts"

definition blend_constant_tokens :: "f32 \<times> f32 \<times> f32 \<times> f32 \<Rightarrow> token list" where
  "blend_constant_tokens c = (case c of (c0, c1, c2, c3) \<Rightarrow> [F32 c0, F32 c1, F32 c2, F32 c3])"

definition hash_color_blend ::
  "VkPipelineDynamicStateCreateInfo option \<Rightarrow> VkPipelineColorBlendStateCreateInfo option \<Rightarrow> error + token list" where
  "hash_color_blend dyn cbs =
     (case cbs of
        None \<Rightarrow> Inr [U32 0]
      | Some b \<Rightarrow>
          (case read_array (unat (attachmentCount b)) (pAttachments b) of
             Inl e \<Rightarrow> Inl e
           | Inr atts \<Rightarrow>
               Inr ([U32 (cb_flags b), U32 (attachmentCount b), U32 (logicOpEnable b),
                     U32 (logicOp b)] @
                    concat (map hash_blend_attachment atts) @
                    (if need_blend_constants atts \<and>
                        \<not> is_dynamic VK_DYNAMIC_STATE_BLEND_CONSTANTS dyn
                     then blend_constant_tokens (blendConstants b)
                     else []))))"

definition hash_tessellation :: "VkPipelineTessellationStateCreateInfo option \<Rightarrow> token list" where
  "hash_tessellation tss =
     (case tss of
        None \<Rightarrow> [U32 0]
      | Some tess \<Rightarrow> [U32 (ts_flags tess), U32 (patchControlPoints tess)])"

definition hash_stage :: "StateRecorder \<Rightarrow> VkPipelineShaderStageCreateInfo \<Rightarrow> error + token list" where
  "hash_stage r stage =
     concatE
       [Inr [U32 (st_flags stage), Str (pName stage), U32 (st_stage stage)],
        map_sum id (\<lambda>h. [U64 h]) (get_hash_for_shader_module r (st_module stage)),
        (case pSpecializationInfo stage of
           Some spec \<Rightarrow> hash_specialization_info spec
         | None \<Rightarrow> Inr [U32 0])]"

text \<open>
  The statements of \<^verbatim>\<open>compute_hash_graphics_pipeline\<close>, block by block in the order of the
  source, each with the tokens it feeds; the token sequence of the function is what they
  feed one after the other.
\<close>

definition graphics_pipeline_blocks ::
  "StateRecorder \<Rightarrow> VkGraphicsPipelineCreateInfo \<Rightarrow> (error + token list) list" where
  "graphics_pipeline_blocks r create_info =
     [Inr [U32 (gp_flags create_info)],
      (if gp_basePipelineHandle create_info \<noteq> 0
       then map_sum id (\<lambda>h. [U64 h, S32 (gp_basePipelineIndex create_info)])
              (get_hash_for_graphics_pipeline_handle r (gp_basePipelineHandle create_info))
       else Inr []),
      map_sum id (\<lambda>h. [U64 h]) (get_hash_for_pipeline_layout r (gp_layout create_info)),
      map_sum id (\<lambda>h. [U64 h]) (get_hash_for_render_pass r (renderPass create_info)),
      Inr [U32 (subpass create_info), U32 (stageCount create_info)],
      hash_dynamic_state (pDynamicState create_info),
      Inr (hash_depth_stencil (pDynamicState create_info) (pDepthStencilState create_info)),
      Inr (hash_input_assembly (pInputAssemblyState create_info)),
      Inr (hash_rasterization (pDynamicState create_info) (pRasterizationState create_info)),
      hash_multisample (pMultisampleState create_info),
      hash_viewport (pDynamicState create_info) (pViewportState create_info),
      hash_vertex_input (pVertexInputState create_info),
      hash_color_blend (pDynamicState create_info) (pColorBlendState create_info),
      Inr (hash_tessellation (pTessellationState create_info)),
      (case read_array (unat (stageCount create_info)) (pStages create_info) of
         Inl e \<Rightarrow> Inl e
       | Inr stages \<Rightarrow> concatE (map (hash_stage r) stages))]"

definition graphics_pipeline_tokens :: "StateRecorder \<Rightarrow> VkGraphicsPipelineCreateInfo \<Rightarrow> error + token list" where
  "graphics_pipeline_tokens r create_info = concatE (graphics_pipeline_blocks r create_info)"

definition compute_hash_graphics_pipeline ::
  "(token list \<Rightarrow> Hash) \<Rightarrow> StateRecorder \<Rightarrow> VkGraphicsPipelineCreateInfo \<Rightarrow> error + Hash" where
  "compute_hash_graphics_pipeline hasher_get r create_info =
     map_sum id hasher_get (graphics_pipeline_tokens r create_info)"

subsection \<open>Example pipelines\<close>

text \<open>
  A recorder that knows one pipeline layout (handle 100, hash \<open>0x11\<close>) and one render pass
  (handle 200, hash \<open>0x22\<close>), and a graphics pipeline with no stage and no state block.
\<close>

definition layout_ex :: VkPipelineLayoutCreateInfo where
  "layout_ex = \<lparr>pl_flags = 0, setLayoutCount = 0, pSetLayouts = [],
                 pushConstantRangeCount = 0, pPushConstantRanges = []\<rparr>"

definition render_pass_ex :: VkRenderPassCreateInfo where
  "render_pass_ex = \<lparr>rp_flags = 0, attachmentCount_rp = 0, pAttachments_rp = [],
                      subpassCount = 0, pSubpasses = [], dependencyCount = 0,
                      pDependencies = []\<rparr>"

definition recorder_ex :: StateRecorder where
  "recorder_ex =
     \<lparr>samplers = [], descriptor_sets = [], pipeline_layouts = [(0x11, layout_ex)],
      shader_modules = [], render_passes = [(0x22, render_pass_ex)],
      compute_pipelines = [], graphics_pipelines = [],
      sampler_to_index = Map.empty, descriptor_set_layout_to_index = Map.empty,
      pipeline_layout_to_index = [100 \<mapsto> 0], shader_module_to_index = Map.empty,
      render_pass_to_index = [200 \<mapsto> 0], compute_pipeline_to_index = Map.empty,
      graphics_pipeline_to_index = Map.empty\<rparr>"

definition pipeline_bare :: VkGraphicsPipelineCreateInfo where
  "pipeline_bare =
     \<lparr>gp_flags = 1, stageCount = 0, pStages = [],
      pVertexInputState = None, pInputAssemblyState = None, pTessellationState = None,
      pViewportState = None, pRasterizationState = None, pMultisampleState = None,
      pDepthStencilState = None, pColorBlendState = None, pDynamicState = None,
      gp_layout = 100, renderPass = 200, subpass = 2,
      gp_basePipelineHandle = 0, gp_basePipelineIndex = 0\<rparr>"

text \<open>
  A color-blend state with one attachment that blends with
  \<^verbatim>\<open>VK_BLEND_FACTOR_ONE_MINUS_CONSTANT_COLOR\<close> as its source color factor, and with the
  source color factor given.
\<close>

definition blend_with :: "u32 \<Rightarrow> f32 \<times> f32 \<times> f32 \<times> f32 \<Rightarrow> VkPipelineColorBlendStateCreateInfo" where
  "blend_with factor c =
     \<lparr>cb_flags = 0, logicOpEnable = 0, logicOp = 0, attachmentCount = 1,
      pAttachments = [\<lparr>blendEnable = 1, srcColorBlendFactor = factor,
                       dstColorBlendFactor = 0, colorBlendOp = 0, srcAlphaBlendFactor = 1,
                       dstAlphaBlendFactor = 0, alphaBlendOp = 0, colorWriteMask = 15\<rparr>],
      blendConstants = c\<rparr>"

definition pipeline_blend :: "u32 \<Rightarrow> f32 \<times> f32 \<times> f32 \<times> f32 \<Rightarrow> VkGraphicsPipelineCreateInfo" where
  "pipeline_blend factor c = pipeline_bare\<lparr>pColorBlendState := Some (blend_with factor c)\<rparr>"

text \<open>
  A pipeline with one viewport of the given width (a bit pattern), and with the given
  list of dynamic states.
\<close>

definition pipeline_viewport :: "f32 \<Rightarrow> u32 list \<Rightarrow> VkGraphicsPipelineCreateInfo" where
  "pipeline_viewport w dyns =
     pipeline_bare
       \<lparr>pViewportState :=
          Some \<lparr>vs_flags = 0, viewportCount = 1,
                 pViewports = Some [\<lparr>vp_x = 0, vp_y = 0, vp_width = w, vp_height = 0x44340000,
                                      minDepth = 0, maxDepth = 0x3F800000\<rparr>],
                 scissorCount = 0, pScissors = None\<rparr>,
        pDynamicState :=
          Some \<lparr>dy_flags = 0, dynamicStateCount = of_nat (length dyns),
                 pDynamicStates = dyns\<rparr>\<rparr>"

text \<open>
  A pipeline with one viewport of the given \<open>x\<close>, \<open>y\<close> and width (bit patterns). A bit pattern
  below \<open>0x7F800000\<close> is a finite float with the sign bit clear: no infinity, no NaN, no
  negative zero.
\<close>

definition pipeline_rect :: "f32 \<times> f32 \<times> f32 \<Rightarrow> u32 list \<Rightarrow> VkGraphicsPipelineCreateInfo" where
  "pipeline_rect = (\<lambda>(x, y, w) dyns.
     pipeline_bare
       \<lparr>pViewportState :=
          Some \<lparr>vs_flags = 0, viewportCount = 1,
                 pViewports = Some [\<lparr>vp_x = x, vp_y = y, vp_width = w, vp_height = 0x44340000,
                                      minDepth = 0, maxDepth = 0x3F800000\<rparr>],
                 scissorCount = 0, pScissors = None\<rparr>,
        pDynamicState :=
          Some \<lparr>dy_flags = 0, dynamicStateCount = of_nat (length dyns),
                 pDynamicStates = dyns\<rparr>\<rparr>)"

definition finite_float :: "f32 \<Rightarrow> bool" where
  "finite_float v \<longleftrightarrow> v < 0x7F800000"

text \<open>
  Modelled from the spec: the class \<^verbatim>\<open>Hasher\<close> is not among the sources; its algorithm is
  "an order-sensitive rolling 64-bit mix" over the tokens. This instance, with the seed and
  the multiplier of the FNV hash, stands for it in the examples only.
\<close>

fun token_words :: "token \<Rightarrow> 64 word list" where
  "token_words (U32 v) = [ucast v]"
| "token_words (U64 v) = [v AND 0xffffffff, drop_bit 32 v]"
| "token_words (S32 v) = [ucast v]"
| "token_words (F32 v) = [ucast v]"
| "token_words (Str s) = 0xff # map of_char s"
| "token_words (Data bytes n) = map ucast bytes"

definition rolling_mix :: "token list \<Rightarrow> Hash" where
  "rolling_mix ts =
     foldl (\<lambda>h w. (h * 0x100000001b3) XOR w) 0xcbf29ce484222325 (concat (map token_words ts))"

section \<open>Recording a descriptor set layout\<close>

text \<open>
  \<^verbatim>\<open>StateRecorder::copy\<close> takes \<open>count\<close> elements of the source array into a new array of the
  arena; the arena's allocation is taken to succeed. In the model an array that is copied
  is a list value, and the new array is the list of the elements read.

  The loop of \<^verbatim>\<open>copy_descriptor_set_layout\<close> visits the bindings by index \<open>i\<close>. For a binding
  with immutable samplers of a sampler type it reads element \<open>i\<close> of the binding's sampler
  array, looks the handle up with \<^verbatim>\<open>sampler_to_index[...]\<close> (which inserts index 0 for a
  handle that is not in the map) and writes the index plus one to element \<open>i\<close> of that same
  array, through \<^verbatim>\<open>const_cast\<close>. The sampler arrays live in a store, so that the write is
  seen through every pointer to the array.
\<close>

fun rewrite_immutable_samplers ::
  "(nat \<times> nat VkDescriptorSetLayoutBinding) list \<Rightarrow> (vk_handle \<Rightarrow> nat option) \<times> sampler_arrays \<Rightarrow>
   error + ((vk_handle \<Rightarrow> nat option) \<times> sampler_arrays)" where
  "rewrite_immutable_samplers [] st = Inr st"
| "rewrite_immutable_samplers ((i, b) # rest) (to_index, mem) =
     (case pImmutableSamplers b of
        None \<Rightarrow> rewrite_immutable_samplers rest (to_index, mem)
      | Some addr \<Rightarrow>
          if descriptorType b = VK_DESCRIPTOR_TYPE_SAMPLER \<or>
             descriptorType b = VK_DESCRIPTOR_TYPE_COMBINED_IMAGE_SAMPLER
          then (case mem addr of
                  None \<Rightarrow> Inl NullPointer
                | Some arr \<Rightarrow>
                    if i < length arr
                    then (let h = arr ! i;
                              idx = (case to_index h of None \<Rightarrow> 0 | Some k \<Rightarrow> k);
                              to_index1 = (case to_index h of None \<Rightarrow> to_index(h \<mapsto> 0)
                                           | Some k \<Rightarrow> to_index);
                              written = (ucast (of_nat idx + 1 :: 32 word) :: vk_handle)
                          in rewrite_immutable_samplers rest
                               (to_index1, mem(addr \<mapsto> arr[i := written])))
                    else Inl OutOfBounds)
          else rewrite_immutable_samplers rest (to_index, mem))"

definition copy_descriptor_set_layout ::
  "nat VkDescriptorSetLayoutCreateInfo \<Rightarrow> StateRecorder \<times> sampler_arrays \<Rightarrow>
   error + (nat VkDescriptorSetLayoutCreateInfo \<times> StateRecorder \<times> sampler_arrays)" where
  "copy_descriptor_set_layout create_info = (\<lambda>(r, mem).
     case read_array (unat (bindingCount create_info)) (pBindings create_info) of
       Inl e \<Rightarrow> Inl e
     | Inr bindings \<Rightarrow>
         (case rewrite_immutable_samplers (zip [0 ..< length bindings] bindings)
                 (sampler_to_index r, mem) of
            Inl e \<Rightarrow> Inl e
          | Inr (to_index1, mem1) \<Rightarrow>
              Inr (create_info\<lparr>pBindings := bindings\<rparr>, r\<lparr>sampler_to_index := to_index1\<rparr>, mem1)))"

definition register_descriptor_set_layout ::
  "Hash \<Rightarrow> nat VkDescriptorSetLayoutCreateInfo \<Rightarrow> StateRecorder \<times> sampler_arrays \<Rightarrow>
   error + (nat \<times> StateRecorder \<times> sampler_arrays)" where
  "register_descriptor_set_layout hash layout_info = (\<lambda>(r, mem).
     case copy_descriptor_set_layout layout_info (r, mem) of
       Inl e \<Rightarrow> Inl e
     | Inr (info, r1, mem1) \<Rightarrow>
         Inr (length (descriptor_sets r),
              r1\<lparr>descriptor_sets := descriptor_sets r1 @ [(hash, info)]\<rparr>, mem1))"

text \<open>
  A recorder that knows two samplers, handles \<open>0xA\<close> and \<open>0xB\<close> at the indices 0 and 1, and
  a caller's layout with one binding of two immutable samplers: the array at address 7 of
  the caller's memory holds the two handles.
\<close>

definition sampler_ex :: VkSamplerCreateInfo where
  "sampler_ex = \<lparr>smp_flags = 0, magFilter = 1, minFilter = 1, mipmapMode = 1,
                  addressModeU = 0, addressModeV = 2, addressModeW = 2, mipLodBias = 0,
                  anisotropyEnable = 0, maxAnisotropy = 0x3F800000, compareEnable = 0,
                  smp_compareOp = 0, minLod = 0, maxLod = 0x3F800000, borderColor = 0,
                  unnormalizedCoordinates = 0\<rparr>"

definition recorder_two_samplers :: StateRecorder where
  "recorder_two_samplers =
     \<lparr>samplers = [(0x51, sampler_ex), (0x52, sampler_ex)], descriptor_sets = [],
      pipeline_layouts = [], shader_modules = [], render_passes = [],
      compute_pipelines = [], graphics_pipelines = [],
      sampler_to_index = [0xA \<mapsto> 0, 0xB \<mapsto> 1],
      descriptor_set_layout_to_index = Map.empty, pipeline_layout_to_index = Map.empty,
      shader_module_to_index = Map.empty, render_pass_to_index = Map.empty,
      compute_pipeline_to_index = Map.empty, graphics_pipeline_to_index = Map.empty\<rparr>"

definition caller_layout :: "nat VkDescriptorSetLayoutCreateInfo" where
  "caller_layout =
     \<lparr>dsl_flags = 0, bindingCount = 1,
      pBindings = [\<lparr>binding = 0, descriptorType = VK_DESCRIPTOR_TYPE_SAMPLER,
                    descriptorCount = 2, stageFlags = 16, pImmutableSamplers = Some 7\<rparr>]\<rparr>"

definition caller_memory :: sampler_arrays where
  "caller_memory = [7 \<mapsto> [0xA, 0xB]]"

section \<open>The serialized document\<close>

text \<open>
  The document is a rapidjson \<^verbatim>\<open>Document\<close>. The model starts and ends at the tree of values:
  writing the tree as text and reading the text back are rapidjson's. A number is an
  integer (rapidjson's int, unsigned, 64-bit flavours, told apart by the value) or a
  double, given by its bit pattern. \<^verbatim>\<open>AddMember\<close> appends a member, and \<^verbatim>\<open>operator[]\<close> finds
  the first member of the name.
\<close>

datatype json =
    JNull
  | JInt int
  | JDouble "64 word"
  | JString string
  | JArray "json list"
  | JObject "(string \<times> json) list"

text \<open>
  What the code takes from outside the sources: the conversions between \<^verbatim>\<open>float\<close> and
  \<^verbatim>\<open>double\<close> and from an integer to \<^verbatim>\<open>float\<close>, and the Base64 functions of \<^verbatim>\<open>b64.h\<close>.
\<close>

record codec =
  float_to_double :: "f32 \<Rightarrow> 64 word"
  double_to_float :: "64 word \<Rightarrow> f32"
  int_to_float :: "int \<Rightarrow> f32"
  b64_encode :: "8 word list \<Rightarrow> string"
  b64_decode :: "string \<Rightarrow> 8 word list"

definition bindE :: "'e + 'a \<Rightarrow> ('a \<Rightarrow> 'e + 'b) \<Rightarrow> 'e + 'b" where
  "bindE m f = (case m of Inl e \<Rightarrow> Inl e | Inr x \<Rightarrow> f x)"

fun mapE :: "('a \<Rightarrow> 'e + 'b) \<Rightarrow> 'a list \<Rightarrow> 'e + 'b list" where
  "mapE f [] = Inr []"
| "mapE f (x # xs) = bindE (f x) (\<lambda>y. bindE (mapE f xs) (\<lambda>ys. Inr (y # ys)))"

definition json_u32 :: "u32 \<Rightarrow> json" where "json_u32 v = JInt (uint v)"
definition json_s32 :: "32 word \<Rightarrow> json" where "json_s32 v = JInt (sint v)"
definition json_u64 :: "64 word \<Rightarrow> json" where "json_u64 v = JInt (uint v)"
definition json_float :: "codec \<Rightarrow> f32 \<Rightarrow> json" where "json_float c v = JDouble (float_to_double c v)"

subsection \<open>StateRecorder::serialize\<close>

text \<open>The object of one sampler: no hash, and \<^verbatim>\<open>addressModeU\<close> under three names.\<close>

definition serialize_sampler :: "codec \<Rightarrow> Hash \<times> VkSamplerCreateInfo \<Rightarrow> json" where
  "serialize_sampler c = (\<lambda>(hash, info).
     JObject
       [(''flags'', json_u32 (smp_flags info)),
        (''minFilter'', json_u32 (minFilter info)),
        (''magFilter'', json_u32 (magFilter info)),
        (''maxAnisotropy'', json_float c (maxAnisotropy info)),
        (''compareOp'', json_u32 (smp_compareOp info)),
        (''anisotropyEnable'', json_u32 (anisotropyEnable info)),
        (''mipmapMode'', json_u32 (mipmapMode info)),
        (''addressModeU'', json_u32 (addressModeU info)),
        (''addressModeV'', json_u32 (addressModeU info)),
        (''addressModeW'', json_u32 (addressModeU info)),
        (''borderColor'', json_u32 (borderColor info)),
        (''unnormalizedCoordinates'', json_u32 (unnormalizedCoordinates info)),
        (''compareEnable'', json_u32 (compareEnable info)),
        (''mipLodBias'', json_float c (mipLodBias info)),
        (''minLod'', json_float c (minLod info)),
        (''maxLod'', json_float c (maxLod info))])"

definition serialize_binding :: "sampler_arrays \<Rightarrow> nat VkDescriptorSetLayoutBinding \<Rightarrow> error + json" where
  "serialize_binding mem b =
     (let members = [(''descriptorType'', json_u32 (descriptorType b)),
                     (''descriptorCount'', json_u32 (descriptorCount b)),
                     (''stageFlags'', json_u32 (stageFlags b)),
                     (''binding'', json_u32 (binding b))]
      in case pImmutableSamplers b of
           None \<Rightarrow> Inr (JObject members)
         | Some addr \<Rightarrow>
             bindE (read_ptr (unat (descriptorCount b)) (mem addr))
               (\<lambda>hs. Inr (JObject (members @ [(''immutableSamplers'', JArray (map json_u64 hs))]))))"

definition serialize_set_layout ::
  "sampler_arrays \<Rightarrow> Hash \<times> nat VkDescriptorSetLayoutCreateInfo \<Rightarrow> error + json" where
  "serialize_set_layout mem = (\<lambda>(hash, info).
     bindE (read_array (unat (bindingCount info)) (pBindings info))
       (\<lambda>bs. bindE (mapE (serialize_binding mem) bs)
          (\<lambda>js. Inr (JObject [(''hash'', json_u64 hash), (''flags'', json_u32 (dsl_flags info)),
                                (''bindings'', JArray js)]))))"

definition serialize_push_constant_range :: "VkPushConstantRange \<Rightarrow> json" where
  "serialize_push_constant_range pc =
     JObject [(''stageFlags'', json_u32 (pc_stageFlags pc)), (''size'', json_u32 (pc_size pc)),
              (''offset'', json_u32 (pc_offset pc))]"

definition serialize_pipeline_layout :: "Hash \<times> VkPipelineLayoutCreateInfo \<Rightarrow> error + json" where
  "serialize_pipeline_layout = (\<lambda>(hash, info).
     bindE (read_array (unat (pushConstantRangeCount info)) (pPushConstantRanges info))
       (\<lambda>pcs. bindE (read_array (unat (setLayoutCount info)) (pSetLayouts info))
          (\<lambda>sls. Inr (JObject
                   [(''hash'', json_u64 hash), (''flags'', json_u32 (pl_flags info)),
                    (''pushConstantRanges'', JArray (map serialize_push_constant_range pcs)),
                    (''setLayouts'', JArray (map json_u64 sls))]))))"

definition serialize_shader_module :: "codec \<Rightarrow> Hash \<times> VkShaderModuleCreateInfo \<Rightarrow> error + json" where
  "serialize_shader_module c = (\<lambda>(hash, info).
     bindE (read_array (unat (codeSize info)) (pCode info))
       (\<lambda>bytes. Inr (JObject [(''hash'', json_u64 hash), (''flags'', json_u32 (sm_flags info)),
                                (''code'', JString (b64_encode c bytes))])))"

definition serialize_dependency :: "VkSubpassDependency \<Rightarrow> json" where
  "serialize_dependency d =
     JObject [(''dependencyFlags'', json_u32 (dependencyFlags d)),
              (''dstAccessMask'', json_u32 (dstAccessMask d)),
              (''srcAccessMask'', json_u32 (srcAccessMask d)),
              (''dstStageMask'', json_u32 (dstStageMask d)),
              (''srcStageMask'', json_u32 (srcStageMask d)),
              (''dstSubpass'', json_u32 (dstSubpass d)),
              (''srcSubpass'', json_u32 (srcSubpass d))]"

definition serialize_attachment :: "VkAttachmentDescription \<Rightarrow> json" where
  "serialize_attachment a =
     JObject [(''flags'', json_u32 (at_flags a)), (''format'', json_u32 (at_format a)),
              (''finalLayout'', json_u32 (finalLayout a)),
              (''initialLayout'', json_u32 (initialLayout a)),
              (''loadOp'', json_u32 (loadOp a)), (''storeOp'', json_u32 (storeOp a)),
              (''samples'', json_u32 (samples a)),
              (''stencilLoadOp'', json_u32 (stencilLoadOp a)),
              (''stencilStoreOp'', json_u32 (stencilStoreOp a))]"

definition serialize_reference :: "VkAttachmentReference \<Rightarrow> json" where
  "serialize_reference a =
     JObject [(''attachment'', json_u32 (attachment a)), (''layout'', json_u32 (layout a))]"

text \<open>
  One subpass. The loop over the preserve attachments calls \<^verbatim>\<open>PushBack\<close> on a value of
  object type, which rapidjson asserts to be an array. The resolve attachments are read
  from \<^verbatim>\<open>pColorAttachments\<close>. The depth-stencil object is built and dropped.
\<close>

definition serialize_subpass :: "VkSubpassDescription \<Rightarrow> error + json" where
  "serialize_subpass sub =
     bindE (if preserveAttachmentCount sub \<noteq> 0
            then bindE (read_ptr 1 (pPreserveAttachments sub)) (\<lambda>_. Inl AssertionFailed)
            else Inr ())
       (\<lambda>_. bindE (read_ptr (unat (inputAttachmentCount sub)) (pInputAttachments sub))
          (\<lambda>inputs. bindE (read_ptr (unat (colorAttachmentCount sub)) (pColorAttachments sub))
             (\<lambda>colors. Inr (JObject
                ([(''flags'', json_u32 (sp_flags sub)),
                  (''pipelineBindPoint'', json_u32 (pipelineBindPoint sub)),
                  (''preserveAttachments'', JArray []),
                  (''inputAttachments'', JArray (map serialize_reference inputs)),
                  (''colorAttachments'', JArray (map serialize_reference colors))] @
                 (if pResolveAttachments sub \<noteq> None
                  then [(''resolveAttachments'', JArray (map serialize_reference colors))]
                  else []))))))"

definition serialize_render_pass :: "Hash \<times> VkRenderPassCreateInfo \<Rightarrow> error + json" where
  "serialize_render_pass = (\<lambda>(hash, info).
     bindE (read_array (unat (dependencyCount info)) (pDependencies info))
       (\<lambda>deps. bindE (read_array (unat (attachmentCount_rp info)) (pAttachments_rp info))
          (\<lambda>atts. bindE (read_array (unat (subpassCount info)) (pSubpasses info))
             (\<lambda>subs. bindE (mapE serialize_subpass subs)
                (\<lambda>js. Inr (JObject
                   [(''hash'', json_u64 hash), (''flags'', json_u32 (rp_flags info)),
                    (''dependencies'', JArray (map serialize_dependency deps)),
                    (''attachments'', JArray (map serialize_attachment atts)),
                    (''subpasses'', JArray js)]))))))"

definition serialize_map_entry :: "VkSpecializationMapEntry \<Rightarrow> json" where
  "serialize_map_entry e =
     JObject [(''offset'', json_u32 (me_offset e)), (''size'', json_u64 (me_size e)),
              (''constantID'', json_u32 (constantID e))]"

definition serialize_specialization_info :: "codec \<Rightarrow> VkSpecializationInfo \<Rightarrow> error + json" where
  "serialize_specialization_info c spec =
     bindE (read_array (unat (dataSize spec)) (pData spec))
       (\<lambda>bytes. bindE (read_array (unat (mapEntryCount spec)) (pMapEntries spec))
          (\<lambda>es. Inr (JObject [(''dataSize'', json_u64 (dataSize spec)),
                               (''code'', JString (b64_encode c bytes)),
                               (''mapEntries'', JArray (map serialize_map_entry es))])))"

definition serialize_compute_pipeline :: "codec \<Rightarrow> Hash \<times> VkComputePipelineCreateInfo \<Rightarrow> error + json" where
  "serialize_compute_pipeline c = (\<lambda>(hash, info).
     bindE (case pSpecializationInfo (cp_stage info) of
              None \<Rightarrow> Inr []
            | Some spec \<Rightarrow>
                bindE (serialize_specialization_info c spec)
                  (\<lambda>j. Inr [(''specializationInfo'', j)]))
       (\<lambda>spec_member. Inr (JObject
          [(''hash'', json_u64 hash), (''flags'', json_u32 (cp_flags info)),
           (''layout'', json_u64 (cp_layout info)),
           (''basePipelineHandle'', json_u64 (cp_basePipelineHandle info)),
           (''basePipelineIndex'', json_s32 (cp_basePipelineIndex info)),
           (''stage'', JObject
              ([(''flags'', json_u32 (st_flags (cp_stage info))),
                (''stage'', json_u32 (st_stage (cp_stage info))),
                (''module'', json_u64 (st_module (cp_stage info))),
                (''name'', JString (pName (cp_stage info)))] @ spec_member))])))"

definition opt_member :: "string \<Rightarrow> 'a option \<Rightarrow> ('a \<Rightarrow> error + json) \<Rightarrow> error + (string \<times> json) list" where
  "opt_member name p f =
     (case p of None \<Rightarrow> Inr [] | Some x \<Rightarrow> bindE (f x) (\<lambda>j. Inr [(name, j)]))"

definition serialize_stage :: "codec \<Rightarrow> VkPipelineShaderStageCreateInfo \<Rightarrow> error + json" where
  "serialize_stage c s =
     bindE (opt_member ''specializationInfo'' (pSpecializationInfo s) (serialize_specialization_info c))
       (\<lambda>spec_member. Inr (JObject
          ([(''flags'', json_u32 (st_flags s)), (''name'', JString (pName s)),
            (''module'', json_u64 (st_module s)), (''stage'', json_u32 (st_stage s))] @
           spec_member)))"

definition serialize_tessellation :: "VkPipelineTessellationStateCreateInfo \<Rightarrow> error + json" where
  "serialize_tessellation t =
     Inr (JObject [(''alloc'', json_u32 (ts_flags t)),
                   (''patchControlPoints'', json_u32 (patchControlPoints t))])"

definition serialize_dynamic :: "VkPipelineDynamicStateCreateInfo \<Rightarrow> error + json" where
  "serialize_dynamic d =
     bindE (read_array (unat (dynamicStateCount d)) (pDynamicStates d))
       (\<lambda>states. Inr (JObject [(''flags'', json_u32 (dy_flags d)),
                                 (''dynamicState'', JArray (map json_u32 states))]))"

definition serialize_multisample :: "codec \<Rightarrow> VkPipelineMultisampleStateCreateInfo \<Rightarrow> error + json" where
  "serialize_multisample c ms =
     bindE (case pSampleMask ms of
              None \<Rightarrow> Inr []
            | Some sample_mask \<Rightarrow>
                bindE (read_array (unat ((rasterizationSamples ms + 31) div 32)) sample_mask)
                  (\<lambda>ws. Inr [(''sampleMask'', JArray (map json_u32 ws))]))
       (\<lambda>mask_member. Inr (JObject
          ([(''flags'', json_u32 (ms_flags ms)),
            (''rasterizationSamples'', json_u32 (rasterizationSamples ms)),
            (''sampleShadingEnable'', json_u32 (sampleShadingEnable ms)),
            (''minSampleShading'', json_float c (minSampleShading ms)),
            (''alphaToOneEnable'', json_u32 (alphaToOneEnable ms)),
            (''alphaToCoverageEnable'', json_u32 (alphaToCoverageEnable ms))] @ mask_member)))"

definition serialize_vertex_input :: "VkPipelineVertexInputStateCreateInfo \<Rightarrow> error + json" where
  "serialize_vertex_input vi =
     bindE (read_array (unat (vertexAttributeDescriptionCount vi)) (pVertexAttributeDescriptions vi))
       (\<lambda>attrs. bindE (read_array (unat (vertexBindingDescriptionCount vi)) (pVertexBindingDescriptions vi))
          (\<lambda>bs. Inr (JObject
             [(''flags'', json_u32 (vi_flags vi)),
              (''attributes'',
                 JArray (map (\<lambda>a. JObject [(''location'', json_u32 (location a)),
                                             (''binding'', json_u32 (va_binding a)),
                                             (''offset'', json_u32 (va_offset a)),
                                             (''format'', json_u32 (va_format a))]) attrs)),
              (''bindings'',
                 JArray (map (\<lambda>b. JObject [(''binding'', json_u32 (vb_binding b)),
                                             (''stride'', json_u32 (stride b)),
                                             (''inputRate'', json_u32 (inputRate b))]) bs))])))"

definition serialize_rasterization :: "codec \<Rightarrow> VkPipelineRasterizationStateCreateInfo \<Rightarrow> error + json" where
  "serialize_rasterization c rs =
     Inr (JObject
       [(''flags'', json_u32 (rs_flags rs)),
        (''depthBiasConstantFactor'', json_float c (depthBiasConstantFactor rs)),
        (''depthBiasSlopeFactor'', json_float c (depthBiasSlopeFactor rs)),
        (''depthBiasClamp'', json_float c (depthBiasClamp rs)),
        (''depthBiasEnable'', json_u32 (depthBiasEnable rs)),
        (''depthClampEnable'', json_u32 (depthClampEnable rs)),
        (''polygonMode'', json_u32 (polygonMode rs)),
        (''rasterizerDiscardEnable'', json_u32 (rasterizerDiscardEnable rs)),
        (''frontFace'', json_u32 (frontFace rs)),
        (''lineWidth'', json_float c (lineWidth rs)),
        (''cullMode'', json_u32 (cullMode rs))])"

definition serialize_input_assembly :: "VkPipelineInputAssemblyStateCreateInfo \<Rightarrow> error + json" where
  "serialize_input_assembly ia =
     Inr (JObject [(''flags'', json_u32 (ia_flags ia)), (''topology'', json_u32 (topology ia)),
                   (''primitiveRestartEnable'', json_u32 (primitiveRestartEnable ia))])"

text \<open>
  The color-blend state: the loop builds an object for each attachment and never appends
  it, so the array of attachments is written empty.
\<close>

definition serialize_color_blend :: "codec \<Rightarrow> VkPipelineColorBlendStateCreateInfo \<Rightarrow> error + json" where
  "serialize_color_blend c cb =
     bindE (read_array (unat (attachmentCount cb)) (pAttachments cb))
       (\<lambda>_. Inr (JObject
          [(''flags'', json_u32 (cb_flags cb)), (''logicOp'', json_u32 (logicOp cb)),
           (''logicOpEnable'', json_u32 (logicOpEnable cb)),
           (''blendConstants'',
              (case blendConstants cb of
                 (c0, c1, c2, c3) \<Rightarrow>
                   JArray [json_float c c0, json_float c c1, json_float c c2, json_float c c3])),
           (''attachments'', JArray [])]))"

definition serialize_viewport_state :: "codec \<Rightarrow> VkPipelineViewportStateCreateInfo \<Rightarrow> error + json" where
  "serialize_viewport_state c vp =
     bindE (case pViewports vp of
              None \<Rightarrow> Inr []
            | Some vs \<Rightarrow>
                bindE (read_array (unat (viewportCount vp)) vs)
                  (\<lambda>vs1. Inr [(''viewports'',
                     JArray (map (\<lambda>v. JObject [(''x'', json_float c (vp_x v)),
                                                 (''y'', json_float c (vp_y v)),
                                                 (''width'', json_float c (vp_width v)),
                                                 (''height'', json_float c (vp_height v)),
                                                 (''minDepth'', json_float c (minDepth v)),
                                                 (''maxDepth'', json_float c (maxDepth v))]) vs1))]))
       (\<lambda>viewports_member.
          bindE (case pScissors vp of
                   None \<Rightarrow> Inr []
                 | Some scs \<Rightarrow>
                     bindE (read_array (unat (scissorCount vp)) scs)
                       (\<lambda>scs1. Inr [(''scissors'',
                          JArray (map (\<lambda>sc. JObject [(''x'', json_s32 (offset_x sc)),
                                                       (''y'', json_s32 (offset_y sc)),
                                                       (''width'', json_u32 (extent_width sc)),
                                                       (''height'', json_u32 (extent_height sc))]) scs1))]))
            (\<lambda>scissors_member.
               Inr (JObject ([(''flags'', json_u32 (vs_flags vp))] @ viewports_member @
                             scissors_member))))"

definition serialize_stencil :: "VkStencilOpState \<Rightarrow> json" where
  "serialize_stencil state =
     JObject [(''compareOp'', json_u32 (compareOp state)),
              (''writeMask'', json_u32 (writeMask state)),
              (''reference'', json_u32 (reference state)),
              (''compareMask'', json_u32 (compareMask state)),
              (''passOp'', json_u32 (passOp state)), (''failOp'', json_u32 (failOp state)),
              (''depthFailOp'', json_u32 (depthFailOp state))]"

definition serialize_depth_stencil :: "codec \<Rightarrow> VkPipelineDepthStencilStateCreateInfo \<Rightarrow> error + json" where
  "serialize_depth_stencil c ds =
     Inr (JObject
       [(''flags'', json_u32 (ds_flags ds)),
        (''stencilTestEnable'', json_u32 (stencilTestEnable ds)),
        (''maxDepthBounds'', json_float c (maxDepthBounds ds)),
        (''minDepthBounds'', json_float c (minDepthBounds ds)),
        (''depthBoundsTestEnable'', json_u32 (depthBoundsTestEnable ds)),
        (''depthWriteEnable'', json_u32 (depthWriteEnable ds)),
        (''depthTestEnable'', json_u32 (depthTestEnable ds)),
        (''depthCompareOp'', json_u32 (depthCompareOp ds)),
        (''front'', serialize_stencil (ds_front ds)),
        (''back'', serialize_stencil (ds_back ds))])"

definition serialize_graphics_pipeline :: "codec \<Rightarrow> Hash \<times> VkGraphicsPipelineCreateInfo \<Rightarrow> error + json" where
  "serialize_graphics_pipeline c = (\<lambda>(hash, info).
     bindE (opt_member ''tessellationState'' (pTessellationState info) serialize_tessellation) (\<lambda>tess.
     bindE (opt_member ''dynamicState'' (pDynamicState info) serialize_dynamic) (\<lambda>dyn.
     bindE (opt_member ''multisampleState'' (pMultisampleState info) (serialize_multisample c)) (\<lambda>ms.
     bindE (opt_member ''vertexInputState'' (pVertexInputState info) serialize_vertex_input) (\<lambda>vi.
     bindE (opt_member ''rasterizationState'' (pRasterizationState info) (serialize_rasterization c)) (\<lambda>rs.
     bindE (opt_member ''inputAssemblyState'' (pInputAssemblyState info) serialize_input_assembly) (\<lambda>ia.
     bindE (opt_member ''colorBlendState'' (pColorBlendState info) (serialize_color_blend c)) (\<lambda>cb.
     bindE (opt_member ''viewportState'' (pViewportState info) (serialize_viewport_state c)) (\<lambda>vp.
     bindE (opt_member ''depthStencilState'' (pDepthStencilState info) (serialize_depth_stencil c)) (\<lambda>ds.
     bindE (read_array (unat (stageCount info)) (pStages info)) (\<lambda>stages.
     bindE (mapE (serialize_stage c) stages) (\<lambda>js.
       Inr (JObject
         ([(''hash'', json_u64 hash), (''flags'', json_u32 (gp_flags info)),
           (''basePipelineHandle'', json_u64 (gp_basePipelineHandle info)),
           (''basePipelineIndex'', json_s32 (gp_basePipelineIndex info)),
           (''layout'', json_u64 (gp_layout info)),
           (''renderPass'', json_u64 (renderPass info)),
           (''subpass'', json_u32 (subpass info))] @
          tess @ dyn @ ms @ vi @ rs @ ia @ cb @ vp @ ds @
          [(''stages'', JArray js)]))))))))))))))"

text \<open>
  The whole document. The arrays \<^verbatim>\<open>set_layouts\<close> and \<^verbatim>\<open>render_passes\<close> are added to the
  document before their loops run: \<^verbatim>\<open>AddMember\<close> moves the value and leaves a null value
  behind, so the document gets an empty array and the first \<^verbatim>\<open>PushBack\<close> of the loop is on
  a value that is not an array, which rapidjson asserts.
\<close>

definition serialize :: "codec \<Rightarrow> sampler_arrays \<Rightarrow> StateRecorder \<Rightarrow> error + json" where
  "serialize c mem r =
     bindE (case descriptor_sets r of
              [] \<Rightarrow> Inr ()
            | l # _ \<Rightarrow> bindE (serialize_set_layout mem l) (\<lambda>_. Inl AssertionFailed)) (\<lambda>_.
     bindE (mapE serialize_pipeline_layout (pipeline_layouts r)) (\<lambda>pls.
     bindE (mapE (serialize_shader_module c) (shader_modules r)) (\<lambda>sms.
     bindE (case render_passes r of
              [] \<Rightarrow> Inr ()
            | p # _ \<Rightarrow> bindE (serialize_render_pass p) (\<lambda>_. Inl AssertionFailed)) (\<lambda>_.
     bindE (mapE (serialize_compute_pipeline c) (compute_pipelines r)) (\<lambda>cps.
     bindE (mapE (serialize_graphics_pipeline c) (graphics_pipelines r)) (\<lambda>gps.
       Inr (JObject
         [(''samplers'', JArray (map (serialize_sampler c) (samplers r))),
          (''setLayouts'', JArray []),
          (''pipelineLayouts'', JArray pls),
          (''shaderModules'', JArray sms),
          (''renderPasses'', JArray []),
          (''computePipelines'', JArray cps),
          (''graphicsPipelines'', JArray gps)])))))))"

section \<open>StateReplayer\<close>

subsection \<open>Reading a rapidjson value\<close>

text \<open>
  Each accessor asserts the type it needs: \<^verbatim>\<open>operator[]\<close> and \<^verbatim>\<open>HasMember\<close> an object (and
  \<^verbatim>\<open>operator[]\<close> that the member exists), \<^verbatim>\<open>Size\<close> and \<^verbatim>\<open>Begin\<close> an array, \<^verbatim>\<open>GetUint\<close> an
  integer below \<open>2\<^sup>3\<^sup>2\<close>, \<^verbatim>\<open>GetUint64\<close> one below \<open>2\<^sup>6\<^sup>4\<close>, \<^verbatim>\<open>GetFloat\<close> a number, \<^verbatim>\<open>GetString\<close>
  a string. A failed assertion aborts the process; it is not an exception.
\<close>

definition get_member :: "json \<Rightarrow> string \<Rightarrow> error + json" where
  "get_member v name =
     (case v of
        JObject ms \<Rightarrow> (case map_of ms name of None \<Rightarrow> Inl AssertionFailed | Some x \<Rightarrow> Inr x)
      | _ \<Rightarrow> Inl AssertionFailed)"

definition has_member :: "json \<Rightarrow> string \<Rightarrow> error + bool" where
  "has_member v name =
     (case v of JObject ms \<Rightarrow> Inr (map_of ms name \<noteq> None) | _ \<Rightarrow> Inl AssertionFailed)"

definition get_array :: "json \<Rightarrow> error + json list" where
  "get_array v = (case v of JArray xs \<Rightarrow> Inr xs | _ \<Rightarrow> Inl AssertionFailed)"

definition get_uint :: "json \<Rightarrow> error + u32" where
  "get_uint v =
     (case v of
        JInt i \<Rightarrow> if 0 \<le> i \<and> i < 2 ^ 32 then Inr (word_of_int i) else Inl AssertionFailed
      | _ \<Rightarrow> Inl AssertionFailed)"

definition get_uint64 :: "json \<Rightarrow> error + 64 word" where
  "get_uint64 v =
     (case v of
        JInt i \<Rightarrow> if 0 \<le> i \<and> i < 2 ^ 64 then Inr (word_of_int i) else Inl AssertionFailed
      | _ \<Rightarrow> Inl AssertionFailed)"

definition get_float :: "codec \<Rightarrow> json \<Rightarrow> error + f32" where
  "get_float c v =
     (case v of
        JInt i \<Rightarrow> Inr (int_to_float c i)
      | JDouble d \<Rightarrow> Inr (double_to_float c d)
      | _ \<Rightarrow> Inl AssertionFailed)"

text \<open>\<^verbatim>\<open>GetString\<close> gives a C string, which the caller measures with \<^verbatim>\<open>strlen\<close>.\<close>

definition get_string :: "json \<Rightarrow> error + string" where
  "get_string v =
     (case v of
        JString s \<Rightarrow> Inr (takeWhile (\<lambda>ch. ch \<noteq> CHR 0x00) s)
      | _ \<Rightarrow> Inl AssertionFailed)"

definition member_uint :: "json \<Rightarrow> string \<Rightarrow> error + u32" where
  "member_uint v name = bindE (get_member v name) get_uint"

definition member_uint64 :: "json \<Rightarrow> string \<Rightarrow> error + 64 word" where
  "member_uint64 v name = bindE (get_member v name) get_uint64"

definition member_float :: "codec \<Rightarrow> json \<Rightarrow> string \<Rightarrow> error + f32" where
  "member_float c v name = bindE (get_member v name) (get_float c)"

subsection \<open>The calls to the replayer engine\<close>

text \<open>
  \<^verbatim>\<open>StateCreatorInterface\<close> is declared in the header that is not among the sources. Its
  methods \<^verbatim>\<open>set_num_<kind>\<close>, \<^verbatim>\<open>enqueue_create_<kind>\<close> and \<^verbatim>\<open>wait_enqueue\<close> are recorded as
  calls, in the order in which the parser makes them. The handle that the engine stores
  in the slot of an \<^verbatim>\<open>enqueue_create\<close> call is a function of the call.
\<close>

datatype kind =
    Sampler | DescriptorSetLayout | PipelineLayout | ShaderModule | RenderPass
  | ComputePipeline | GraphicsPipeline

datatype create_info =
    SamplerInfo VkSamplerCreateInfo
  | DescriptorSetLayoutInfo "vk_handle list VkDescriptorSetLayoutCreateInfo"
  | PipelineLayoutInfo VkPipelineLayoutCreateInfo
  | ShaderModuleInfo VkShaderModuleCreateInfo
  | RenderPassInfo VkRenderPassCreateInfo
  | ComputePipelineInfo VkComputePipelineCreateInfo
  | GraphicsPipelineInfo VkGraphicsPipelineCreateInfo

datatype callback =
    SetNum kind nat
  | EnqueueCreate kind Hash nat create_info
  | WaitEnqueue

record StateReplayer =
  calls :: "callback list"
  replayed_samplers :: "vk_handle list"
  replayed_descriptor_set_layouts :: "vk_handle list"
  replayed_pipeline_layouts :: "vk_handle list"
  replayed_shader_modules :: "vk_handle list"
  replayed_render_passes :: "vk_handle list"
  allocator :: "Block list"

definition new_replayer :: StateReplayer where
  "new_replayer = \<lparr>calls = [], replayed_samplers = [], replayed_descriptor_set_layouts = [],
                    replayed_pipeline_layouts = [], replayed_shader_modules = [],
                    replayed_render_passes = [], allocator = []\<rparr>"

definition call :: "callback \<Rightarrow> StateReplayer \<Rightarrow> StateReplayer" where
  "call cb rs = rs\<lparr>calls := calls rs @ [cb]\<rparr>"

definition resize :: "nat \<Rightarrow> vk_handle list \<Rightarrow> vk_handle list" where
  "resize n xs = take n xs @ replicate (n - length xs) 0"

subsection \<open>Parsing the elements\<close>

definition parse_immutable_samplers :: "StateReplayer \<Rightarrow> json \<Rightarrow> error + vk_handle list" where
  "parse_immutable_samplers rs samplers_json =
     bindE (get_array samplers_json)
       (mapE (\<lambda>itr. bindE (get_uint64 itr)
                (\<lambda>idx. if unat idx > length (replayed_samplers rs) then Inl LogicError
                        else if idx > 0 then Inr (replayed_samplers rs ! (unat idx - 1))
                        else Inr 0)))"

definition parse_descriptor_set_bindings ::
  "StateReplayer \<Rightarrow> json \<Rightarrow> error + vk_handle list VkDescriptorSetLayoutBinding list" where
  "parse_descriptor_set_bindings rs bindings =
     bindE (get_array bindings)
       (mapE (\<lambda>b.
          bindE (member_uint b ''binding'') (\<lambda>bn.
          bindE (member_uint b ''descriptorCount'') (\<lambda>dc.
          bindE (member_uint b ''descriptorType'') (\<lambda>dt.
          bindE (member_uint b ''stageFlags'') (\<lambda>sf.
          bindE (has_member b ''immutableSamplers'') (\<lambda>has.
          bindE (if has
                 then bindE (get_member b ''immutableSamplers'')
                        (\<lambda>v. bindE (parse_immutable_samplers rs v) (\<lambda>hs. Inr (Some hs)))
                 else Inr None) (\<lambda>imm.
            Inr \<lparr>binding = bn, descriptorType = dt, descriptorCount = dc, stageFlags = sf,
                 pImmutableSamplers = imm\<rparr>))))))))"

definition parse_push_constant_ranges :: "json \<Rightarrow> error + VkPushConstantRange list" where
  "parse_push_constant_ranges ranges =
     bindE (get_array ranges)
       (mapE (\<lambda>obj.
          bindE (member_uint obj ''stageFlags'') (\<lambda>sf.
          bindE (member_uint obj ''offset'') (\<lambda>off.
          bindE (member_uint obj ''size'') (\<lambda>sz.
            Inr \<lparr>pc_stageFlags = sf, pc_offset = off, pc_size = sz\<rparr>)))))"

definition parse_set_layouts :: "StateReplayer \<Rightarrow> json \<Rightarrow> error + vk_handle list" where
  "parse_set_layouts rs layouts =
     bindE (get_array layouts)
       (mapE (\<lambda>itr. bindE (get_uint itr)
                (\<lambda>idx. if unat idx > length (replayed_descriptor_set_layouts rs)
                        then Inl LogicError
                        else if idx > 0
                        then Inr (replayed_descriptor_set_layouts rs ! (unat idx - 1))
                        else Inr 0)))"

text \<open>
  The loop body of each \<^verbatim>\<open>parse_<kind>\<close>: the create info is filled first, and the hash is
  read when the call to the engine is made.
\<close>

text \<open>
  \<^verbatim>\<open>decode_base64\<close> decodes the text, takes \<open>size\<close> bytes aligned to 4 from the allocator of
  the replayer with \<^verbatim>\<open>allocate_raw\<close> and copies \<open>size\<close> bytes of the decoded buffer there. A
  call of \<^verbatim>\<open>allocate_raw\<close> that does not return adds a block of at least 64 KiB at every
  turn, until the \<^verbatim>\<open>new\<close> of the block's constructor finds no memory and throws
  \<^verbatim>\<open>std::bad_alloc\<close>; the blocks that such a call added are not kept in the model. The
  copy is undefined when the pointer is null, when the bytes pass the end of the block or
  when the decoded buffer is shorter than \<open>size\<close>.
\<close>

definition decode_base64 ::
  "codec \<Rightarrow> Block list \<Rightarrow> string \<Rightarrow> 64 word \<Rightarrow> error + 8 word list \<times> Block list" where
  "decode_base64 c blocks data sz =
     (let buffer = b64_decode c data
      in case allocate_raw blocks sz 4 of
           None \<Rightarrow> Inl BadAlloc
         | Some (None, blocks1) \<Rightarrow> Inl NullPointer
         | Some (Some (b, off), blocks1) \<Rightarrow>
             if unat (size_blk (blocks1 ! b)) < unat off + unat sz then Inl OutOfBounds
             else bindE (read_array (unat sz) buffer) (\<lambda>bytes. Inr (bytes, blocks1)))"

text \<open>
  The outcome of an element: the hash, the create info and the allocator after the
  element. \<^verbatim>\<open>allocate_n\<close>, \<^verbatim>\<open>allocate_n_cleared\<close> and \<^verbatim>\<open>allocate_cleared\<close> are templates of the
  header, which is not among the sources: the arrays they give are the lists of the model,
  and an element that takes memory through them only leaves the allocator as it is.
\<close>

definition element ::
  "(StateReplayer \<Rightarrow> json \<Rightarrow> error + Hash \<times> create_info) \<Rightarrow>
   StateReplayer \<Rightarrow> json \<Rightarrow> error + Hash \<times> create_info \<times> Block list" where
  "element body rs obj = bindE (body rs obj) (\<lambda>(h, info). Inr (h, info, allocator rs))"

definition parse_shader_module ::
  "codec \<Rightarrow> StateReplayer \<Rightarrow> json \<Rightarrow> error + Hash \<times> create_info \<times> Block list" where
  "parse_shader_module c rs obj =
     bindE (member_uint obj ''flags'') (\<lambda>fl.
     bindE (member_uint64 obj ''codeSize'') (\<lambda>cs.
     bindE (bindE (get_member obj ''code'') get_string) (\<lambda>code.
     bindE (decode_base64 c (allocator rs) code cs) (\<lambda>(bytes, blocks).
     bindE (member_uint64 obj ''hash'') (\<lambda>h.
       Inr (h, ShaderModuleInfo \<lparr>sm_flags = fl, codeSize = cs, pCode = bytes\<rparr>, blocks))))))"

definition parse_pipeline_layout :: "StateReplayer \<Rightarrow> json \<Rightarrow> error + Hash \<times> create_info" where
  "parse_pipeline_layout rs obj =
     bindE (member_uint obj ''flags'') (\<lambda>fl.
     bindE (has_member obj ''pushConstantRanges'') (\<lambda>has_pc.
     bindE (if has_pc
            then bindE (get_member obj ''pushConstantRanges'')
                   (\<lambda>v. bindE (get_array v) (\<lambda>xs. bindE (parse_push_constant_ranges v)
                      (\<lambda>pcs. Inr (of_nat (length xs), pcs))))
            else Inr (0, [])) (\<lambda>(pc_count, pcs).
     bindE (has_member obj ''setLayouts'') (\<lambda>has_sl.
     bindE (if has_sl
            then bindE (get_member obj ''setLayouts'')
                   (\<lambda>v. bindE (get_array v) (\<lambda>xs. bindE (parse_set_layouts rs v)
                      (\<lambda>sls. Inr (of_nat (length xs), sls))))
            else Inr (0, [])) (\<lambda>(sl_count, sls).
     bindE (member_uint64 obj ''hash'') (\<lambda>h.
       Inr (h, PipelineLayoutInfo
                 \<lparr>pl_flags = fl, setLayoutCount = sl_count, pSetLayouts = sls,
                  pushConstantRangeCount = pc_count, pPushConstantRanges = pcs\<rparr>)))))))"

definition parse_descriptor_set_layout :: "StateReplayer \<Rightarrow> json \<Rightarrow> error + Hash \<times> create_info" where
  "parse_descriptor_set_layout rs obj =
     bindE (member_uint obj ''flags'') (\<lambda>fl.
     bindE (has_member obj ''bindings'') (\<lambda>has.
     bindE (if has
            then bindE (get_member obj ''bindings'')
                   (\<lambda>v. bindE (get_array v) (\<lambda>xs. bindE (parse_descriptor_set_bindings rs v)
                      (\<lambda>bs. Inr (of_nat (length xs), bs))))
            else Inr (0, [])) (\<lambda>(b_count, bs).
     bindE (member_uint64 obj ''hash'') (\<lambda>h.
       Inr (h, DescriptorSetLayoutInfo
                 \<lparr>dsl_flags = fl, bindingCount = b_count, pBindings = bs\<rparr>)))))"

definition parse_sampler :: "codec \<Rightarrow> json \<Rightarrow> error + Hash \<times> create_info" where
  "parse_sampler c obj =
     bindE (member_uint obj ''addressModeU'') (\<lambda>amu.
     bindE (member_uint obj ''addressModeV'') (\<lambda>amv.
     bindE (member_uint obj ''addressModeW'') (\<lambda>amw.
     bindE (member_uint obj ''anisotropyEnable'') (\<lambda>ae.
     bindE (member_uint obj ''borderColor'') (\<lambda>bc.
     bindE (member_uint obj ''compareEnable'') (\<lambda>ce.
     bindE (member_uint obj ''compareOp'') (\<lambda>co.
     bindE (member_uint obj ''flags'') (\<lambda>fl.
     bindE (member_uint obj ''magFilter'') (\<lambda>mag.
     bindE (member_uint obj ''minFilter'') (\<lambda>mn.
     bindE (member_float c obj ''maxAnisotropy'') (\<lambda>ma.
     bindE (member_uint obj ''mipmapMode'') (\<lambda>mm.
     bindE (member_float c obj ''maxLod'') (\<lambda>maxl.
     bindE (member_float c obj ''minLod'') (\<lambda>minl.
     bindE (member_float c obj ''mipLodBias'') (\<lambda>mlb.
     bindE (member_uint64 obj ''hash'') (\<lambda>h.
       Inr (h, SamplerInfo
                 \<lparr>smp_flags = fl, magFilter = mag, minFilter = mn, mipmapMode = mm,
                  addressModeU = amu, addressModeV = amv, addressModeW = amw,
                  mipLodBias = mlb, anisotropyEnable = ae, maxAnisotropy = ma,
                  compareEnable = ce, smp_compareOp = co, minLod = minl, maxLod = maxl,
                  borderColor = bc, unnormalizedCoordinates = 0\<rparr>)))))))))))))))))"

definition parse_render_pass_attachments :: "json \<Rightarrow> error + VkAttachmentDescription list" where
  "parse_render_pass_attachments attachments =
     bindE (get_array attachments)
       (mapE (\<lambda>obj.
          bindE (member_uint obj ''flags'') (\<lambda>fl.
          bindE (member_uint obj ''finalLayout'') (\<lambda>final.
          bindE (member_uint obj ''initialLayout'') (\<lambda>initial.
          bindE (member_uint obj ''format'') (\<lambda>fmt.
          bindE (member_uint obj ''loadOp'') (\<lambda>lo.
          bindE (member_uint obj ''storeOp'') (\<lambda>so.
          bindE (member_uint obj ''stencilLoadOp'') (\<lambda>slo.
          bindE (member_uint obj ''stencilStoreOp'') (\<lambda>sso.
          bindE (member_uint obj ''samples'') (\<lambda>smp.
            Inr \<lparr>at_flags = fl, at_format = fmt, samples = smp, loadOp = lo, storeOp = so,
                 stencilLoadOp = slo, stencilStoreOp = sso, initialLayout = initial,
                 finalLayout = final\<rparr>)))))))))))"

definition parse_render_pass_dependencies :: "json \<Rightarrow> error + VkSubpassDependency list" where
  "parse_render_pass_dependencies dependencies =
     bindE (get_array dependencies)
       (mapE (\<lambda>obj.
          bindE (member_uint obj ''dependencyFlags'') (\<lambda>df.
          bindE (member_uint obj ''dstAccessMask'') (\<lambda>dam.
          bindE (member_uint obj ''srcAccessMask'') (\<lambda>sam.
          bindE (member_uint obj ''dstStageMask'') (\<lambda>dsm.
          bindE (member_uint obj ''srcStageMask'') (\<lambda>ssm.
          bindE (member_uint obj ''srcSubpass'') (\<lambda>ss.
          bindE (member_uint obj ''dstSubpass'') (\<lambda>dst.
            Inr \<lparr>srcSubpass = ss, dstSubpass = dst, srcStageMask = ssm, dstStageMask = dsm,
                 srcAccessMask = sam, dstAccessMask = dam, dependencyFlags = df\<rparr>)))))))))"

definition parse_attachment :: "json \<Rightarrow> error + VkAttachmentReference" where
  "parse_attachment v =
     bindE (member_uint v ''attachment'') (\<lambda>a.
     bindE (member_uint v ''layout'') (\<lambda>l. Inr \<lparr>attachment = a, layout = l\<rparr>))"

text \<open>
  \<^verbatim>\<open>parse_attachments\<close> allocates one cleared reference and writes one reference for each
  element of the array: a second element is written past the allocation.
\<close>

definition parse_attachments :: "json \<Rightarrow> error + VkAttachmentReference list" where
  "parse_attachments attachments =
     bindE (get_array attachments)
       (\<lambda>xs. case xs of
                [] \<Rightarrow> Inr [\<lparr>attachment = 0, layout = 0\<rparr>]
              | x # rest \<Rightarrow>
                  bindE (parse_attachment x)
                    (\<lambda>a. if rest = [] then Inr [a] else Inl OutOfBounds))"

definition parse_optional :: "json \<Rightarrow> string \<Rightarrow> (json \<Rightarrow> error + 'a) \<Rightarrow> error + 'a option" where
  "parse_optional obj name f =
     bindE (has_member obj name)
       (\<lambda>has. if has then bindE (get_member obj name) (\<lambda>v. bindE (f v) (\<lambda>x. Inr (Some x)))
               else Inr None)"

definition parse_render_pass_subpasses :: "json \<Rightarrow> error + VkSubpassDescription list" where
  "parse_render_pass_subpasses subpasses =
     bindE (get_array subpasses)
       (mapE (\<lambda>obj.
          bindE (member_uint obj ''flags'') (\<lambda>fl.
          bindE (parse_optional obj ''depthStencilAttachment'' parse_attachment) (\<lambda>dsa.
          bindE (parse_optional obj ''resolveAttachments'' parse_attachments) (\<lambda>res.
          bindE (parse_optional obj ''inputAttachments'' parse_attachments) (\<lambda>inp.
            Inr \<lparr>sp_flags = fl, pipelineBindPoint = 0, inputAttachmentCount = 0,
                 pInputAttachments = inp, colorAttachmentCount = 0, pColorAttachments = None,
                 pResolveAttachments = res, pDepthStencilAttachment = dsa,
                 preserveAttachmentCount = 0, pPreserveAttachments = None\<rparr>))))))"

definition parse_counted :: "json \<Rightarrow> string \<Rightarrow> (json \<Rightarrow> error + 'a list) \<Rightarrow> error + u32 \<times> 'a list" where
  "parse_counted obj name f =
     bindE (has_member obj name)
       (\<lambda>has. if has
               then bindE (get_member obj name)
                      (\<lambda>v. bindE (get_array v) (\<lambda>xs. bindE (f v) (\<lambda>ys. Inr (of_nat (length xs), ys))))
               else Inr (0, []))"

definition parse_render_pass :: "json \<Rightarrow> error + Hash \<times> create_info" where
  "parse_render_pass obj =
     bindE (member_uint obj ''flags'') (\<lambda>fl.
     bindE (parse_counted obj ''attachments'' parse_render_pass_attachments) (\<lambda>(att_count, atts).
     bindE (parse_counted obj ''dependencies'' parse_render_pass_dependencies) (\<lambda>(dep_count, deps).
     bindE (parse_counted obj ''subpasses'' parse_render_pass_subpasses) (\<lambda>(sub_count, subs).
     bindE (member_uint64 obj ''hash'') (\<lambda>h.
       Inr (h, RenderPassInfo
                 \<lparr>rp_flags = fl, attachmentCount_rp = att_count, pAttachments_rp = atts,
                  subpassCount = sub_count, pSubpasses = subs,
                  dependencyCount = dep_count, pDependencies = deps\<rparr>))))))"

subsection \<open>Parsing the kinds\<close>

text \<open>
  The loop of a \<^verbatim>\<open>parse_<kind>\<close> function: an element is parsed, the engine is called, and
  the engine's handle lands in the slot of the element. An element that fails ends the
  loop, after the calls for the elements before it.
\<close>

fun parse_elements ::
  "(callback \<Rightarrow> vk_handle) \<Rightarrow> kind \<Rightarrow>
   (StateReplayer \<Rightarrow> json \<Rightarrow> error + Hash \<times> create_info \<times> Block list) \<Rightarrow>
   ((vk_handle list \<Rightarrow> vk_handle list) \<Rightarrow> StateReplayer \<Rightarrow> StateReplayer) \<Rightarrow>
   json list \<Rightarrow> nat \<Rightarrow> StateReplayer \<Rightarrow> error option \<times> StateReplayer" where
  "parse_elements engine k body slots [] i rs = (None, rs)"
| "parse_elements engine k body slots (obj # objs) i rs =
     (case body rs obj of
        Inl e \<Rightarrow> (Some e, rs)
      | Inr (h, info, blocks) \<Rightarrow>
          parse_elements engine k body slots objs (Suc i)
            (slots (\<lambda>xs. xs[i := engine (EnqueueCreate k h i info)])
               (call (EnqueueCreate k h i info) (rs\<lparr>allocator := blocks\<rparr>))))"

text \<open>
  A \<^verbatim>\<open>parse_<kind>\<close> function: \<^verbatim>\<open>set_num_<kind>\<close>, the resize of the slots, the loop and
  \<^verbatim>\<open>wait_enqueue\<close>.
\<close>

definition parse_kind ::
  "(callback \<Rightarrow> vk_handle) \<Rightarrow> kind \<Rightarrow>
   (StateReplayer \<Rightarrow> json \<Rightarrow> error + Hash \<times> create_info \<times> Block list) \<Rightarrow>
   ((vk_handle list \<Rightarrow> vk_handle list) \<Rightarrow> StateReplayer \<Rightarrow> StateReplayer) \<Rightarrow>
   json \<Rightarrow> StateReplayer \<Rightarrow> error option \<times> StateReplayer" where
  "parse_kind engine k body slots arr rs =
     (case get_array arr of
        Inl e \<Rightarrow> (Some e, rs)
      | Inr objs \<Rightarrow>
          (case parse_elements engine k body slots objs 0
                  (slots (resize (length objs)) (call (SetNum k (length objs)) rs)) of
             (Some e, rs1) \<Rightarrow> (Some e, rs1)
           | (None, rs1) \<Rightarrow> (None, call WaitEnqueue rs1)))"

definition parse_shader_modules ::
  "codec \<Rightarrow> (callback \<Rightarrow> vk_handle) \<Rightarrow> json \<Rightarrow> StateReplayer \<Rightarrow> error option \<times> StateReplayer" where
  "parse_shader_modules c engine =
     parse_kind engine ShaderModule (parse_shader_module c) replayed_shader_modules_update"

definition parse_pipeline_layouts ::
  "(callback \<Rightarrow> vk_handle) \<Rightarrow> json \<Rightarrow> StateReplayer \<Rightarrow> error option \<times> StateReplayer" where
  "parse_pipeline_layouts engine =
     parse_kind engine PipelineLayout (element parse_pipeline_layout)
       replayed_pipeline_layouts_update"

definition parse_descriptor_set_layouts ::
  "(callback \<Rightarrow> vk_handle) \<Rightarrow> json \<Rightarrow> StateReplayer \<Rightarrow> error option \<times> StateReplayer" where
  "parse_descriptor_set_layouts engine =
     parse_kind engine DescriptorSetLayout (element parse_descriptor_set_layout)
       replayed_descriptor_set_layouts_update"

definition parse_samplers ::
  "codec \<Rightarrow> (callback \<Rightarrow> vk_handle) \<Rightarrow> json \<Rightarrow> StateReplayer \<Rightarrow> error option \<times> StateReplayer" where
  "parse_samplers c engine =
     parse_kind engine Sampler (element (\<lambda>rs. parse_sampler c)) replayed_samplers_update"

definition parse_render_passes ::
  "(callback \<Rightarrow> vk_handle) \<Rightarrow> json \<Rightarrow> StateReplayer \<Rightarrow> error option \<times> StateReplayer" where
  "parse_render_passes engine =
     parse_kind engine RenderPass (element (\<lambda>rs. parse_render_pass))
       replayed_render_passes_update"

subsection \<open>StateReplayer::parse\<close>

text \<open>
  One \<^verbatim>\<open>if (doc.HasMember(name)) parse_<kind>(iface, doc[name]); else
  iface.set_num_<kind>(0);\<close> of \<^verbatim>\<open>StateReplayer::parse\<close>.
\<close>

definition parse_member ::
  "json \<Rightarrow> string \<Rightarrow> kind \<Rightarrow> (json \<Rightarrow> StateReplayer \<Rightarrow> error option \<times> StateReplayer) \<Rightarrow>
   StateReplayer \<Rightarrow> error option \<times> StateReplayer" where
  "parse_member doc name k f rs =
     (case has_member doc name of
        Inl e \<Rightarrow> (Some e, rs)
      | Inr has \<Rightarrow>
          if has
          then (case get_member doc name of Inl e \<Rightarrow> (Some e, rs) | Inr v \<Rightarrow> f v rs)
          else (None, call (SetNum k 0) rs))"

fun run_steps :: "('s \<Rightarrow> error option \<times> 's) list \<Rightarrow> 's \<Rightarrow> error option \<times> 's" where
  "run_steps [] rs = (None, rs)"
| "run_steps (step # steps) rs =
     (case step rs of
        (Some e, rs1) \<Rightarrow> (Some e, rs1)
      | (None, rs1) \<Rightarrow> run_steps steps rs1)"

text \<open>The five steps inside the \<^verbatim>\<open>try\<close> block, in the order of the source.\<close>

definition parse_steps ::
  "codec \<Rightarrow> (callback \<Rightarrow> vk_handle) \<Rightarrow> json \<Rightarrow> (StateReplayer \<Rightarrow> error option \<times> StateReplayer) list" where
  "parse_steps c engine doc =
     [parse_member doc ''shaderModules'' ShaderModule (parse_shader_modules c engine),
      parse_member doc ''samplers'' Sampler (parse_samplers c engine),
      parse_member doc ''descriptorSetLayouts'' DescriptorSetLayout
        (parse_descriptor_set_layouts engine),
      parse_member doc ''pipelineLayouts'' PipelineLayout (parse_pipeline_layouts engine),
      parse_member doc ''renderPasses'' RenderPass (parse_render_passes engine)]"

text \<open>
  \<^verbatim>\<open>StateReplayer::parse\<close> returns a boolean or does not return: an exception is caught
  and gives \<open>false\<close>, a failed assertion or an access out of bounds is not an exception. The
  document is \<open>None\<close> when rapidjson reports a parse error for the text.
\<close>

datatype outcome = Returned bool | Aborted error

definition StateReplayer_parse ::
  "codec \<Rightarrow> (callback \<Rightarrow> vk_handle) \<Rightarrow> json option \<Rightarrow> StateReplayer \<Rightarrow> outcome \<times> StateReplayer" where
  "StateReplayer_parse c engine parsed rs =
     (case parsed of
        None \<Rightarrow> (Returned False, rs)
      | Some doc \<Rightarrow>
          (case run_steps (parse_steps c engine doc) rs of
             (None, rs1) \<Rightarrow> (Returned True, rs1)
           | (Some e, rs1) \<Rightarrow> (if is_exception e then Returned False else Aborted e, rs1)))"

text \<open>
  The five steps as a table, in the order of \<^verbatim>\<open>StateReplayer::parse\<close>: the member of the
  document, the kind, the parser of one element and the slots that take the handles.
\<close>

definition parse_table ::
  "codec \<Rightarrow>
   (string \<times> kind \<times> (StateReplayer \<Rightarrow> json \<Rightarrow> error + Hash \<times> create_info \<times> Block list) \<times>
    ((vk_handle list \<Rightarrow> vk_handle list) \<Rightarrow> StateReplayer \<Rightarrow> StateReplayer)) list" where
  "parse_table c =
     [(''shaderModules'', ShaderModule, parse_shader_module c, replayed_shader_modules_update),
      (''samplers'', Sampler, element (\<lambda>rs. parse_sampler c), replayed_samplers_update),
      (''descriptorSetLayouts'', DescriptorSetLayout, element parse_descriptor_set_layout,
       replayed_descriptor_set_layouts_update),
      (''pipelineLayouts'', PipelineLayout, element parse_pipeline_layout,
       replayed_pipeline_layouts_update),
      (''renderPasses'', RenderPass, element (\<lambda>rs. parse_render_pass),
       replayed_render_passes_update)]"

text \<open>The step of \<^verbatim>\<open>StateReplayer::parse\<close> for one row of the table.\<close>

definition table_step ::
  "(callback \<Rightarrow> vk_handle) \<Rightarrow> json \<Rightarrow>
   string \<times> kind \<times> (StateReplayer \<Rightarrow> json \<Rightarrow> error + Hash \<times> create_info \<times> Block list) \<times>
   ((vk_handle list \<Rightarrow> vk_handle list) \<Rightarrow> StateReplayer \<Rightarrow> StateReplayer) \<Rightarrow>
   StateReplayer \<Rightarrow> error option \<times> StateReplayer" where
  "table_step engine doc = (\<lambda>(name, k, body, slots).
     parse_member doc name k (parse_kind engine k body slots))"

subsection \<open>Example documents\<close>

text \<open>
  Stand-ins for the functions from outside the sources, for the examples only: a double
  carries the bit pattern of the float, and the text of a payload carries its bytes as
  characters. The engine of the examples answers each creation with the hash as handle.
\<close>

definition codec_ex :: codec where
  "codec_ex = \<lparr>float_to_double = ucast, double_to_float = ucast, int_to_float = word_of_int,
                b64_encode = map (\<lambda>b. char_of (unat b)), b64_decode = map of_char\<rparr>"

definition engine_ex :: "callback \<Rightarrow> vk_handle" where
  "engine_ex cb = (case cb of EnqueueCreate k h i info \<Rightarrow> h | _ \<Rightarrow> 0)"

definition empty_recorder :: StateRecorder where
  "empty_recorder =
     \<lparr>samplers = [], descriptor_sets = [], pipeline_layouts = [], shader_modules = [],
      render_passes = [], compute_pipelines = [], graphics_pipelines = [],
      sampler_to_index = Map.empty, descriptor_set_layout_to_index = Map.empty,
      pipeline_layout_to_index = Map.empty, shader_module_to_index = Map.empty,
      render_pass_to_index = Map.empty, compute_pipeline_to_index = Map.empty,
      graphics_pipeline_to_index = Map.empty\<rparr>"

text \<open>A recorder with one sampler (hash \<open>0x51\<close>), and one with one pipeline layout.\<close>

definition recorder_one_sampler :: StateRecorder where
  "recorder_one_sampler = empty_recorder\<lparr>samplers := [(0x51, sampler_ex)]\<rparr>"

definition layout_push :: VkPipelineLayoutCreateInfo where
  "layout_push = \<lparr>pl_flags = 0, setLayoutCount = 0, pSetLayouts = [],
                   pushConstantRangeCount = 1,
                   pPushConstantRanges = [\<lparr>pc_stageFlags = 1, pc_offset = 0, pc_size = 16\<rparr>]\<rparr>"

definition recorder_one_layout :: StateRecorder where
  "recorder_one_layout = empty_recorder\<lparr>pipeline_layouts := [(0x11, layout_push)]\<rparr>"

text \<open>
  A document whose only pipeline layout refers to descriptor set layout 1, which the
  document does not have.
\<close>

definition dangling_document :: json where
  "dangling_document =
     JObject [(''pipelineLayouts'',
                 JArray [JObject [(''hash'', JInt 17), (''flags'', JInt 0),
                                  (''setLayouts'', JArray [JInt 1])]])]"

text \<open>A document with one shader module of four bytes.\<close>

definition document_one_module :: json where
  "document_one_module =
     JObject [(''shaderModules'',
                 JArray [JObject [(''hash'', JInt 7), (''flags'', JInt 0), (''codeSize'', JInt 4),
                                  (''code'', JString ''abcd'')]])]"

subsection \<open>The shape of a sequence of calls\<close>

text \<open>
  Predicates on the calls that the parser makes. \<open>enqueues_from k i cs\<close>: the calls \<open>cs\<close> are
  \<^verbatim>\<open>enqueue_create_<kind>\<close> calls of kind \<open>k\<close> with the indices \<open>i\<close>, \<open>i + 1\<close>, ... in this order.
  \<open>kind_block k cs\<close>: \<open>cs\<close> is what one step of \<^verbatim>\<open>StateReplayer::parse\<close> delivers for the kind
  \<open>k\<close>, either \<^verbatim>\<open>set_num_<kind>(0)\<close> alone (the document has no member for the kind), or
  \<^verbatim>\<open>set_num_<kind>(n)\<close>, \<open>n\<close> creations with the indices \<open>0\<close> to \<open>n - 1\<close>, and \<^verbatim>\<open>wait_enqueue\<close>.
\<close>

fun enqueues_from :: "kind \<Rightarrow> nat \<Rightarrow> callback list \<Rightarrow> bool" where
  "enqueues_from k i [] = True"
| "enqueues_from k i (cb # cbs) =
     ((case cb of EnqueueCreate k' h j info \<Rightarrow> k' = k \<and> j = i | _ \<Rightarrow> False) \<and>
      enqueues_from k (Suc i) cbs)"

definition kind_block :: "kind \<Rightarrow> callback list \<Rightarrow> bool" where
  "kind_block k cs =
     (case cs of
        SetNum k' n # rest \<Rightarrow>
          k' = k \<and>
          ((n = 0 \<and> rest = []) \<or>
           (rest \<noteq> [] \<and> last rest = WaitEnqueue \<and> length rest = Suc n \<and>
            enqueues_from k 0 (butlast rest)))
      | _ \<Rightarrow> False)"

definition call_kind :: "callback \<Rightarrow> kind option" where
  "call_kind cb = (case cb of SetNum k n \<Rightarrow> Some k | EnqueueCreate k h i info \<Rightarrow> Some k | WaitEnqueue \<Rightarrow> None)"

text \<open>
  A step appends its calls to the calls made so far, and when it ends without an error
  the calls it appended are the block of its kind.
\<close>

definition step_ok :: "kind \<Rightarrow> (StateReplayer \<Rightarrow> error option \<times> StateReplayer) \<Rightarrow> bool" where
  "step_ok k step \<longleftrightarrow> (\<forall>rs r rs1. step rs = (r, rs1) \<longrightarrow>
       (\<exists>b. calls rs1 = calls rs @ b \<and> (r = None \<longrightarrow> kind_block k b)))"

text \<open>
  The document that \<^verbatim>\<open>serialize\<close> writes for the recorder with one pipeline layout, and the
  calls that \<^verbatim>\<open>parse\<close> makes on it.
\<close>

definition document_one_layout :: json where
  "document_one_layout =
     JObject [(''samplers'', JArray []), (''setLayouts'', JArray []),
              (''pipelineLayouts'',
                 JArray [JObject [(''hash'', JInt 17), (''flags'', JInt 0),
                                  (''pushConstantRanges'',
                                     JArray [JObject [(''stageFlags'', JInt 1), (''size'', JInt 16),
                                                      (''offset'', JInt 0)]]),
                                  (''setLayouts'', JArray [])]]),
              (''shaderModules'', JArray []), (''renderPasses'', JArray []),
              (''computePipelines'', JArray []), (''graphicsPipelines'', JArray [])]"

definition calls_one_layout :: "callback list" where
  "calls_one_layout =
     [SetNum ShaderModule 0, WaitEnqueue, SetNum Sampler 0, WaitEnqueue,
      SetNum DescriptorSetLayout 0,
      SetNum PipelineLayout 1, EnqueueCreate PipelineLayout 17 0 (PipelineLayoutInfo layout_push),
      WaitEnqueue,
      SetNum RenderPass 0, WaitEnqueue]"

section \<open>Properties of the scratch allocator\<close>

lemma fresh_last_add_block: "fresh_last (add_block blocks m)"
  by (simp add: fresh_last_def add_block_def)

lemma pow2_minus_one_and_not:
  fixes k :: nat
  shows "((2 ^ k - 1) AND NOT (2 ^ k) :: 64 word) = 2 ^ k - 1"
proof -
  have "(mask k AND NOT (2 ^ k) :: 64 word) = mask k"
    by (rule bit_eqI) (auto simp: bit_simps)
  then show ?thesis by (simp add: mask_eq_exp_minus_1)
qed

lemma unat_pow2_64:
  fixes k :: nat
  assumes "k < 64"
  shows "unat (2 ^ k :: 64 word) = 2 ^ k"
proof -
  have lt: "(2::nat) ^ k < 2 ^ 64"
    using assms by (simp only: power_strict_increasing_iff one_less_numeral_iff semiring_norm)
  have "(2 ^ k :: 64 word) = of_nat (2 ^ k)"
    by simp
  then have "unat (2 ^ k :: 64 word) = 2 ^ k mod 2 ^ LENGTH(64)"
    by (simp only: unat_of_nat)
  also have "\<dots> = 2 ^ k"
    using lt by simp
  finally show ?thesis .
qed

text \<open>
  For a power-of-two alignment above 1 the rounded offset of an untouched block is
  \<open>alignment - 1\<close>, not 0, and the fit test compares against the request, not the block.
\<close>

lemma misfit_pow2:
  fixes sz :: "64 word"
  assumes k: "0 < k" "k < 64" and nowrap: "unat sz + 2 ^ k \<le> 2 ^ 64"
  shows "misfit sz (2 ^ k)"
proof -
  have p: "unat (2 ^ k :: 64 word) = 2 ^ k"
    using k by (simp add: unat_pow2_64)
  have nz: "(2 ^ k :: 64 word) \<noteq> 0"
    using p by (metis power_not_zero unat_0 zero_neq_numeral)
  have m: "unat (2 ^ k - 1 :: 64 word) = 2 ^ k - 1"
    using unat_minus_one [OF nz] p by simp
  have pos: "(1::nat) < 2 ^ k"
    using k one_less_power [of "2::nat" k] by simp
  have "unat (2 ^ k - 1 :: 64 word) + unat sz < 2 ^ LENGTH(64)"
    using m nowrap pos by simp
  then have "unat ((2 ^ k - 1) + sz) = unat (2 ^ k - 1 :: 64 word) + unat sz"
    by (simp only: unat_add_lem)
  then have "sz < (2 ^ k - 1) + sz"
    using m pos by (simp add: word_less_nat_alt)
  then show ?thesis
    by (simp add: misfit_def pow2_minus_one_and_not not_le)
qed

text \<open>Whenever \<^verbatim>\<open>allocate_raw\<close> returns, the fit test passed on some block that was in use.\<close>

lemma allocate_raw_returns_not_fresh:
  assumes ret: "allocate_raw blocks sz alignment = Some r"
  shows "misfit sz alignment \<longrightarrow> \<not> fresh_last blocks"
proof (rule allocate_raw.raw_induct
    [where P = "\<lambda>b s a r. misfit s a \<longrightarrow> \<not> fresh_last b", OF _ ret])
  fix f b s a res
  assume IH: "\<And>b s a res. f b s a = Some res \<Longrightarrow> misfit s a \<longrightarrow> \<not> fresh_last b"
    and eq: "(let blocks1 = (if b = [] then add_block b (s + a) else b);
                 block = last blocks1
             in if \<not> blob block then Some (None, blocks1)
                else
                  let off = (offset block + a - 1) AND NOT a;
                      required_size = off + s
                  in if required_size \<le> s
                     then Some (Some (length blocks1 - 1, off),
                                butlast blocks1 @ [block\<lparr>offset := required_size\<rparr>])
                     else f (add_block blocks1 (s + a)) s a) = Some res"
  show "misfit s a \<longrightarrow> \<not> fresh_last b"
  proof (intro impI notI)
    assume mf: "misfit s a" and fr: "fresh_last b"
    define b1 where "b1 = (if b = [] then add_block b (s + a) else b)"
    have fr1: "blob (last b1)" "offset (last b1) = 0"
      using fr by (auto simp: b1_def fresh_last_def add_block_def)
    have nf: "\<not> ((offset (last b1) + a - 1) AND NOT a) + s \<le> s"
      using mf unfolding fr1(2) misfit_def by simp
    have "f (add_block b1 (s + a)) s a = Some res"
      using eq fr1(1) nf unfolding b1_def [symmetric] Let_def by simp
    from IH [OF this] mf show False by (simp add: fresh_last_add_block)
  qed
qed

lemma allocate_raw_diverges:
  "misfit sz alignment \<Longrightarrow> fresh_last blocks \<Longrightarrow> allocate_raw blocks sz alignment = None"
  using allocate_raw_returns_not_fresh [of blocks sz alignment]
  by (cases "allocate_raw blocks sz alignment") auto

text \<open>
  On a new allocator, and on one whose last block is untouched, no request with a
  power-of-two alignment of 2 or more is ever answered.
\<close>

lemma allocate_raw_pow2_never_returns:
  assumes "0 < k" "k < 64" "unat sz + 2 ^ k \<le> 2 ^ 64" "fresh_last blocks"
  shows "allocate_raw blocks sz (2 ^ k) = None"
  using assms by (intro allocate_raw_diverges misfit_pow2)

text \<open>
  C10. The claim: for every request with positive size and power-of-two alignment,
  \<^verbatim>\<open>allocate_raw\<close> terminates with a non-null pointer aligned as requested, and requests
  that fit in the current block advance its offset instead of adding a block. The code
  does neither: a request of 4 bytes aligned to 4 on a new allocator never returns, and
  with alignment 1 a second request of 8 bytes, which fits the 64 KiB block that holds
  the first, is served from a second block.
\<close>

theorem allocate_raw_fails_claim:
  "allocate_raw [] 4 4 = None \<and>
   allocate_raw [] 8 1 =
     Some (Some (0, 0), [\<lparr>blob = True, offset = 8, size_blk = 65536\<rparr>]) \<and>
   allocate_raw [\<lparr>blob = True, offset = 8, size_blk = 65536\<rparr>] 8 1 =
     Some (Some (1, 0), [\<lparr>blob = True, offset = 8, size_blk = 65536\<rparr>,
                         \<lparr>blob = True, offset = 8, size_blk = 65536\<rparr>])"
proof (intro conjI)
  show "allocate_raw [] 4 4 = None"
    using allocate_raw_pow2_never_returns [of 2 4 "[]"] by (simp add: fresh_last_def)
  show "allocate_raw [] 8 1 =
     Some (Some (0, 0), [\<lparr>blob = True, offset = 8, size_blk = 65536\<rparr>])"
    by (simp add: allocate_raw.simps add_block_def)
  show "allocate_raw [\<lparr>blob = True, offset = 8, size_blk = 65536\<rparr>] 8 1 =
     Some (Some (1, 0), [\<lparr>blob = True, offset = 8, size_blk = 65536\<rparr>,
                         \<lparr>blob = True, offset = 8, size_blk = 65536\<rparr>])"
    by (simp add: allocate_raw.simps add_block_def Let_def)
qed

section \<open>Properties of the message parser\<close>

lemma digit_value_decimal:
  "48 \<le> (of_char c :: nat) \<Longrightarrow> (of_char c :: nat) \<le> 57 \<Longrightarrow>
   digit_value c = Some (of_char c - 48)"
  by (simp add: digit_value_def)

lemma scan_digits_decimal:
  assumes "list_all (\<lambda>c. 48 \<le> (of_char c :: nat) \<and> (of_char c :: nat) \<le> 57) ds"
  shows "scan_digits 10 (ds @ ''\<newline>'') = map (\<lambda>c. of_char c - 48) ds"
  using assms
proof (induction ds)
  case Nil
  show ?case by (simp add: digit_value_def)
next
  case (Cons c cs)
  then have "digit_value c = Some (of_char c - 48)" and "(of_char c :: nat) - 48 < 10"
    by (auto simp: digit_value_decimal)
  with Cons show ?case by simp
qed

lemma digits_value_map:
  "foldl (\<lambda>a d. a * 10 + d) acc (map (\<lambda>c. of_char c - 48) ds) =
   foldl (\<lambda>a c. a * 10 + (of_char c - 48)) acc ds"
  by (induction ds arbitrary: acc) simp_all

text \<open>
  A decimal numeral without a superfluous leading zero is read in base 10 (the single
  digit 0 in base 8, with the same value).
\<close>

lemma strto_scan_decimal:
  assumes dec: "is_decimal ds" and canon: "ds = ''0'' \<or> hd ds \<noteq> CHR ''0''"
  shows "strto_scan (CHR '' '' # ds @ ''\<newline>'') 0 = (False, decimal_value ds)"
proof -
  from dec obtain c cs where ds: "ds = c # cs"
    by (cases ds) (auto simp: is_decimal_def)
  from dec ds have c: "48 \<le> (of_char c :: nat)" "(of_char c :: nat) \<le> 57"
    by (auto simp: is_decimal_def)
  have all: "list_all (\<lambda>c. 48 \<le> (of_char c :: nat) \<and> (of_char c :: nat) \<le> 57) ds"
    using dec by (simp add: is_decimal_def)
  have nsp: "\<not> isspace_c c" using c by (auto simp: isspace_c_def)
  have nsign: "c \<noteq> CHR ''-''" "c \<noteq> CHR ''+''" using c by auto
  have s1: "dropWhile isspace_c (CHR '' '' # ds @ ''\<newline>'') = ds @ ''\<newline>''"
    using nsp by (simp add: ds isspace_c_def)
  show ?thesis
  proof (cases "c = CHR ''0''")
    case False
    then have nhex: "\<not> has_hex_prefix (ds @ ''\<newline>'')"
      by (simp add: has_hex_prefix_def ds split: list.splits)
    show ?thesis
      unfolding strto_scan_def s1 Let_def
      using False nsign nhex scan_digits_decimal [OF all]
      by (simp add: ds digits_value_def decimal_value_def digits_value_map
          del: scan_digits.simps)
  next
    case True
    with canon ds have ds0: "ds = ''0''" by simp
    show ?thesis
      by (simp add: ds0 strto_scan_def isspace_c_def has_hex_prefix_def digit_value_def
          digits_value_def decimal_value_def)
  qed
qed

lemma strtol_decimal:
  assumes "is_decimal ds" "ds = ''0'' \<or> hd ds \<noteq> CHR ''0''" "decimal_value ds < 2 ^ 31"
  shows "strtol (CHR '' '' # ds @ ''\<newline>'') 0 = int (decimal_value ds)"
  using assms(3) by (simp add: strtol_def strto_scan_decimal [OF assms(1,2)])

text \<open>
  C8, as the claim states it: every decimal digit string after \<^verbatim>\<open>GRAPHICS\<close> is recorded
  with its decimal value, whatever its leading zeros. The parser calls \<^verbatim>\<open>strtol\<close> with
  base 0: \<^verbatim>\<open>010\<close> is read as the octal numeral for 8, and a value of 32 bits from
  \<open>2\<^sup>3\<^sup>1\<close> on is clamped to the largest \<^verbatim>\<open>long\<close>.
\<close>

theorem parse_leading_zero_is_octal:
  "graphics_progress (fst (parse os_fine ''GRAPHICS 010\<newline>'' (worker0, global0))) = 8 \<and>
   decimal_value ''010'' = 10 \<and>
   compute_progress (fst (parse os_fine ''COMPUTE 010\<newline>'' (worker0, global0))) = 8 \<and>
   graphics_progress (fst (parse os_fine ''GRAPHICS 4294967295\<newline>'' (worker0, global0))) = 2147483647 \<and>
   decimal_value ''4294967295'' = 4294967295"
  by (simp add: parse_def strtol_def strto_scan_def has_hex_prefix_def digit_value_def
      isspace_c_def digits_value_def decimal_value_def)

text \<open>
  C8, amended: for a message \<^verbatim>\<open>GRAPHICS n\<close> or \<^verbatim>\<open>COMPUTE n\<close> whose \<open>n\<close> is a decimal numeral
  without a superfluous leading zero and of value at most \<open>2\<^sup>3\<^sup>1 - 1\<close>, the parser
  records the decimal value of \<open>n\<close> as the worker's progress.
\<close>

theorem parse_progress_decimal:
  assumes "is_decimal ds" "ds = ''0'' \<or> hd ds \<noteq> CHR ''0''" "decimal_value ds < 2 ^ 31"
  shows "graphics_progress (fst (parse os (''GRAPHICS '' @ ds @ ''\<newline>'') (p, g))) =
           int (decimal_value ds) \<and>
         compute_progress (fst (parse os (''COMPUTE '' @ ds @ ''\<newline>'') (p, g))) =
           int (decimal_value ds)"
  using strtol_decimal [OF assms] by (simp add: parse_def)

theorem parse_progress_decimal_witness:
  "is_decimal ''120'' \<and> hd ''120'' \<noteq> CHR ''0'' \<and> decimal_value ''120'' = 120 \<and>
   graphics_progress (fst (parse os_fine ''GRAPHICS 120\<newline>'' (worker0, global0))) = 120 \<and>
   compute_progress (fst (parse os_fine ''COMPUTE 120\<newline>'' (worker0, global0))) = 120"
  using parse_progress_decimal [of "''120''" os_fine worker0 global0]
  by (simp add: is_decimal_def decimal_value_def)

section \<open>Properties of the shutdown of a worker\<close>

text \<open>Messages change neither the handles of the process nor the ranges of a worker.\<close>

lemma parse_frame:
  "parse os cmd (p, g) = (p1, g1) \<Longrightarrow>
     process p1 = process p \<and> crash_file_handle p1 = crash_file_handle p \<and>
     start_graphics_index p1 = start_graphics_index p \<and>
     start_compute_index p1 = start_compute_index p \<and>
     end_graphics_index p1 = end_graphics_index p \<and>
     end_compute_index p1 = end_compute_index p \<and>
     index p1 = index p \<and> faulty_spirv_modules g \<subseteq> faulty_spirv_modules g1"
  by (auto simp: parse_def Let_def split: if_splits option.splits)

lemma process_once_frame:
  "process_once ev (p, g) = (b, p1, g1) \<Longrightarrow>
     process p1 = process p \<and> crash_file_handle p1 = crash_file_handle p \<and>
     start_graphics_index p1 = start_graphics_index p \<and>
     start_compute_index p1 = start_compute_index p \<and>
     end_graphics_index p1 = end_graphics_index p \<and>
     end_compute_index p1 = end_compute_index p \<and>
     index p1 = index p \<and> faulty_spirv_modules g \<subseteq> faulty_spirv_modules g1"
  by (auto simp: process_once_def split: if_splits pipe_read.splits prod.splits
      dest!: parse_frame)

lemma flush_messages_frame:
  "flush_messages evs (p, g) = (p1, g1) \<Longrightarrow>
     process p1 = process p \<and> crash_file_handle p1 = crash_file_handle p \<and>
     start_graphics_index p1 = start_graphics_index p \<and>
     start_compute_index p1 = start_compute_index p \<and>
     end_graphics_index p1 = end_graphics_index p \<and>
     end_compute_index p1 = end_compute_index p \<and>
     index p1 = index p \<and> faulty_spirv_modules g \<subseteq> faulty_spirv_modules g1"
proof (induction evs arbitrary: p g)
  case Nil
  then show ?case by simp
next
  case (Cons ev evs)
  obtain b p' g' where po: "process_once ev (p, g) = (b, p', g')"
    by (cases "process_once ev (p, g)") auto
  note fr = process_once_frame [OF po]
  show ?case
  proof (cases b)
    case True
    with Cons.prems po have "flush_messages evs (p', g') = (p1, g1)" by simp
    from Cons.IH [OF this] fr show ?thesis by auto
  next
    case False
    with Cons.prems po have "p1 = p'" "g1 = g'" by simp_all
    with fr show ?thesis by simp
  qed
qed

lemma flush_graphics_only:
  "flush_messages (pending_reads graphics_only) (worker0, global0) =
     (worker0\<lparr>timer_handle := Some 4, graphics_progress := 1\<rparr>, global0)"
  by (simp add: graphics_only_def worker0_def global0_def os_fine_def process_once_def parse_def
      strtol_def strto_scan_def has_hex_prefix_def digit_value_def
      isspace_c_def digits_value_def)

text \<open>
  C7, as the claim states it, drops a worker only when no progress marker was ever seen,
  and starts a new worker when progress was seen. The code drops the worker when either
  marker is missing: a worker that reported \<^verbatim>\<open>GRAPHICS 1\<close> and no \<^verbatim>\<open>COMPUTE\<close> line before it
  ended with code 2 is not started again, and \<open>dirty_process_deaths\<close> is incremented.
\<close>

theorem graphics_marker_alone_is_dropped:
  "graphics_progress (fst (flush_messages (pending_reads graphics_only) (worker0, global0))) = 1 \<and>
   exit_code graphics_only = Some 2 \<and>
   fst (snd (process_finished graphics_only spawn_fine (worker0, global0))) = None \<and>
   control_block (snd (snd (snd (process_finished graphics_only spawn_fine (worker0, global0))))) =
     Some \<lparr>banned_modules = 0, clean_process_deaths = 0, dirty_process_deaths = 1,
            ring_buffer = []\<rparr>"
  by (simp add: process_finished_def process_shutdown_def flush_graphics_only Let_def)
    (simp add: graphics_only_def worker0_def global0_def)

text \<open>
  C7, amended. When the exit of a worker is processed (its process handle is live, the
  wait succeeds and the exit code is read), with \<open>(p1, g1)\<close> the state once the pending
  messages are flushed:
  \<^item> exit code 0: no worker is started;
  \<^item> another code and the graphics or the compute marker not seen
    (\<^verbatim>\<open>graphics_progress < 0 || compute_progress < 0\<close>): no worker is started and
    \<open>dirty_process_deaths\<close> of the control block is incremented;
  \<^item> another code and both markers seen: unless both remaining ranges are empty, and when
    the operating system can create the process, a worker is started over
    \<open>[graphics_progress, end_graphics)\<close> and \<open>[compute_progress, end_compute)\<close> with the
    blacklist as the flushed messages left it, which contains the blacklist from before.
\<close>

theorem process_finished_cases:
  assumes fl: "flush_messages (pending_reads sos) (p, g) = (p1, g1)"
    and proc: "process p \<noteq> None" and wait: "wait_ok sos" and code: "exit_code sos = Some code"
  shows
    "(code = 0 \<longrightarrow> fst (snd (process_finished sos cos (p, g))) = None) \<and>
     (code \<noteq> 0 \<and> (graphics_progress p1 < 0 \<or> compute_progress p1 < 0) \<longrightarrow>
        fst (snd (process_finished sos cos (p, g))) = None \<and>
        control_block (snd (snd (snd (process_finished sos cos (p, g))))) =
          map_option (\<lambda>cb. cb\<lparr>dirty_process_deaths := dirty_process_deaths cb + 1\<rparr>)
            (control_block g1)) \<and>
     (code \<noteq> 0 \<and> 0 \<le> graphics_progress p1 \<and> 0 \<le> compute_progress p1 \<longrightarrow>
        fst (snd (process_finished sos cos (p, g))) =
          (if word_of_int (graphics_progress p1) \<ge> end_graphics_index p \<and>
              word_of_int (compute_progress p1) \<ge> end_compute_index p
           then None
           else if created cos
           then Some \<lparr>graphics_range = (word_of_int (graphics_progress p1), end_graphics_index p),
                      compute_range = (word_of_int (compute_progress p1), end_compute_index p),
                      slot = index p,
                      blacklist = faulty_spirv_modules g1\<rparr>
           else None)) \<and>
     faulty_spirv_modules g \<subseteq> faulty_spirv_modules g1"
proof -
  note fr = flush_messages_frame [OF fl]
  from fr proc have proc1: "process p1 \<noteq> None" by simp
  show ?thesis
    using proc1 wait code fr
    by (simp add: process_finished_def process_shutdown_def fl Let_def start_child_process_def)
qed

lemma flush_crash_report:
  "flush_messages (pending_reads crash_report) (worker0, global0) =
     (worker0\<lparr>timer_handle := Some 4, graphics_progress := 1, compute_progress := 0\<rparr>,
      global0\<lparr>faulty_spirv_modules := {0xdeadbeef},
              control_block :=
                Some \<lparr>banned_modules = 1, clean_process_deaths = 0, dirty_process_deaths = 0,
                       ring_buffer = [''MODULE 00000000deadbeef\<newline>'']\<rparr>\<rparr>)"
  by (simp add: crash_report_def worker0_def global0_def os_fine_def process_once_def parse_def
      strtol_def strtoull_def strto_scan_def has_hex_prefix_def digit_value_def
      isspace_c_def digits_value_def shared_control_block_write_def)

lemma flush_nothing:
  "flush_messages (pending_reads early_crash) (worker0, global0) = (worker0, global0)"
  "flush_messages (pending_reads clean_exit) (worker0, global0) = (worker0, global0)"
  by (simp_all add: early_crash_def clean_exit_def)

theorem process_finished_cases_witness:
  "process worker0 \<noteq> None \<and> wait_ok crash_report \<and> exit_code crash_report = Some 2 \<and>
   fst (snd (process_finished crash_report spawn_fine (worker0, global0))) =
     Some \<lparr>graphics_range = (1, 3), compute_range = (0, 2), slot = 0,
            blacklist = {0xdeadbeef}\<rparr> \<and>
   wait_ok early_crash \<and> exit_code early_crash = Some 2 \<and> graphics_progress worker0 < 0 \<and>
   fst (snd (process_finished early_crash spawn_fine (worker0, global0))) = None \<and>
   control_block (snd (snd (snd (process_finished early_crash spawn_fine (worker0, global0))))) =
     Some \<lparr>banned_modules = 0, clean_process_deaths = 0, dirty_process_deaths = 1,
            ring_buffer = []\<rparr> \<and>
   wait_ok clean_exit \<and> exit_code clean_exit = Some 0 \<and>
   fst (snd (process_finished clean_exit spawn_fine (worker0, global0))) = None"
  using process_finished_cases [OF flush_crash_report, of 2 spawn_fine]
    process_finished_cases [OF flush_nothing(1), of 2 spawn_fine]
    process_finished_cases [OF flush_nothing(2), of 0 spawn_fine]
  by (simp add: worker0_def crash_report_def early_crash_def clean_exit_def spawn_fine_def
      global0_def)

section \<open>Properties of the graphics-pipeline hash\<close>

lemma concatE_append:
  "concatE (xs @ ys) =
     (case concatE xs of
        Inl e \<Rightarrow> Inl e
      | Inr a \<Rightarrow> (case concatE ys of Inl e \<Rightarrow> Inl e | Inr b \<Rightarrow> Inr (a @ b)))"
  by (induction xs rule: concatE.induct) (auto split: sum.splits)

lemma concatE_middle:
  assumes "concatE (pre @ x # post) = Inr ts"
  shows "\<exists>p a q. concatE pre = Inr p \<and> x = Inr a \<and> concatE post = Inr q \<and> ts = p @ a @ q"
  using assms by (cases x) (auto simp: concatE_append split: sum.splits)

text \<open>One statement of a sequence that succeeds, and what replacing it gives.\<close>

lemma concatE_nth:
  assumes ok: "concatE xs = Inr ts" and i: "i < length xs"
  shows "\<exists>p a q. xs ! i = Inr a \<and> ts = p @ a @ q \<and>
                 (\<forall>b. concatE (xs[i := Inr b]) = Inr (p @ b @ q))"
proof -
  have xs: "xs = take i xs @ xs ! i # drop (Suc i) xs"
    using i by (simp add: id_take_nth_drop)
  from ok obtain p a q where
    p: "concatE (take i xs) = Inr p" and a: "xs ! i = Inr a" and
    q: "concatE (drop (Suc i) xs) = Inr q" and ts: "ts = p @ a @ q"
    using concatE_middle [of "take i xs" "xs ! i" "drop (Suc i) xs" ts] xs by auto
  have "concatE (xs[i := Inr b]) = Inr (p @ b @ q)" for b
    using i by (simp add: upd_conv_take_nth_drop concatE_append p q)
  with a ts show ?thesis by blast
qed

lemma blocks_color_blend:
  "graphics_pipeline_blocks r (ci\<lparr>pColorBlendState := x\<rparr>) =
     (graphics_pipeline_blocks r ci)[12 := hash_color_blend (pDynamicState ci) x]"
  by (simp add: graphics_pipeline_blocks_def)

lemma blocks_viewport:
  "graphics_pipeline_blocks r (ci\<lparr>pViewportState := x\<rparr>) =
     (graphics_pipeline_blocks r ci)[10 := hash_viewport (pDynamicState ci) x]"
  by (simp add: graphics_pipeline_blocks_def)

lemma blocks_nth:
  "graphics_pipeline_blocks r ci ! 12 = hash_color_blend (pDynamicState ci) (pColorBlendState ci)"
  "graphics_pipeline_blocks r ci ! 10 = hash_viewport (pDynamicState ci) (pViewportState ci)"
  "length (graphics_pipeline_blocks r ci) = 15"
  by (simp_all add: graphics_pipeline_blocks_def)

lemma blend_constant_tokens_inj: "blend_constant_tokens c = blend_constant_tokens c' \<longleftrightarrow> c = c'"
  by (auto simp: blend_constant_tokens_def split: prod.splits)

lemma hash_color_blend_constants:
  assumes "hash_color_blend dyn (Some b) = Inr ts"
  shows "\<exists>pre. \<forall>c. hash_color_blend dyn (Some (b\<lparr>blendConstants := c\<rparr>)) =
            Inr (pre @ (if need_blend_constants (take (unat (attachmentCount b)) (pAttachments b)) \<and>
                          \<not> is_dynamic VK_DYNAMIC_STATE_BLEND_CONSTANTS dyn
                       then blend_constant_tokens c else []))"
  using assms
  by (auto simp: hash_color_blend_def read_array_def split: if_splits)


lemmas ex_defs = layout_ex_def render_pass_ex_def recorder_ex_def pipeline_bare_def
lemmas hash_defs = graphics_pipeline_tokens_def graphics_pipeline_blocks_def
  get_hash_for_graphics_pipeline_handle_def get_hash_for_pipeline_layout_def
  get_hash_for_render_pass_def get_hash_for_shader_module_def get_hash_def
  hash_dynamic_state_def hash_depth_stencil_def hash_input_assembly_def hash_rasterization_def
  hash_multisample_def hash_viewport_def hash_vertex_input_def hash_color_blend_def
  hash_tessellation_def hash_stage_def read_array_def read_ptr_def is_dynamic_def
  viewport_tokens_def scissor_tokens_def blend_constant_tokens_def


lemmas vk_defs = VK_DYNAMIC_STATE_VIEWPORT_def VK_DYNAMIC_STATE_SCISSOR_def
  VK_DYNAMIC_STATE_LINE_WIDTH_def VK_DYNAMIC_STATE_DEPTH_BIAS_def
  VK_DYNAMIC_STATE_BLEND_CONSTANTS_def VK_DYNAMIC_STATE_DEPTH_BOUNDS_def
  VK_DYNAMIC_STATE_STENCIL_COMPARE_MASK_def VK_DYNAMIC_STATE_STENCIL_WRITE_MASK_def
  VK_DYNAMIC_STATE_STENCIL_REFERENCE_def VK_BLEND_FACTOR_CONSTANT_COLOR_def
  VK_BLEND_FACTOR_ONE_MINUS_CONSTANT_COLOR_def VK_BLEND_FACTOR_CONSTANT_ALPHA_def
  VK_BLEND_FACTOR_ONE_MINUS_CONSTANT_ALPHA_def


text \<open>
  C3. The claim: each of the nine optional state blocks that is absent contributes exactly
  one zero \<^verbatim>\<open>u32\<close> token. In the source eight of the nine blocks end in
  \<^verbatim>\<open>else h.u32(0)\<close>; the multisample block has no \<^verbatim>\<open>else\<close>. For the pipeline with no block
  at all, the tokens after the stage count (the fifth token) are eight zeros, not nine.
\<close>

theorem absent_multisample_feeds_nothing:
  "graphics_pipeline_tokens recorder_ex pipeline_bare =
     Inr [U32 1, U64 0x11, U64 0x22, U32 2, U32 0,
          U32 0, U32 0, U32 0, U32 0, U32 0, U32 0, U32 0, U32 0] \<and>
   hash_multisample None = Inr []"
  by (simp add: ex_defs hash_defs)

text \<open>
  The other eight blocks do what the claim says when absent. A present block feeds its
  flags first and then its fields; the dynamic-state block feeds its count before its
  flags.
\<close>

lemma absent_blocks:
  "hash_dynamic_state None = Inr [U32 0]"
  "hash_depth_stencil dyn None = [U32 0]"
  "hash_input_assembly None = [U32 0]"
  "hash_rasterization dyn None = [U32 0]"
  "hash_viewport dyn None = Inr [U32 0]"
  "hash_vertex_input None = Inr [U32 0]"
  "hash_color_blend dyn None = Inr [U32 0]"
  "hash_tessellation None = [U32 0]"
  by (simp_all add: hash_defs)

lemma present_blocks:
  "hash_dynamic_state (Some dy) = Inr ts \<Longrightarrow>
     \<exists>rest. ts = U32 (dynamicStateCount dy) # U32 (dy_flags dy) # rest"
  "\<exists>rest. hash_depth_stencil dyn (Some ds) = U32 (ds_flags ds) # rest"
  "\<exists>rest. hash_input_assembly (Some ia) = U32 (ia_flags ia) # rest"
  "\<exists>rest. hash_rasterization dyn (Some rs) = U32 (rs_flags rs) # rest"
  "hash_multisample (Some ms) = Inr ts \<Longrightarrow> \<exists>rest. ts = U32 (ms_flags ms) # rest"
  "hash_viewport dyn (Some vp) = Inr ts \<Longrightarrow> \<exists>rest. ts = U32 (vs_flags vp) # rest"
  "hash_vertex_input (Some vi) = Inr ts \<Longrightarrow> \<exists>rest. ts = U32 (vi_flags vi) # rest"
  "hash_color_blend dyn (Some cb) = Inr ts \<Longrightarrow> \<exists>rest. ts = U32 (cb_flags cb) # rest"
  "\<exists>rest. hash_tessellation (Some tess) = U32 (ts_flags tess) # rest"
  by (auto simp: hash_dynamic_state_def hash_depth_stencil_def hash_input_assembly_def
      hash_rasterization_def hash_multisample_def hash_viewport_def hash_vertex_input_def
      hash_color_blend_def hash_tessellation_def split: sum.splits option.splits if_splits)

text \<open>
  C4, as the claim states it, counts the \<^verbatim>\<open>ONE_MINUS\<close> variants among the factors that bring
  the blend constants into the hash. The code compares the four factors of an attachment
  with \<^verbatim>\<open>VK_BLEND_FACTOR_CONSTANT_COLOR\<close> and \<^verbatim>\<open>VK_BLEND_FACTOR_CONSTANT_ALPHA\<close> only: with
  \<^verbatim>\<open>VK_BLEND_FACTOR_ONE_MINUS_CONSTANT_COLOR\<close> as the source color factor of a blending
  attachment and no dynamic state, no blend constant is hashed, and pipelines with
  different blend constants have the same tokens.
\<close>

theorem one_minus_constant_not_hashed:
  "graphics_pipeline_tokens recorder_ex
     (pipeline_blend VK_BLEND_FACTOR_ONE_MINUS_CONSTANT_COLOR (1, 2, 3, 4)) =
     Inr [U32 1, U64 0x11, U64 0x22, U32 2, U32 0,
          U32 0, U32 0, U32 0, U32 0, U32 0, U32 0,
          U32 0, U32 1, U32 0, U32 0,
          U32 1, U32 15, U32 0, U32 0, U32 0, U32 1, U32 0, U32 11,
          U32 0] \<and>
   graphics_pipeline_tokens recorder_ex
     (pipeline_blend VK_BLEND_FACTOR_ONE_MINUS_CONSTANT_COLOR (5, 6, 7, 8)) =
   graphics_pipeline_tokens recorder_ex
     (pipeline_blend VK_BLEND_FACTOR_ONE_MINUS_CONSTANT_COLOR (1, 2, 3, 4))"
  by (simp add: pipeline_blend_def blend_with_def ex_defs hash_defs vk_defs
      need_blend_constants_def uses_constant_factor_def hash_blend_attachment_def)

text \<open>
  C4, amended: \<^verbatim>\<open>compute_hash_graphics_pipeline\<close> includes the four blend-constant floats in
  the hash if and only if some color-blend attachment with blending enabled has
  \<^verbatim>\<open>VK_BLEND_FACTOR_CONSTANT_COLOR\<close> or \<^verbatim>\<open>VK_BLEND_FACTOR_CONSTANT_ALPHA\<close> as one of its four
  factors and blend constants are not in the dynamic-state list. For a pipeline that
  hashes, the tokens are the same around the place of the constants whatever the
  constants are, the four floats stand there exactly under that condition, and so the
  tokens are independent of the constants exactly when the condition fails.
\<close>

theorem blend_constants_hashed_iff:
  assumes ok: "graphics_pipeline_tokens r ci = Inr ts" and cb: "pColorBlendState ci = Some b"
  shows "(\<exists>p q. \<forall>c.
            graphics_pipeline_tokens r (ci\<lparr>pColorBlendState := Some (b\<lparr>blendConstants := c\<rparr>)\<rparr>) =
              Inr (p @
                   (if need_blend_constants (take (unat (attachmentCount b)) (pAttachments b)) \<and>
                       \<not> is_dynamic VK_DYNAMIC_STATE_BLEND_CONSTANTS (pDynamicState ci)
                    then blend_constant_tokens c else []) @ q)) \<and>
         ((\<forall>c. graphics_pipeline_tokens r (ci\<lparr>pColorBlendState := Some (b\<lparr>blendConstants := c\<rparr>)\<rparr>) =
               graphics_pipeline_tokens r ci) \<longleftrightarrow>
          \<not> (need_blend_constants (take (unat (attachmentCount b)) (pAttachments b)) \<and>
             \<not> is_dynamic VK_DYNAMIC_STATE_BLEND_CONSTANTS (pDynamicState ci)))"
proof -
  let ?need = "need_blend_constants (take (unat (attachmentCount b)) (pAttachments b)) \<and>
            \<not> is_dynamic VK_DYNAMIC_STATE_BLEND_CONSTANTS (pDynamicState ci)"
  from concatE_nth [OF ok [unfolded graphics_pipeline_tokens_def], of 12]
  obtain p a q where
    a: "hash_color_blend (pDynamicState ci) (Some b) = Inr a" and
    upd: "\<And>x. concatE ((graphics_pipeline_blocks r ci)[12 := Inr x]) = Inr (p @ x @ q)"
    by (auto simp: blocks_nth cb)
  from hash_color_blend_constants [OF a] obtain pre where
    pre: "\<And>c. hash_color_blend (pDynamicState ci) (Some (b\<lparr>blendConstants := c\<rparr>)) =
            Inr (pre @ (if ?need then blend_constant_tokens c else []))"
    by blast
  have tok: "graphics_pipeline_tokens r (ci\<lparr>pColorBlendState := Some (b\<lparr>blendConstants := c\<rparr>)\<rparr>) =
     Inr ((p @ pre) @ (if ?need then blend_constant_tokens c else []) @ q)" for c
    by (simp only: graphics_pipeline_tokens_def blocks_color_blend pre upd append_assoc)
  have same: "ci\<lparr>pColorBlendState := Some (b\<lparr>blendConstants := blendConstants b\<rparr>)\<rparr> = ci"
    using cb by simp
  have tok0: "graphics_pipeline_tokens r ci =
     Inr ((p @ pre) @ (if ?need then blend_constant_tokens (blendConstants b) else []) @ q)"
    using tok [of "blendConstants b"] same by simp
  have indep: "(\<forall>c. graphics_pipeline_tokens r (ci\<lparr>pColorBlendState := Some (b\<lparr>blendConstants := c\<rparr>)\<rparr>) =
               graphics_pipeline_tokens r ci) \<longleftrightarrow> \<not> ?need"
  proof (cases ?need)
    case False
    then have nn: "?need = False" by simp
    have "graphics_pipeline_tokens r (ci\<lparr>pColorBlendState := Some (b\<lparr>blendConstants := c\<rparr>)\<rparr>) =
          graphics_pipeline_tokens r ci" for c
      using tok [of c] tok0 unfolding nn by simp
    with False show ?thesis by blast
  next
    case True
    obtain c where "c \<noteq> blendConstants b"
      by (metis (full_types) prod.inject zero_neq_one)
    then have "graphics_pipeline_tokens r (ci\<lparr>pColorBlendState := Some (b\<lparr>blendConstants := c\<rparr>)\<rparr>) \<noteq>
               graphics_pipeline_tokens r ci"
      using True tok [of c] tok0 by (simp add: blend_constant_tokens_inj)
    with True show ?thesis by blast
  qed
  from tok have "\<exists>p q. \<forall>c.
            graphics_pipeline_tokens r (ci\<lparr>pColorBlendState := Some (b\<lparr>blendConstants := c\<rparr>)\<rparr>) =
              Inr (p @ (if ?need then blend_constant_tokens c else []) @ q)"
    by blast
  with indep show ?thesis by blast
qed

lemma tokens_blend_constant_color:
  "graphics_pipeline_tokens recorder_ex (pipeline_blend VK_BLEND_FACTOR_CONSTANT_COLOR (c0, c1, c2, c3)) =
     Inr [U32 1, U64 0x11, U64 0x22, U32 2, U32 0,
          U32 0, U32 0, U32 0, U32 0, U32 0, U32 0,
          U32 0, U32 1, U32 0, U32 0,
          U32 1, U32 15, U32 0, U32 0, U32 0, U32 1, U32 0, U32 10,
          F32 c0, F32 c1, F32 c2, F32 c3,
          U32 0]"
  by (simp add: pipeline_blend_def blend_with_def ex_defs hash_defs vk_defs
      need_blend_constants_def uses_constant_factor_def hash_blend_attachment_def)

theorem blend_constants_hashed_iff_witness:
  "pColorBlendState (pipeline_blend VK_BLEND_FACTOR_CONSTANT_COLOR (1, 2, 3, 4)) =
     Some (blend_with VK_BLEND_FACTOR_CONSTANT_COLOR (1, 2, 3, 4)) \<and>
   need_blend_constants [hd (pAttachments (blend_with VK_BLEND_FACTOR_CONSTANT_COLOR (1, 2, 3, 4)))] \<and>
   \<not> (\<forall>c. graphics_pipeline_tokens recorder_ex (pipeline_blend VK_BLEND_FACTOR_CONSTANT_COLOR c) =
           graphics_pipeline_tokens recorder_ex (pipeline_blend VK_BLEND_FACTOR_CONSTANT_COLOR (1, 2, 3, 4)))"
proof -
  have upd: "pipeline_blend VK_BLEND_FACTOR_CONSTANT_COLOR (1, 2, 3, 4)
        \<lparr>pColorBlendState := Some (blend_with VK_BLEND_FACTOR_CONSTANT_COLOR (1, 2, 3, 4)\<lparr>blendConstants := c\<rparr>)\<rparr> =
      pipeline_blend VK_BLEND_FACTOR_CONSTANT_COLOR c" for c
    by (simp add: pipeline_blend_def blend_with_def)
  have cb: "pColorBlendState (pipeline_blend VK_BLEND_FACTOR_CONSTANT_COLOR (1, 2, 3, 4)) =
     Some (blend_with VK_BLEND_FACTOR_CONSTANT_COLOR (1, 2, 3, 4))"
    by (simp add: pipeline_blend_def)
  have need: "need_blend_constants
      (take (unat (attachmentCount (blend_with VK_BLEND_FACTOR_CONSTANT_COLOR (1, 2, 3, 4))))
         (pAttachments (blend_with VK_BLEND_FACTOR_CONSTANT_COLOR (1, 2, 3, 4))))"
    by (simp add: blend_with_def need_blend_constants_def uses_constant_factor_def)
  have nd: "\<not> is_dynamic VK_DYNAMIC_STATE_BLEND_CONSTANTS
      (pDynamicState (pipeline_blend VK_BLEND_FACTOR_CONSTANT_COLOR (1, 2, 3, 4)))"
    by (simp add: is_dynamic_def pipeline_blend_def pipeline_bare_def)
  from blend_constants_hashed_iff [OF tokens_blend_constant_color cb] need nd
  have "\<not> (\<forall>c. graphics_pipeline_tokens recorder_ex (pipeline_blend VK_BLEND_FACTOR_CONSTANT_COLOR c) =
           graphics_pipeline_tokens recorder_ex (pipeline_blend VK_BLEND_FACTOR_CONSTANT_COLOR (1, 2, 3, 4)))"
    unfolding upd by blast
  with cb show ?thesis
    by (simp add: blend_with_def need_blend_constants_def uses_constant_factor_def)
qed

lemma viewport_tokens_inj: "viewport_tokens v = viewport_tokens w \<Longrightarrow> v = w"
  by (simp add: viewport_tokens_def VkViewport.equality)

lemma length_viewport_tokens: "length (viewport_tokens v) = 6"
  by (simp add: viewport_tokens_def)

lemma length_concat_viewport_tokens: "length (concat (map viewport_tokens xs)) = 6 * length xs"
  by (induction xs) (simp_all add: length_viewport_tokens)

lemma concat_map_viewport_tokens_inj:
  "concat (map viewport_tokens vs) = concat (map viewport_tokens ws) \<Longrightarrow> vs = ws"
proof (induction vs arbitrary: ws)
  case Nil
  then have "length (concat (map viewport_tokens ws)) = 0" by simp
  then show ?case by (simp only: length_concat_viewport_tokens) simp
next
  case (Cons v vs)
  have "length (concat (map viewport_tokens ws)) = length (concat (map viewport_tokens (v # vs)))"
    using Cons.prems by simp
  then have "length ws = Suc (length vs)"
    by (simp only: length_concat_viewport_tokens) simp
  then obtain w ws' where ws: "ws = w # ws'"
    by (cases ws) simp_all
  from Cons.prems have "viewport_tokens v = viewport_tokens w \<and>
      concat (map viewport_tokens vs) = concat (map viewport_tokens ws')"
    unfolding ws by (simp add: length_viewport_tokens)
  with Cons.IH ws show ?case by (auto dest: viewport_tokens_inj)
qed

lemma hash_viewport_dynamic:
  "is_dynamic VK_DYNAMIC_STATE_VIEWPORT dyn \<Longrightarrow>
   hash_viewport dyn (Some (vp\<lparr>pViewports := ws\<rparr>)) = hash_viewport dyn (Some vp)"
  by (simp add: hash_viewport_def)

lemma hash_viewport_static:
  assumes nd: "\<not> is_dynamic VK_DYNAMIC_STATE_VIEWPORT dyn"
    and a: "hash_viewport dyn (Some vp) = Inr a"
    and b: "hash_viewport dyn (Some (vp\<lparr>pViewports := Some ws\<rparr>)) = Inr b"
    and vs: "pViewports vp = Some vs"
    and ne: "take (unat (viewportCount vp)) vs \<noteq> take (unat (viewportCount vp)) ws"
  shows "a \<noteq> b \<and> length a = length b"
proof -
  let ?n = "unat (viewportCount vp)"
  define S where "S = (if \<not> is_dynamic VK_DYNAMIC_STATE_SCISSOR dyn
              then map_sum id (\<lambda>scs. concat (map scissor_tokens scs))
                     (read_ptr (unat (scissorCount vp)) (pScissors vp))
              else Inr [])"
  have hv: "hash_viewport dyn (Some (vp\<lparr>pViewports := Some x\<rparr>)) =
        concatE [Inr [U32 (vs_flags vp), U32 (scissorCount vp), U32 (viewportCount vp)], S,
                 map_sum id (\<lambda>vs. concat (map viewport_tokens vs)) (read_ptr ?n (Some x))]" for x
    using nd by (simp add: hash_viewport_def S_def)
  have same: "vp\<lparr>pViewports := Some vs\<rparr> = vp" using vs by simp
  have n0: "?n \<noteq> 0" using ne by (cases "?n = 0") simp_all
  from a obtain h where h: "S = Inr h"
    using hv [of vs] unfolding same by (cases S) auto
  have ra: "read_ptr ?n (Some vs) = Inr (take ?n vs) \<and> ?n \<le> length vs"
    using a hv [of vs] n0 unfolding same h
    by (auto simp: read_ptr_def read_array_def unat_eq_0 split: if_splits)
  have rb: "read_ptr ?n (Some ws) = Inr (take ?n ws) \<and> ?n \<le> length ws"
    using b hv [of ws] n0 unfolding h
    by (auto simp: read_ptr_def read_array_def unat_eq_0 split: if_splits)
  have a': "a = [U32 (vs_flags vp), U32 (scissorCount vp), U32 (viewportCount vp)] @ h @
               concat (map viewport_tokens (take ?n vs))"
    using a hv [of vs] ra unfolding same h by simp
  have b': "b = [U32 (vs_flags vp), U32 (scissorCount vp), U32 (viewportCount vp)] @ h @
               concat (map viewport_tokens (take ?n ws))"
    using b hv [of ws] rb unfolding h by simp
  have "concat (map viewport_tokens (take ?n vs)) \<noteq> concat (map viewport_tokens (take ?n ws))"
    using ne concat_map_viewport_tokens_inj by blast
  then show ?thesis using ra rb by (simp add: a' b' length_concat_viewport_tokens)
qed

lemma tokens_rect_static:
  "graphics_pipeline_tokens recorder_ex (pipeline_rect (x, y, w) []) =
     Inr [U32 1, U64 0x11, U64 0x22, U32 2, U32 0,
          U32 0, U32 0, U32 0, U32 0, U32 0,
          U32 0, U32 0, U32 1, F32 x, F32 y, F32 w, F32 0x44340000, F32 0, F32 0x3F800000,
          U32 0, U32 0, U32 0]"
  by (simp add: pipeline_rect_def ex_defs hash_defs vk_defs)

lemma rolling_mix_collision:
  "compute_hash_graphics_pipeline rolling_mix recorder_ex
     (pipeline_rect (0x41200000, 0x42000000, 0x44A00000) []) =
   compute_hash_graphics_pipeline rolling_mix recorder_ex
     (pipeline_rect (0xB820001F, 0xB70003CD, 0x44A00000) [])"
  by (simp add: compute_hash_graphics_pipeline_def tokens_rect_static rolling_mix_def)

text \<open>The finite floats with the sign bit clear, and the pigeonhole principle over them.\<close>

lemma card_finite_floats: "card {v :: 32 word. v < 0x7F800000} = 2139095040"
proof -
  have "{v :: 32 word. v < 0x7F800000} = of_nat ` {..<2139095040}"
  proof (intro set_eqI iffI)
    fix v :: "32 word"
    assume "v \<in> {v. v < 0x7F800000}"
    then have "unat v < 2139095040" by (simp add: word_less_nat_alt)
    moreover have "v = of_nat (unat v)" by simp
    ultimately show "v \<in> of_nat ` {..<2139095040}" by blast
  next
    fix v :: "32 word"
    assume "v \<in> of_nat ` {..<2139095040}"
    then obtain n :: nat where n: "n < 2139095040" "v = of_nat n" by auto
    then have "unat v = n" by (simp add: unat_of_nat)
    with n show "v \<in> {v. v < 0x7F800000}" by (simp add: word_less_nat_alt)
  qed
  moreover have "inj_on (of_nat :: nat \<Rightarrow> 32 word) {..<2139095040}"
  proof (rule inj_onI)
    fix a b :: nat
    assume "a \<in> {..<2139095040}" "b \<in> {..<2139095040}" "(of_nat a :: 32 word) = of_nat b"
    then have "unat (of_nat a :: 32 word) = unat (of_nat b :: 32 word)" "a < 2 ^ 32" "b < 2 ^ 32"
      by simp_all
    then show "a = b" by (simp add: unat_of_nat)
  qed
  ultimately show ?thesis by (simp add: card_image)
qed

lemma hashes_collide:
  fixes hasher_get :: "token list \<Rightarrow> Hash"
  shows "\<exists>a b. a \<noteq> b \<and>
           finite_float (fst a) \<and> finite_float (fst (snd a)) \<and> finite_float (snd (snd a)) \<and>
           finite_float (fst b) \<and> finite_float (fst (snd b)) \<and> finite_float (snd (snd b)) \<and>
           compute_hash_graphics_pipeline hasher_get recorder_ex (pipeline_rect a []) =
           compute_hash_graphics_pipeline hasher_get recorder_ex (pipeline_rect b [])"
proof -
  let ?S = "{v :: 32 word. v < 0x7F800000}"
  let ?A = "?S \<times> ?S \<times> ?S"
  let ?f = "\<lambda>a. compute_hash_graphics_pipeline hasher_get recorder_ex (pipeline_rect a [])"
  have img: "?f ` ?A \<subseteq> Inr ` (UNIV :: Hash set)"
    by (auto simp: compute_hash_graphics_pipeline_def tokens_rect_static)
  have "card (?f ` ?A) \<le> card (Inr ` (UNIV :: Hash set) :: (error + Hash) set)"
    by (rule card_mono [OF _ img]) simp
  also have "\<dots> = 2 ^ 64"
    by (simp add: card_image card_word)
  also have "\<dots> < (2139095040 * (2139095040 * 2139095040) :: nat)" by simp
  also have "\<dots> = card ?A"
    by (simp only: card_cartesian_product card_finite_floats)
  finally have "\<not> inj_on ?f ?A" by (rule pigeonhole)
  then obtain a b where "a \<in> ?A" "b \<in> ?A" "?f a = ?f b" "a \<noteq> b"
    by (auto simp: inj_on_def)
  then show ?thesis
    by (intro exI [of _ a] exI [of _ b]) (auto simp: finite_float_def)
qed

text \<open>
  C5, as the claim states it, has the hashes differ whenever the viewport rectangles
  differ and the viewport is not dynamic. A hash has 64 bits. With the example \<^verbatim>\<open>Hasher\<close>
  the viewports at \<open>(10, 32)\<close> and at \<open>(0xB820001F, 0xB70003CD)\<close>, both 1280 wide, give the
  same hash; and whatever the \<^verbatim>\<open>Hasher\<close> computes, two pipelines that differ only in the
  finite \<open>x\<close>, \<open>y\<close> and width of their static viewport have the same hash.
\<close>

theorem static_viewport_hashes_collide:
  "compute_hash_graphics_pipeline rolling_mix recorder_ex
     (pipeline_rect (0x41200000, 0x42000000, 0x44A00000) []) =
   compute_hash_graphics_pipeline rolling_mix recorder_ex
     (pipeline_rect (0xB820001F, 0xB70003CD, 0x44A00000) []) \<and>
   (\<forall>hasher_get :: token list \<Rightarrow> Hash.
      \<exists>a b. a \<noteq> b \<and>
        finite_float (fst a) \<and> finite_float (fst (snd a)) \<and> finite_float (snd (snd a)) \<and>
        finite_float (fst b) \<and> finite_float (fst (snd b)) \<and> finite_float (snd (snd b)) \<and>
        compute_hash_graphics_pipeline hasher_get recorder_ex (pipeline_rect a []) =
        compute_hash_graphics_pipeline hasher_get recorder_ex (pipeline_rect b []))"
  using rolling_mix_collision hashes_collide by blast

text \<open>
  C5, amended. Take a graphics pipeline with a viewport state and a second one that
  differs from it only in the viewport rectangles. If the dynamic-state list holds
  \<^verbatim>\<open>VK_DYNAMIC_STATE_VIEWPORT\<close>, \<^verbatim>\<open>compute_hash_graphics_pipeline\<close> gives both the same result,
  whatever the \<^verbatim>\<open>Hasher\<close> computes. If it does not, and both pipelines hash, and the
  rectangles differ among the first \<open>viewportCount\<close>, the two sequences of tokens fed to the
  \<^verbatim>\<open>Hasher\<close> have the same length and differ, and the two hashes are the results of the
  \<^verbatim>\<open>Hasher\<close> on these two sequences.
\<close>

theorem dynamic_viewport_hash:
  assumes vp: "pViewportState ci = Some vp"
  shows
    "(is_dynamic VK_DYNAMIC_STATE_VIEWPORT (pDynamicState ci) \<longrightarrow>
        compute_hash_graphics_pipeline hasher_get r (ci\<lparr>pViewportState := Some (vp\<lparr>pViewports := Some ws\<rparr>)\<rparr>) =
        compute_hash_graphics_pipeline hasher_get r ci) \<and>
     (\<not> is_dynamic VK_DYNAMIC_STATE_VIEWPORT (pDynamicState ci) \<and>
      graphics_pipeline_tokens r ci = Inr ts \<and>
      graphics_pipeline_tokens r (ci\<lparr>pViewportState := Some (vp\<lparr>pViewports := Some ws\<rparr>)\<rparr>) = Inr ts' \<and>
      pViewports vp = Some vs \<and>
      take (unat (viewportCount vp)) vs \<noteq> take (unat (viewportCount vp)) ws \<longrightarrow>
        ts \<noteq> ts' \<and> length ts = length ts' \<and>
        compute_hash_graphics_pipeline hasher_get r ci = Inr (hasher_get ts) \<and>
        compute_hash_graphics_pipeline hasher_get r (ci\<lparr>pViewportState := Some (vp\<lparr>pViewports := Some ws\<rparr>)\<rparr>) =
          Inr (hasher_get ts'))"
proof (intro conjI impI)
  let ?ci' = "ci\<lparr>pViewportState := Some (vp\<lparr>pViewports := Some ws\<rparr>)\<rparr>"
  {
    assume "is_dynamic VK_DYNAMIC_STATE_VIEWPORT (pDynamicState ci)"
    then have "graphics_pipeline_blocks r ?ci' = graphics_pipeline_blocks r ci"
      using vp by (simp add: blocks_viewport hash_viewport_dynamic list_update_same_conv blocks_nth)
    then show "compute_hash_graphics_pipeline hasher_get r ?ci' = compute_hash_graphics_pipeline hasher_get r ci"
      by (simp add: compute_hash_graphics_pipeline_def graphics_pipeline_tokens_def)
  }
  assume h: "\<not> is_dynamic VK_DYNAMIC_STATE_VIEWPORT (pDynamicState ci) \<and>
      graphics_pipeline_tokens r ci = Inr ts \<and>
      graphics_pipeline_tokens r ?ci' = Inr ts' \<and>
      pViewports vp = Some vs \<and>
      take (unat (viewportCount vp)) vs \<noteq> take (unat (viewportCount vp)) ws"
  then have nd: "\<not> is_dynamic VK_DYNAMIC_STATE_VIEWPORT (pDynamicState ci)"
    and ok: "graphics_pipeline_tokens r ci = Inr ts"
    and ok': "graphics_pipeline_tokens r ?ci' = Inr ts'"
    and vs: "pViewports vp = Some vs"
    and ne: "take (unat (viewportCount vp)) vs \<noteq> take (unat (viewportCount vp)) ws"
    by simp_all
  from concatE_nth [OF ok [unfolded graphics_pipeline_tokens_def], of 10]
  obtain p a q where
    a: "hash_viewport (pDynamicState ci) (Some vp) = Inr a" and ts: "ts = p @ a @ q" and
    upd: "\<And>x. concatE ((graphics_pipeline_blocks r ci)[10 := Inr x]) = Inr (p @ x @ q)"
    by (auto simp: blocks_nth vp)
  from concatE_nth [OF ok' [unfolded graphics_pipeline_tokens_def], of 10]
  obtain b where b: "hash_viewport (pDynamicState ci) (Some (vp\<lparr>pViewports := Some ws\<rparr>)) = Inr b"
    by (auto simp: blocks_nth)
  have ts': "ts' = p @ b @ q"
    using ok' unfolding graphics_pipeline_tokens_def blocks_viewport b upd by simp
  from hash_viewport_static [OF nd a b vs ne] have ab: "a \<noteq> b" "length a = length b" by simp_all
  show "ts \<noteq> ts'" using ab ts ts' by simp
  show "length ts = length ts'" using ab ts ts' by simp
  show "compute_hash_graphics_pipeline hasher_get r ci = Inr (hasher_get ts)"
    using ok by (simp add: compute_hash_graphics_pipeline_def)
  show "compute_hash_graphics_pipeline hasher_get r ?ci' = Inr (hasher_get ts')"
    using ok' by (simp add: compute_hash_graphics_pipeline_def)
qed

lemma tokens_viewport_static:
  "graphics_pipeline_tokens recorder_ex (pipeline_viewport w []) =
     Inr [U32 1, U64 0x11, U64 0x22, U32 2, U32 0,
          U32 0, U32 0, U32 0, U32 0, U32 0,
          U32 0, U32 0, U32 1, F32 0, F32 0, F32 w, F32 0x44340000, F32 0, F32 0x3F800000,
          U32 0, U32 0, U32 0]"
  by (simp add: pipeline_viewport_def ex_defs hash_defs vk_defs)

lemma tokens_viewport_dynamic:
  "graphics_pipeline_tokens recorder_ex (pipeline_viewport w [VK_DYNAMIC_STATE_VIEWPORT]) =
     Inr [U32 1, U64 0x11, U64 0x22, U32 2, U32 0,
          U32 1, U32 0, U32 0, U32 0, U32 0, U32 0,
          U32 0, U32 0, U32 1,
          U32 0, U32 0, U32 0]"
  by (simp add: pipeline_viewport_def ex_defs hash_defs vk_defs)

lemma pipeline_viewport_update:
  "pipeline_viewport w dyns\<lparr>pViewportState :=
       Some \<lparr>vs_flags = 0, viewportCount = 1,
              pViewports = Some [\<lparr>vp_x = 0, vp_y = 0, vp_width = w', vp_height = 0x44340000,
                                   minDepth = 0, maxDepth = 0x3F800000\<rparr>],
              scissorCount = 0, pScissors = None\<rparr>\<rparr>
   = pipeline_viewport w' dyns"
  by (simp add: pipeline_viewport_def)

theorem dynamic_viewport_hash_witness:
  "compute_hash_graphics_pipeline rolling_mix recorder_ex
     (pipeline_viewport 0x44200000 [VK_DYNAMIC_STATE_VIEWPORT]) =
   compute_hash_graphics_pipeline rolling_mix recorder_ex
     (pipeline_viewport 0x44A00000 [VK_DYNAMIC_STATE_VIEWPORT]) \<and>
   graphics_pipeline_tokens recorder_ex (pipeline_viewport 0x44200000 []) \<noteq>
   graphics_pipeline_tokens recorder_ex (pipeline_viewport 0x44A00000 []) \<and>
   compute_hash_graphics_pipeline rolling_mix recorder_ex (pipeline_viewport 0x44200000 []) \<noteq>
   compute_hash_graphics_pipeline rolling_mix recorder_ex (pipeline_viewport 0x44A00000 [])"
proof -
  let ?vp = "\<lparr>vs_flags = 0, viewportCount = 1,
                 pViewports = Some [\<lparr>vp_x = 0, vp_y = 0, vp_width = 0x44A00000, vp_height = 0x44340000,
                                      minDepth = 0, maxDepth = 0x3F800000\<rparr>],
                 scissorCount = 0, pScissors = None\<rparr>"
  let ?ws = "[\<lparr>vp_x = 0, vp_y = 0, vp_width = 0x44200000, vp_height = 0x44340000,
                                      minDepth = 0, maxDepth = 0x3F800000\<rparr>]"
  have vp: "pViewportState (pipeline_viewport 0x44A00000 dyns) = Some ?vp" for dyns
    by (simp add: pipeline_viewport_def)
  let ?ts = "[U32 1, U64 0x11, U64 0x22, U32 2, U32 0,
          U32 0, U32 0, U32 0, U32 0, U32 0,
          U32 0, U32 0, U32 1, F32 0, F32 0, F32 0x44A00000, F32 0x44340000, F32 0, F32 0x3F800000,
          U32 0, U32 0, U32 0]"
  let ?ts' = "[U32 1, U64 0x11, U64 0x22, U32 2, U32 0,
          U32 0, U32 0, U32 0, U32 0, U32 0,
          U32 0, U32 0, U32 1, F32 0, F32 0, F32 0x44200000, F32 0x44340000, F32 0, F32 0x3F800000,
          U32 0, U32 0, U32 0]"
  have mix: "rolling_mix ?ts \<noteq> rolling_mix ?ts'"
    by (simp add: rolling_mix_def)
  note dyn = dynamic_viewport_hash
    [where ci = "pipeline_viewport 0x44A00000 [VK_DYNAMIC_STATE_VIEWPORT]" and vp = ?vp
       and hasher_get = rolling_mix and r = recorder_ex and ws = ?ws, OF vp]
  note static = dynamic_viewport_hash
    [where ci = "pipeline_viewport 0x44A00000 []" and vp = ?vp
       and hasher_get = rolling_mix and r = recorder_ex and ws = ?ws
       and ts = ?ts and ts' = ?ts'
       and vs = "[\<lparr>vp_x = 0, vp_y = 0, vp_width = 0x44A00000, vp_height = 0x44340000,
                    minDepth = 0, maxDepth = 0x3F800000\<rparr>]", OF vp]
  have d1: "is_dynamic VK_DYNAMIC_STATE_VIEWPORT
              (pDynamicState (pipeline_viewport 0x44A00000 [VK_DYNAMIC_STATE_VIEWPORT]))"
    by (simp add: is_dynamic_def pipeline_viewport_def)
  have d2: "\<not> is_dynamic VK_DYNAMIC_STATE_VIEWPORT (pDynamicState (pipeline_viewport 0x44A00000 []))"
    by (simp add: is_dynamic_def pipeline_viewport_def)
  show ?thesis
    using dyn static mix d1 d2
    by (simp add: pipeline_viewport_update tokens_viewport_static)
qed

section \<open>Properties of the recorder\<close>

text \<open>
  C9. The claim: \<^verbatim>\<open>register_descriptor_set_layout\<close> stores a deep copy, with every immutable
  sampler of a sampler binding rewritten to its registry index plus one in the copy, and
  leaves the caller's arrays unchanged. The code copies the array of bindings only. The
  loop indexes the sampler array of binding \<open>i\<close> with \<open>i\<close> itself and writes through the
  caller's pointer: for one binding with the samplers \<open>0xA\<close> and \<open>0xB\<close> (indices 0 and 1) the
  caller's array becomes \<open>[1, 0xB]\<close>, the second handle is not rewritten, and the stored
  binding still points to the caller's array at address 7.
\<close>

theorem register_descriptor_set_layout_aliases_caller:
  "register_descriptor_set_layout 0x33 caller_layout (recorder_two_samplers, caller_memory) =
     Inr (0, recorder_two_samplers\<lparr>descriptor_sets := [(0x33, caller_layout)]\<rparr>,
          [7 \<mapsto> [1, 0xB]]) \<and>
   caller_memory 7 = Some [0xA, 0xB] \<and>
   map pImmutableSamplers (pBindings caller_layout) = [Some 7]"
  by (simp add: register_descriptor_set_layout_def copy_descriptor_set_layout_def read_array_def
      caller_layout_def recorder_two_samplers_def caller_memory_def VK_DESCRIPTOR_TYPE_SAMPLER_def)

text \<open>The stored bindings carry the pointers of the caller's bindings, whatever the input.\<close>

lemma copy_descriptor_set_layout_keeps_pointers:
  assumes "copy_descriptor_set_layout create_info (r, mem) = Inr (info, r1, mem1)"
  shows "pBindings info = take (unat (bindingCount create_info)) (pBindings create_info)"
  using assms
  by (auto simp: copy_descriptor_set_layout_def read_array_def split: sum.splits if_splits)

section \<open>Properties of the parser\<close>

subsection \<open>The calls of one step\<close>

lemma enqueues_from_append:
  "enqueues_from k i (xs @ ys) \<longleftrightarrow> enqueues_from k i xs \<and> enqueues_from k (i + length xs) ys"
  by (induction xs arbitrary: i) auto

lemma enqueues_from_kinds:
  "enqueues_from k i es \<Longrightarrow> cb \<in> set es \<Longrightarrow> call_kind cb = Some k"
  by (induction es arbitrary: i) (auto simp: call_kind_def split: callback.splits)

lemma kind_blockI:
  "enqueues_from k 0 es \<Longrightarrow> kind_block k (SetNum k (length es) # es @ [WaitEnqueue])"
  by (simp add: kind_block_def)

lemma kind_block_kinds:
  assumes "kind_block k cs" "cb \<in> set cs"
  shows "call_kind cb = Some k \<or> cb = WaitEnqueue"
proof -
  from assms(1) obtain n rest where cs: "cs = SetNum k n # rest"
    and r: "rest = [] \<or> (rest \<noteq> [] \<and> last rest = WaitEnqueue \<and> enqueues_from k 0 (butlast rest))"
    by (auto simp: kind_block_def split: list.splits callback.splits)
  show ?thesis
  proof (cases "cb = SetNum k n")
    case True
    then show ?thesis by (simp add: call_kind_def)
  next
    case False
    with assms(2) cs have in_rest: "cb \<in> set rest" by simp
    with r have ne: "rest \<noteq> []" and l: "last rest = WaitEnqueue"
      and e: "enqueues_from k 0 (butlast rest)" by auto
    from ne have "rest = butlast rest @ [last rest]" by simp
    with in_rest have "cb \<in> set (butlast rest) \<or> cb = last rest"
      by (metis Un_iff empty_iff empty_set set_ConsD set_append)
    with l e show ?thesis by (auto dest: enqueues_from_kinds)
  qed
qed

text \<open>The loop over the elements makes one creation call per element, with rising indices.\<close>

lemma parse_elements_calls:
  assumes frame: "\<And>f rs. calls (slots f rs) = calls rs"
    and run: "parse_elements engine k body slots objs i rs = (r, rs1)"
  shows "\<exists>es. calls rs1 = calls rs @ es \<and> enqueues_from k i es \<and>
              (r = None \<longrightarrow> length es = length objs)"
  using run
proof (induction objs arbitrary: i rs)
  case Nil
  then show ?case by simp
next
  case (Cons obj objs)
  show ?case
  proof (cases "body rs obj")
    case (Inl e)
    with Cons.prems show ?thesis by auto
  next
    case (Inr p)
    obtain h info blocks where p: "p = (h, info, blocks)" by (cases p)
    let ?rs' = "slots (\<lambda>xs. xs[i := engine (EnqueueCreate k h i info)])
               (call (EnqueueCreate k h i info) (rs\<lparr>allocator := blocks\<rparr>))"
    from Cons.prems Inr p have "parse_elements engine k body slots objs (Suc i) ?rs' = (r, rs1)"
      by simp
    from Cons.IH [OF this] obtain es where
      es: "calls rs1 = calls ?rs' @ es" "enqueues_from k (Suc i) es"
          "r = None \<longrightarrow> length es = length objs"
      by blast
    have "calls ?rs' = calls rs @ [EnqueueCreate k h i info]"
      by (simp add: frame call_def)
    with es have "calls rs1 = calls rs @ (EnqueueCreate k h i info # es) \<and>
        enqueues_from k i (EnqueueCreate k h i info # es) \<and>
        (r = None \<longrightarrow> length (EnqueueCreate k h i info # es) = length (obj # objs))"
      by simp
    then show ?thesis by blast
  qed
qed

lemma parse_kind_calls:
  assumes frame: "\<And>f rs. calls (slots f rs) = calls rs"
    and run: "parse_kind engine k body slots arr rs = (r, rs1)"
  shows "\<exists>b. calls rs1 = calls rs @ b \<and> (r = None \<longrightarrow> kind_block k b)"
proof (cases "get_array arr")
  case (Inl e)
  with run show ?thesis by (auto simp: parse_kind_def)
next
  case (Inr objs)
  let ?rs0 = "slots (resize (length objs)) (call (SetNum k (length objs)) rs)"
  obtain r' rs' where pe: "parse_elements engine k body slots objs 0 ?rs0 = (r', rs')"
    by (cases "parse_elements engine k body slots objs 0 ?rs0")
  from parse_elements_calls [OF frame pe] obtain es where
    es: "calls rs' = calls ?rs0 @ es" "enqueues_from k 0 es" "r' = None \<longrightarrow> length es = length objs"
    by blast
  have c0: "calls ?rs0 = calls rs @ [SetNum k (length objs)]"
    by (simp add: frame call_def)
  show ?thesis
  proof (cases r')
    case None
    with run Inr pe have "r = None" "rs1 = call WaitEnqueue rs'"
      by (simp_all add: parse_kind_def)
    moreover have "kind_block k (SetNum k (length objs) # es @ [WaitEnqueue])"
      using kind_blockI [OF es(2)] es(3) None by simp
    ultimately show ?thesis using es(1) c0 by (simp add: call_def)
  next
    case (Some e)
    with run Inr pe have "r = Some e" "rs1 = rs'"
      by (simp_all add: parse_kind_def)
    then show ?thesis using es(1) c0 by simp
  qed
qed

lemma parse_member_calls:
  assumes step: "\<And>v rs r rs1. f v rs = (r, rs1) \<Longrightarrow>
                   \<exists>b. calls rs1 = calls rs @ b \<and> (r = None \<longrightarrow> kind_block k b)"
    and run: "parse_member doc name k f rs = (r, rs1)"
  shows "\<exists>b. calls rs1 = calls rs @ b \<and> (r = None \<longrightarrow> kind_block k b)"
proof (cases "has_member doc name")
  case (Inl e)
  with run show ?thesis by (auto simp: parse_member_def)
next
  case (Inr has)
  show ?thesis
  proof (cases has)
    case False
    with run Inr have "r = None" "rs1 = call (SetNum k 0) rs" by (simp_all add: parse_member_def)
    then show ?thesis by (simp add: call_def kind_block_def)
  next
    case True
    show ?thesis
    proof (cases "get_member doc name")
      case (Inl e)
      with run Inr True show ?thesis by (auto simp: parse_member_def)
    next
      case inr: (Inr v)
      with run Inr True have "f v rs = (r, rs1)" by (simp add: parse_member_def)
      from step [OF this] show ?thesis .
    qed
  qed
qed

lemma frames:
  "calls (replayed_samplers_update f rs) = calls rs"
  "calls (replayed_descriptor_set_layouts_update f rs) = calls rs"
  "calls (replayed_pipeline_layouts_update f rs) = calls rs"
  "calls (replayed_shader_modules_update f rs) = calls rs"
  "calls (replayed_render_passes_update f rs) = calls rs"
  by simp_all

lemma step_calls:
  "parse_steps c engine doc ! 0 = parse_member doc ''shaderModules'' ShaderModule (parse_shader_modules c engine)"
  by (simp add: parse_steps_def)

lemma steps_ok:
  "step_ok ShaderModule (parse_member doc ''shaderModules'' ShaderModule (parse_shader_modules c engine))"
  "step_ok Sampler (parse_member doc ''samplers'' Sampler (parse_samplers c engine))"
  "step_ok DescriptorSetLayout (parse_member doc ''descriptorSetLayouts'' DescriptorSetLayout
        (parse_descriptor_set_layouts engine))"
  "step_ok PipelineLayout (parse_member doc ''pipelineLayouts'' PipelineLayout (parse_pipeline_layouts engine))"
  "step_ok RenderPass (parse_member doc ''renderPasses'' RenderPass (parse_render_passes engine))"
  unfolding step_ok_def parse_shader_modules_def parse_samplers_def parse_descriptor_set_layouts_def
    parse_pipeline_layouts_def parse_render_passes_def
  by (intro allI impI, erule parse_member_calls [rotated], erule parse_kind_calls [rotated], simp)+

lemma run_steps_Cons_None:
  "run_steps (s # ss) rs = (None, rs1) \<longleftrightarrow> (\<exists>rs'. s rs = (None, rs') \<and> run_steps ss rs' = (None, rs1))"
  by (cases "s rs") (auto split: option.splits)

lemma step_okD:
  "step_ok k s \<Longrightarrow> s rs = (r, rs1) \<Longrightarrow> \<exists>b. calls rs1 = calls rs @ b \<and> (r = None \<longrightarrow> kind_block k b)"
  unfolding step_ok_def by blast

subsection \<open>The examples\<close>

lemma serialize_one_layout:
  "serialize codec_ex Map.empty recorder_one_layout = Inr document_one_layout"
  by code_simp

lemma parse_one_layout:
  "StateReplayer_parse codec_ex engine_ex (Some document_one_layout) new_replayer =
     (Returned True, new_replayer\<lparr>calls := calls_one_layout, replayed_pipeline_layouts := [17]\<rparr>)"
  by code_simp

lemma parse_dangling:
  "StateReplayer_parse codec_ex engine_ex (Some dangling_document) new_replayer =
     (Returned False,
      new_replayer\<lparr>calls := [SetNum ShaderModule 0, SetNum Sampler 0, SetNum DescriptorSetLayout 0,
                              SetNum PipelineLayout 1],
                    replayed_pipeline_layouts := [0]\<rparr>)"
  by code_simp

subsection \<open>The order of the calls\<close>

text \<open>
  C2, as the claim states it, has \<^verbatim>\<open>parse\<close> call the engine for all seven kinds, samplers
  first and shader modules fourth. On the document that \<^verbatim>\<open>serialize\<close> writes for a recorder
  with one pipeline layout, \<^verbatim>\<open>parse\<close> returns true after these calls: shader modules come
  first, the descriptor set layouts (whose member the serializer names \<^verbatim>\<open>setLayouts\<close>, while
  the parser looks for \<^verbatim>\<open>descriptorSetLayouts\<close>) get \<^verbatim>\<open>set_num_descriptor_set_layouts(0)\<close> and
  no \<^verbatim>\<open>wait_enqueue\<close>, and no call is made for compute or graphics pipelines.
\<close>

theorem parse_begins_with_shader_modules:
  "serialize codec_ex Map.empty recorder_one_layout = Inr document_one_layout \<and>
   fst (StateReplayer_parse codec_ex engine_ex (Some document_one_layout) new_replayer) =
     Returned True \<and>
   calls (snd (StateReplayer_parse codec_ex engine_ex (Some document_one_layout) new_replayer)) =
     [SetNum ShaderModule 0, WaitEnqueue,
      SetNum Sampler 0, WaitEnqueue,
      SetNum DescriptorSetLayout 0,
      SetNum PipelineLayout 1,
      EnqueueCreate PipelineLayout 17 0 (PipelineLayoutInfo layout_push),
      WaitEnqueue,
      SetNum RenderPass 0, WaitEnqueue]"
  by (simp add: serialize_one_layout parse_one_layout calls_one_layout_def)

text \<open>
  C2, amended: whenever \<^verbatim>\<open>StateReplayer::parse\<close> returns true, the calls it has made are five
  consecutive blocks, for shader modules, samplers, descriptor set layouts, pipeline
  layouts and render passes in this order. The block of a kind is \<^verbatim>\<open>set_num_<kind>(n)\<close>, then
  \<open>n\<close> calls of \<^verbatim>\<open>enqueue_create_<kind>\<close> with the indices \<open>0\<close> to \<open>n - 1\<close>, then \<^verbatim>\<open>wait_enqueue\<close>,
  or \<^verbatim>\<open>set_num_<kind>(0)\<close> alone when the document has no member for the kind. No call names
  a compute or a graphics pipeline.
\<close>

theorem parse_call_order:
  assumes ok: "StateReplayer_parse c engine (Some doc) rs = (Returned True, rs1)"
  shows "\<exists>b1 b2 b3 b4 b5.
           calls rs1 = calls rs @ b1 @ b2 @ b3 @ b4 @ b5 \<and>
           kind_block ShaderModule b1 \<and> kind_block Sampler b2 \<and>
           kind_block DescriptorSetLayout b3 \<and> kind_block PipelineLayout b4 \<and>
           kind_block RenderPass b5 \<and>
           Some ComputePipeline \<notin> call_kind ` set (b1 @ b2 @ b3 @ b4 @ b5) \<and>
           Some GraphicsPipeline \<notin> call_kind ` set (b1 @ b2 @ b3 @ b4 @ b5)"
proof -
  from ok have "run_steps (parse_steps c engine doc) rs = (None, rs1)"
    by (auto simp: StateReplayer_parse_def split: prod.splits option.splits if_splits)
  then obtain r1 r2 r3 r4 where
    s1: "parse_member doc ''shaderModules'' ShaderModule (parse_shader_modules c engine) rs = (None, r1)" and
    s2: "parse_member doc ''samplers'' Sampler (parse_samplers c engine) r1 = (None, r2)" and
    s3: "parse_member doc ''descriptorSetLayouts'' DescriptorSetLayout
           (parse_descriptor_set_layouts engine) r2 = (None, r3)" and
    s4: "parse_member doc ''pipelineLayouts'' PipelineLayout (parse_pipeline_layouts engine) r3 = (None, r4)" and
    s5: "parse_member doc ''renderPasses'' RenderPass (parse_render_passes engine) r4 = (None, rs1)"
    unfolding parse_steps_def run_steps_Cons_None by auto
  from step_okD [OF steps_ok(1) s1] obtain b1 where
    b1: "calls r1 = calls rs @ b1" "kind_block ShaderModule b1" by auto
  from step_okD [OF steps_ok(2) s2] obtain b2 where
    b2: "calls r2 = calls r1 @ b2" "kind_block Sampler b2" by auto
  from step_okD [OF steps_ok(3) s3] obtain b3 where
    b3: "calls r3 = calls r2 @ b3" "kind_block DescriptorSetLayout b3" by auto
  from step_okD [OF steps_ok(4) s4] obtain b4 where
    b4: "calls r4 = calls r3 @ b4" "kind_block PipelineLayout b4" by auto
  from step_okD [OF steps_ok(5) s5] obtain b5 where
    b5: "calls rs1 = calls r4 @ b5" "kind_block RenderPass b5" by auto
  have kinds: "call_kind cb \<noteq> Some ComputePipeline \<and> call_kind cb \<noteq> Some GraphicsPipeline"
    if "cb \<in> set (b1 @ b2 @ b3 @ b4 @ b5)" for cb
    using that kind_block_kinds [OF b1(2), of cb] kind_block_kinds [OF b2(2), of cb]
      kind_block_kinds [OF b3(2), of cb] kind_block_kinds [OF b4(2), of cb]
      kind_block_kinds [OF b5(2), of cb]
    by (auto simp: call_kind_def)
  have "calls rs1 = calls rs @ b1 @ b2 @ b3 @ b4 @ b5"
    using b1 b2 b3 b4 b5 by simp
  moreover have "Some ComputePipeline \<notin> call_kind ` set (b1 @ b2 @ b3 @ b4 @ b5)"
    "Some GraphicsPipeline \<notin> call_kind ` set (b1 @ b2 @ b3 @ b4 @ b5)"
    using kinds by (metis imageE)+
  ultimately show ?thesis
    using b1(2) b2(2) b3(2) b4(2) b5(2) by blast
qed

theorem parse_call_order_witness:
  "StateReplayer_parse codec_ex engine_ex (Some document_one_layout) new_replayer =
     (Returned True, new_replayer\<lparr>calls := calls_one_layout, replayed_pipeline_layouts := [17]\<rparr>) \<and>
   (\<exists>b1 b2 b3 b4 b5.
      calls (new_replayer\<lparr>calls := calls_one_layout, replayed_pipeline_layouts := [17]\<rparr>) =
        calls new_replayer @ b1 @ b2 @ b3 @ b4 @ b5 \<and>
      kind_block ShaderModule b1 \<and> kind_block Sampler b2 \<and>
      kind_block DescriptorSetLayout b3 \<and> kind_block PipelineLayout b4 \<and>
      kind_block RenderPass b5 \<and>
      Some ComputePipeline \<notin> call_kind ` set (b1 @ b2 @ b3 @ b4 @ b5) \<and>
      Some GraphicsPipeline \<notin> call_kind ` set (b1 @ b2 @ b3 @ b4 @ b5))"
  using parse_call_order [OF parse_one_layout] parse_one_layout by blast

subsection \<open>The calls made before a failure\<close>

lemma parse_steps_table:
  "parse_steps c engine doc = map (table_step engine doc) (parse_table c)"
  by (simp add: parse_steps_def parse_table_def table_step_def parse_shader_modules_def
      parse_samplers_def parse_descriptor_set_layouts_def parse_pipeline_layouts_def
      parse_render_passes_def)

lemma table_frames:
  "(name, k, body, slots) \<in> set (parse_table c) \<Longrightarrow> calls (slots f rs) = calls rs"
  by (auto simp: parse_table_def)

text \<open>
  A loop that fails at an element ends in the state that the loop over the elements
  before it reaches, and the element fails in this state.
\<close>

lemma parse_elements_fail:
  "parse_elements engine k body slots objs i rs = (Some e, rs1) \<Longrightarrow>
   \<exists>j<length objs. parse_elements engine k body slots (take j objs) i rs = (None, rs1) \<and>
                    body rs1 (objs ! j) = Inl e"
proof (induction objs arbitrary: i rs)
  case Nil
  then show ?case by simp
next
  case (Cons obj objs)
  show ?case
  proof (cases "body rs obj")
    case (Inl e')
    with Cons.prems have "e' = e" "rs1 = rs" by simp_all
    with Inl have "parse_elements engine k body slots (take 0 (obj # objs)) i rs = (None, rs1) \<and>
        body rs1 ((obj # objs) ! 0) = Inl e" by simp
    then show ?thesis by blast
  next
    case (Inr p)
    obtain h info blocks where p: "p = (h, info, blocks)" by (cases p)
    let ?rs' = "slots (\<lambda>xs. xs[i := engine (EnqueueCreate k h i info)])
               (call (EnqueueCreate k h i info) (rs\<lparr>allocator := blocks\<rparr>))"
    from Cons.prems Inr p have "parse_elements engine k body slots objs (Suc i) ?rs' = (Some e, rs1)"
      by simp
    from Cons.IH [OF this] obtain j where
      j: "j < length objs" "parse_elements engine k body slots (take j objs) (Suc i) ?rs' = (None, rs1)"
         "body rs1 (objs ! j) = Inl e"
      by blast
    from j Inr p have "Suc j < length (obj # objs) \<and>
        parse_elements engine k body slots (take (Suc j) (obj # objs)) i rs = (None, rs1) \<and>
        body rs1 ((obj # objs) ! Suc j) = Inl e" by simp
    then show ?thesis by blast
  qed
qed

lemma step_fail:
  assumes frame: "\<And>f rs. calls (slots f rs) = calls rs"
    and run: "parse_member doc name k (parse_kind engine k body slots) rs = (Some e, rs1)"
    and exc: "is_exception e"
  shows "\<exists>arr objs es.
           get_member doc name = Inr arr \<and> get_array arr = Inr objs \<and>
           length es < length objs \<and>
           parse_elements engine k body slots (take (length es) objs) 0
             (slots (resize (length objs)) (call (SetNum k (length objs)) rs)) = (None, rs1) \<and>
           calls rs1 = calls rs @ SetNum k (length objs) # es \<and> enqueues_from k 0 es \<and>
           body rs1 (objs ! length es) = Inl e"
proof -
  from exc have na: "e \<noteq> AssertionFailed" by (auto simp: is_exception_def)
  from run na obtain arr where arr: "get_member doc name = Inr arr"
    and pk: "parse_kind engine k body slots arr rs = (Some e, rs1)"
    by (auto simp: parse_member_def has_member_def get_member_def
        split: sum.splits if_splits json.splits option.splits)
  from pk na obtain objs where objs: "get_array arr = Inr objs"
    by (auto simp: parse_kind_def get_array_def split: json.splits)
  let ?rs0 = "slots (resize (length objs)) (call (SetNum k (length objs)) rs)"
  from pk objs have pe: "parse_elements engine k body slots objs 0 ?rs0 = (Some e, rs1)"
    by (auto simp: parse_kind_def split: prod.splits option.splits)
  from parse_elements_fail [OF pe] obtain j where
    j: "j < length objs" "parse_elements engine k body slots (take j objs) 0 ?rs0 = (None, rs1)"
       "body rs1 (objs ! j) = Inl e"
    by blast
  from parse_elements_calls [OF frame j(2)] obtain es where
    es: "calls rs1 = calls ?rs0 @ es" "enqueues_from k 0 es" "length es = length (take j objs)"
    by blast
  from es(3) j(1) have l: "length es = j" by simp
  have c0: "calls ?rs0 = calls rs @ [SetNum k (length objs)]"
    by (simp add: frame call_def)
  from es(1) c0 have c1: "calls rs1 = calls rs @ SetNum k (length objs) # es" by simp
  from arr objs c1 j es(2) show ?thesis unfolding l [symmetric] by blast
qed

lemma step_block:
  assumes frame: "\<And>f rs. calls (slots f rs) = calls rs"
    and run: "parse_member doc name k (parse_kind engine k body slots) rs = (None, rs1)"
  shows "\<exists>b. calls rs1 = calls rs @ b \<and> kind_block k b"
proof -
  have "\<exists>b. calls rs1 = calls rs @ b \<and> (None = (None :: error option) \<longrightarrow> kind_block k b)"
    by (rule parse_member_calls [OF _ run]) (erule parse_kind_calls [OF frame])
  then show ?thesis by simp
qed

lemma run_table_fail:
  assumes frames: "\<And>name k body slots f rs. (name, k, body, slots) \<in> set tbl \<Longrightarrow>
                     calls (slots f rs) = calls rs"
    and run: "run_steps (map (table_step engine doc) tbl) rs = (Some e, rs1)"
  shows "\<exists>before name k body slots after bs rs'.
           tbl = before @ (name, k, body, slots) # after \<and>
           run_steps (map (table_step engine doc) before) rs = (None, rs') \<and>
           list_all2 kind_block (map (fst \<circ> snd) before) bs \<and>
           calls rs' = calls rs @ concat bs \<and>
           parse_member doc name k (parse_kind engine k body slots) rs' = (Some e, rs1)"
  using assms
proof (induction tbl arbitrary: rs)
  case Nil
  then show ?case by simp
next
  case (Cons entry tbl)
  obtain name k body slots where entry: "entry = (name, k, body, slots)" by (cases entry)
  let ?step = "parse_member doc name k (parse_kind engine k body slots)"
  obtain r rs2 where s: "?step rs = (r, rs2)" by (cases "?step rs")
  have frame: "\<And>f rs. calls (slots f rs) = calls rs"
    using Cons.prems(1) [of name k body slots] entry by simp
  show ?case
  proof (cases r)
    case None
    from step_block [OF frame s [unfolded None]] obtain b where
      b: "calls rs2 = calls rs @ b" "kind_block k b" by blast
    from Cons.prems(2) s None entry
    have "run_steps (map (table_step engine doc) tbl) rs2 = (Some e, rs1)"
      by (simp add: table_step_def)
    from Cons.IH [OF _ this] Cons.prems(1) obtain before name' k' body' slots' after bs rs' where
      t: "tbl = before @ (name', k', body', slots') # after"
         "run_steps (map (table_step engine doc) before) rs2 = (None, rs')"
         "list_all2 kind_block (map (fst \<circ> snd) before) bs"
         "calls rs' = calls rs2 @ concat bs"
         "parse_member doc name' k' (parse_kind engine k' body' slots') rs' = (Some e, rs1)"
      by (metis list.set_intros(2))
    have "entry # tbl = (entry # before) @ (name', k', body', slots') # after \<and>
          run_steps (map (table_step engine doc) (entry # before)) rs = (None, rs') \<and>
          list_all2 kind_block (map (fst \<circ> snd) (entry # before)) (b # bs) \<and>
          calls rs' = calls rs @ concat (b # bs)"
      using t b entry s None by (simp add: table_step_def)
    with t(5) show ?thesis by blast
  next
    case (Some e')
    with Cons.prems(2) s entry have "e' = e" "rs2 = rs1" by (simp_all add: table_step_def)
    with s Some entry have "entry # tbl = [] @ (name, k, body, slots) # tbl \<and>
          run_steps (map (table_step engine doc) []) rs = (None, rs) \<and>
          list_all2 kind_block (map (fst \<circ> snd) []) [] \<and>
          calls rs = calls rs @ concat [] \<and>
          ?step rs = (Some e, rs1)" by simp
    then show ?thesis by blast
  qed
qed

text \<open>
  On a new replayer the first shader module already finds no memory: \<^verbatim>\<open>parse\<close> returns
  false after \<^verbatim>\<open>set_num_shader_modules(1)\<close>.
\<close>

lemma allocate_raw_new_4: "allocate_raw [] 4 4 = None"
  using allocate_raw_pow2_never_returns [of 2 4 "[]"] by (simp add: fresh_last_def)

lemma parse_one_module:
  "StateReplayer_parse codec_ex engine_ex (Some document_one_module) new_replayer =
     (Returned False,
      new_replayer\<lparr>calls := [SetNum ShaderModule 1], replayed_shader_modules := [0]\<rparr>)"
  by (simp add: StateReplayer_parse_def parse_steps_def parse_member_def has_member_def
      get_member_def parse_shader_modules_def parse_kind_def get_array_def
      parse_shader_module_def member_uint_def member_uint64_def get_uint_def get_uint64_def
      get_string_def decode_base64_def allocate_raw_new_4 bindE_def document_one_module_def
      new_replayer_def call_def resize_def is_exception_def)

text \<open>
  C6, as the claim states it, has no callback delivered when \<^verbatim>\<open>parse\<close> returns failure. The
  parser calls the engine while it reads the document and takes nothing back: on a
  document whose pipeline layout refers to a descriptor set layout that the document does
  not have, \<^verbatim>\<open>parse\<close> returns false after four \<^verbatim>\<open>set_num_<kind>\<close> calls.
\<close>

theorem dangling_reference_after_calls:
  "fst (StateReplayer_parse codec_ex engine_ex (Some dangling_document) new_replayer) =
     Returned False \<and>
   calls (snd (StateReplayer_parse codec_ex engine_ex (Some dangling_document) new_replayer)) =
     [SetNum ShaderModule 0, SetNum Sampler 0, SetNum DescriptorSetLayout 0,
      SetNum PipelineLayout 1]"
  by (simp add: parse_dangling)

text \<open>
  C6, amended: when the text is not JSON, \<^verbatim>\<open>StateReplayer::parse\<close> returns failure and has
  made no call. When it returns failure on a document, an exception was thrown while an
  element of the array of one kind was read, and every call made until then stays
  delivered: the complete blocks of the kinds that come before this kind in the table,
  then \<^verbatim>\<open>set_num_<kind>\<close> with the length of the array, then the creations of the elements
  before the failing one. The replayer is left in the state that the steps of the kinds
  before, the \<^verbatim>\<open>set_num_<kind>\<close> call and the loop over these elements reach, and the failing
  element throws in this state.
\<close>

theorem parse_failure_effects:
  "StateReplayer_parse c engine None rs = (Returned False, rs) \<and>
   (StateReplayer_parse c engine (Some doc) rs = (Returned False, rs1) \<longrightarrow>
      (\<exists>before name k body slots after arr objs rs' bs es e.
         parse_table c = before @ (name, k, body, slots) # after \<and>
         get_member doc name = Inr arr \<and> get_array arr = Inr objs \<and>
         run_steps (map (table_step engine doc) before) rs = (None, rs') \<and>
         calls rs' = calls rs @ concat bs \<and>
         list_all2 kind_block (map (fst \<circ> snd) before) bs \<and>
         length es < length objs \<and>
         parse_elements engine k body slots (take (length es) objs) 0
           (slots (resize (length objs)) (call (SetNum k (length objs)) rs')) = (None, rs1) \<and>
         calls rs1 = calls rs @ concat bs @ SetNum k (length objs) # es \<and>
         enqueues_from k 0 es \<and>
         body rs1 (objs ! length es) = Inl e \<and> is_exception e))"
proof (intro conjI impI)
  show "StateReplayer_parse c engine None rs = (Returned False, rs)"
    by (simp add: StateReplayer_parse_def)
  assume "StateReplayer_parse c engine (Some doc) rs = (Returned False, rs1)"
  then obtain e where exc: "is_exception e"
    and run: "run_steps (map (table_step engine doc) (parse_table c)) rs = (Some e, rs1)"
    by (auto simp: StateReplayer_parse_def parse_steps_table split: prod.splits option.splits if_splits)
  have "\<exists>before name k body slots after bs rs'.
           parse_table c = before @ (name, k, body, slots) # after \<and>
           run_steps (map (table_step engine doc) before) rs = (None, rs') \<and>
           list_all2 kind_block (map (fst \<circ> snd) before) bs \<and>
           calls rs' = calls rs @ concat bs \<and>
           parse_member doc name k (parse_kind engine k body slots) rs' = (Some e, rs1)"
    by (rule run_table_fail [OF _ run]) (erule table_frames)
  then obtain before name k body slots after bs rs' where
    t: "parse_table c = before @ (name, k, body, slots) # after"
       "run_steps (map (table_step engine doc) before) rs = (None, rs')"
       "list_all2 kind_block (map (fst \<circ> snd) before) bs"
       "calls rs' = calls rs @ concat bs"
       "parse_member doc name k (parse_kind engine k body slots) rs' = (Some e, rs1)"
    by blast
  have frame: "\<And>f rs. calls (slots f rs) = calls rs"
    by (rule table_frames [of name k body slots c]) (simp add: t(1))
  from step_fail [OF frame t(5) exc] obtain arr objs es where
    f: "get_member doc name = Inr arr" "get_array arr = Inr objs"
       "length es < length objs"
       "parse_elements engine k body slots (take (length es) objs) 0
          (slots (resize (length objs)) (call (SetNum k (length objs)) rs')) = (None, rs1)"
       "calls rs1 = calls rs' @ SetNum k (length objs) # es" "enqueues_from k 0 es"
       "body rs1 (objs ! length es) = Inl e"
    by blast
  from f(5) t(4) have "calls rs1 = calls rs @ concat bs @ SetNum k (length objs) # es" by simp
  with t(1-4) f(1-4,6,7) exc
  show "\<exists>before name k body slots after arr objs rs' bs es e.
         parse_table c = before @ (name, k, body, slots) # after \<and>
         get_member doc name = Inr arr \<and> get_array arr = Inr objs \<and>
         run_steps (map (table_step engine doc) before) rs = (None, rs') \<and>
         calls rs' = calls rs @ concat bs \<and>
         list_all2 kind_block (map (fst \<circ> snd) before) bs \<and>
         length es < length objs \<and>
         parse_elements engine k body slots (take (length es) objs) 0
           (slots (resize (length objs)) (call (SetNum k (length objs)) rs')) = (None, rs1) \<and>
         calls rs1 = calls rs @ concat bs @ SetNum k (length objs) # es \<and>
         enqueues_from k 0 es \<and>
         body rs1 (objs ! length es) = Inl e \<and> is_exception e"
    by blast
qed

theorem parse_failure_effects_witness:
  "StateReplayer_parse codec_ex engine_ex None new_replayer = (Returned False, new_replayer) \<and>
   StateReplayer_parse codec_ex engine_ex (Some dangling_document) new_replayer =
     (Returned False,
      new_replayer\<lparr>calls := [SetNum ShaderModule 0, SetNum Sampler 0, SetNum DescriptorSetLayout 0,
                              SetNum PipelineLayout 1],
                    replayed_pipeline_layouts := [0]\<rparr>) \<and>
   (\<exists>before name k body slots after arr objs rs' bs es e.
      parse_table codec_ex = before @ (name, k, body, slots) # after \<and>
      get_member dangling_document name = Inr arr \<and> get_array arr = Inr objs \<and>
      run_steps (map (table_step engine_ex dangling_document) before) new_replayer = (None, rs') \<and>
      calls rs' = calls new_replayer @ concat bs \<and>
      list_all2 kind_block (map (fst \<circ> snd) before) bs \<and>
      length es < length objs \<and>
      parse_elements engine_ex k body slots (take (length es) objs) 0
        (slots (resize (length objs)) (call (SetNum k (length objs)) rs')) =
        (None, new_replayer\<lparr>calls := [SetNum ShaderModule 0, SetNum Sampler 0,
                                        SetNum DescriptorSetLayout 0, SetNum PipelineLayout 1],
                              replayed_pipeline_layouts := [0]\<rparr>) \<and>
      calls (new_replayer\<lparr>calls := [SetNum ShaderModule 0, SetNum Sampler 0,
                                      SetNum DescriptorSetLayout 0, SetNum PipelineLayout 1],
                            replayed_pipeline_layouts := [0]\<rparr>) =
        calls new_replayer @ concat bs @ SetNum k (length objs) # es \<and>
      enqueues_from k 0 es \<and>
      body (new_replayer\<lparr>calls := [SetNum ShaderModule 0, SetNum Sampler 0,
                                     SetNum DescriptorSetLayout 0, SetNum PipelineLayout 1],
                           replayed_pipeline_layouts := [0]\<rparr>) (objs ! length es) = Inl e \<and>
      is_exception e)"
  using parse_failure_effects [where c = codec_ex and engine = engine_ex and rs = new_replayer
      and doc = dangling_document
      and ?rs1.0 = "new_replayer\<lparr>calls := [SetNum ShaderModule 0, SetNum Sampler 0,
                              SetNum DescriptorSetLayout 0, SetNum PipelineLayout 1],
                    replayed_pipeline_layouts := [0]\<rparr>"] parse_dangling
  by blast

section \<open>Properties of the round trip\<close>

lemma get_uint_json_u32: "get_uint (json_u32 v) = Inr v"
  using uint_lt2p [of v] by (simp add: get_uint_def json_u32_def)

lemma get_float_json_float: "get_float c (json_float c v) = Inr (double_to_float c (float_to_double c v))"
  by (simp add: get_float_def json_float_def)

text \<open>
  The object of a sampler depends neither on the hash of the sampler nor on its address
  modes V and W.
\<close>

lemma serialize_sampler_forgets:
  "serialize_sampler c (h, s\<lparr>addressModeV := v, addressModeW := w\<rparr>) = serialize_sampler c (h', s)"
  by (simp add: serialize_sampler_def)

lemma serialize_samplers_only:
  "serialize c mem (empty_recorder\<lparr>samplers := ss\<rparr>) =
     Inr (JObject [(''samplers'', JArray (map (serialize_sampler c) ss)),
                   (''setLayouts'', JArray []), (''pipelineLayouts'', JArray []),
                   (''shaderModules'', JArray []), (''renderPasses'', JArray []),
                   (''computePipelines'', JArray []), (''graphicsPipelines'', JArray [])])"
  by (simp add: serialize_def empty_recorder_def bindE_def)

text \<open>The parser reads the member \<^verbatim>\<open>hash\<close> of a sampler, which the serializer does not write.\<close>

lemma parse_sampler_no_hash: "parse_sampler c (serialize_sampler c p) = Inl AssertionFailed"
  by (cases p)
    (simp add: parse_sampler_def serialize_sampler_def member_uint_def member_uint64_def
      member_float_def get_member_def bindE_def get_uint_json_u32 get_float_json_float)

text \<open>
  C1. The claim: \<^verbatim>\<open>parse\<close> of the document that \<^verbatim>\<open>serialize\<close> writes gives back the seven
  registries. For every recorder that holds samplers only, at least one, \<^verbatim>\<open>serialize\<close>
  writes a document, and \<^verbatim>\<open>parse\<close> of this document does not return: after
  \<^verbatim>\<open>set_num_shader_modules(0)\<close>, \<^verbatim>\<open>wait_enqueue\<close> and \<^verbatim>\<open>set_num_samplers\<close> the read of the member
  \<^verbatim>\<open>hash\<close> of the first sampler fails its assertion, and no sampler is created.
\<close>

theorem sampler_document_aborts:
  "\<exists>doc. serialize c mem (empty_recorder\<lparr>samplers := (h, s) # ss\<rparr>) = Inr doc \<and>
         fst (StateReplayer_parse c engine (Some doc) rs) = Aborted AssertionFailed \<and>
         calls (snd (StateReplayer_parse c engine (Some doc) rs)) =
           calls rs @ [SetNum ShaderModule 0, WaitEnqueue, SetNum Sampler (Suc (length ss))]"
  unfolding serialize_samplers_only
  by (simp add: StateReplayer_parse_def parse_steps_def parse_member_def has_member_def
      get_member_def parse_shader_modules_def parse_samplers_def parse_kind_def get_array_def
      parse_sampler_no_hash call_def element_def bindE_def is_exception_def)

end
